theory Spec2Isabelle
  imports Main "HOL-Library.Sublist" "HOL-Library.Char_ord" "HOL-Library.List_Lexorder"
begin

section \<open>Data model (src/types/database.ts, database/schema.sql)\<close>

text \<open>
  Strings are compared byte by byte where the database orders by a text column.
  Identifiers are opaque strings (UUIDs issued by the database, decimal renderings of
  \<open>Date.now()\<close> in the mock list). Timestamps are the ISO strings of the source, kept
  as the number of milliseconds they render. A column that can be SQL NULL, and a field
  that can be \<open>undefined\<close> or \<open>null\<close> in TypeScript, is an \<open>option\<close>. An INTEGER
  column holds an \<open>int\<close>, and an insert checks its range. Texts are taken to fit their
  columns: the length limits of the VARCHAR columns (255 for names and titles, 500 for
  storage paths and addresses, 100 for bucket names) are not part of the model.
\<close>

type_synonym uuid = string

record map_row =
  m_id :: uuid
  m_name :: string
  m_description :: "string option"
  m_thumbnail_url :: "string option"
  m_metadata :: "(string \<times> string) list"
  m_strategy_count :: int
  m_created_at :: nat
  m_updated_at :: nat

record strategy_row =
  s_id :: uuid
  s_map_id :: uuid
  s_title :: string
  s_description :: string
  s_current_version_id :: "uuid option"
  s_created_at :: nat
  s_updated_at :: nat

record version_row =
  v_id :: uuid
  v_strategy_id :: uuid
  v_version_number :: int
  v_title :: string
  v_description :: string
  v_change_notes :: "string option"
  v_created_at :: nat

record image_row =
  i_id :: uuid
  i_strategy_id :: "uuid option"
  i_version_id :: "uuid option"
  i_storage_path :: string
  i_bucket_name :: string
  i_url :: string
  i_alt_text :: "string option"
  i_position_in_content :: int
  i_created_at :: nat

text \<open>
  The embedded \<open>map\<close> of a strategy query: \<open>map:maps(*)\<close> embeds the whole row,
  \<open>map:maps(name, thumbnail_url)\<close> the two named columns.
\<close>

datatype map_embed = MapAll map_row | MapNameThumb string "string option"

text \<open>
  \<open>StrategyWithVersion\<close>. Every function of the data access layer returns a plain
  JavaScript object cast to this interface, so each field beyond the columns every path
  selects is optional here: \<open>None\<close> is a key that the object does not have (or that is
  \<open>null\<close>).
\<close>

record strategy_with_version =
  sv_id :: uuid
  sv_map_id :: uuid
  sv_title :: "string option"
  sv_description :: "string option"
  sv_current_version_id :: "uuid option"
  sv_created_at :: nat
  sv_updated_at :: nat
  sv_current_version :: "version_row option"
  sv_map :: "map_embed option"
  sv_images :: "image_row list option"

record create_strategy_form =
  csf_map_id :: uuid
  csf_title :: string
  csf_description :: string
  csf_change_notes :: "string option"

record update_strategy_form =
  usf_title :: string
  usf_description :: string
  usf_change_notes :: "string option"

section \<open>Errors\<close>

text \<open>
  A backend call resolves to \<open>{ data, error }\<close>. \<open>Fault\<close> stands for every rejection
  that does not depend on the tables modelled here (network, row level security, column
  lengths); the other constructors are the rejections the schema and the \<open>.single()\<close>
  modifier produce (\<open>NumericValueOutOfRange\<close> is a number that does not fit an INTEGER
  column, \<open>MoreThanOneRow\<close> is a scalar subquery of a stored procedure that
  finds several rows). What the source throws is either such an error object or a
  JavaScript \<open>Error\<close> with a message.
\<close>

datatype pg_error =
  Fault | NotSingle | ForeignKey | UniqueViolation | NumericValueOutOfRange | MoreThanOneRow
  | BucketNotFound | ObjectExists

datatype error = Error string | Pg pg_error | TypeError

section \<open>The hosted backend\<close>

text \<open>
  The four tables in insertion order, the storage buckets and their objects, and three
  oracles: \<open>faults\<close> gives, for each successive call, whether it is rejected for an
  outside reason; \<open>uuids\<close> gives the successive results of \<open>gen_random_uuid()\<close>;
  \<open>db_now\<close> is the database clock, which every call advances.
\<close>

record backend =
  tbl_maps :: "map_row list"
  tbl_strategies :: "strategy_row list"
  tbl_strategy_versions :: "version_row list"
  tbl_strategy_images :: "image_row list"
  buckets :: "string list"
  objects :: "(string \<times> string) list"
  faults :: "bool list"
  uuids :: "uuid list"
  db_now :: nat

definition request :: "backend \<Rightarrow> bool \<times> backend" where
  "request db =
     (case faults db of
        [] \<Rightarrow> (False, db\<lparr>db_now := Suc (db_now db)\<rparr>)
      | f # fs \<Rightarrow> (f, db\<lparr>faults := fs, db_now := Suc (db_now db)\<rparr>))"

text \<open>Whether the \<open>k\<close>-th call from now (counting from 0) is rejected for an outside reason.\<close>

definition rejected :: "backend \<Rightarrow> nat \<Rightarrow> bool" where
  "rejected db k = (k < length (faults db) \<and> faults db ! k)"

text \<open>\<open>.single()\<close>: exactly one row, or the error PGRST116.\<close>

definition single :: "'r list \<Rightarrow> pg_error + 'r" where
  "single rows = (case rows of [r] \<Rightarrow> Inr r | _ \<Rightarrow> Inl NotSingle)"

text \<open>\<open>from(t).select(..).eq(..)\<close>, with and without \<open>.single()\<close>.\<close>

definition select_rows ::
  "backend \<Rightarrow> (backend \<Rightarrow> 'r list) \<Rightarrow> ('r \<Rightarrow> bool) \<Rightarrow> (pg_error + 'r list) \<times> backend" where
  "select_rows db tbl p =
     (case request db of
        (True, db1) \<Rightarrow> (Inl Fault, db1)
      | (False, db1) \<Rightarrow> (Inr (filter p (tbl db1)), db1))"

definition select_single ::
  "backend \<Rightarrow> (backend \<Rightarrow> 'r list) \<Rightarrow> ('r \<Rightarrow> bool) \<Rightarrow> (pg_error + 'r) \<times> backend" where
  "select_single db tbl p =
     (case request db of
        (True, db1) \<Rightarrow> (Inl Fault, db1)
      | (False, db1) \<Rightarrow> (single (filter p (tbl db1)), db1))"

text \<open>
  \<open>gen_random_uuid()\<close> for the primary key of an inserted row: the next value of the
  oracle; an exhausted oracle rejects the insert.
\<close>

definition gen_random_uuid :: "backend \<Rightarrow> (uuid \<times> backend) option" where
  "gen_random_uuid db =
     (case uuids db of [] \<Rightarrow> None | u # us \<Rightarrow> Some (u, db\<lparr>uuids := us\<rparr>))"

text \<open>The range of an INTEGER column.\<close>

definition in_int4 :: "int \<Rightarrow> bool" where
  "in_int4 n = (- 2147483648 \<le> n \<and> n \<le> 2147483647)"

text \<open>
  The trigger \<open>update_map_strategy_count\<close> (schema.sql): \<open>strategy_count\<close> of the map
  with that id changes by \<open>d\<close>. It is an UPDATE of \<open>maps\<close>, so the trigger
  \<open>update_maps_updated_at\<close> (migration 002) sets \<open>updated_at\<close> of that row to the time
  \<open>now\<close> of the statement.
\<close>

definition bump_strategy_count :: "uuid \<Rightarrow> int \<Rightarrow> nat \<Rightarrow> map_row list \<Rightarrow> map_row list" where
  "bump_strategy_count map_id d now ms =
     map (\<lambda>m. if m_id m = map_id
               then m\<lparr>m_strategy_count := m_strategy_count m + d, m_updated_at := now\<rparr>
               else m) ms"

text \<open>
  \<open>from('strategies').insert({map_id, title, description}).select().single()\<close>:
  primary key, the foreign key to \<open>maps\<close>, and the trigger.
\<close>

definition insert_strategy ::
  "backend \<Rightarrow> uuid \<Rightarrow> string \<Rightarrow> string \<Rightarrow> (pg_error + strategy_row) \<times> backend" where
  "insert_strategy db map_id title description =
     (case request db of
        (True, db1) \<Rightarrow> (Inl Fault, db1)
      | (False, db1) \<Rightarrow>
          (case gen_random_uuid db1 of
             None \<Rightarrow> (Inl Fault, db1)
           | Some (u, db2) \<Rightarrow>
               if u \<in> s_id ` set (tbl_strategies db2) then (Inl UniqueViolation, db2)
               else if map_id \<notin> m_id ` set (tbl_maps db2) then (Inl ForeignKey, db2)
               else
                 let row = \<lparr>s_id = u, s_map_id = map_id, s_title = title,
                            s_description = description, s_current_version_id = None,
                            s_created_at = db_now db2, s_updated_at = db_now db2\<rparr>
                 in (Inr row,
                     db2\<lparr>tbl_strategies := tbl_strategies db2 @ [row],
                         tbl_maps := bump_strategy_count map_id 1 (db_now db2) (tbl_maps db2)\<rparr>)))"

text \<open>
  \<open>from('strategy_versions').insert({..}).select().single()\<close>: the range of
  \<open>version_number\<close>, primary key, the foreign key to \<open>strategies\<close>, and
  \<open>UNIQUE(strategy_id, version_number)\<close>.
\<close>

definition insert_version ::
  "backend \<Rightarrow> uuid \<Rightarrow> int \<Rightarrow> string \<Rightarrow> string \<Rightarrow> string option \<Rightarrow>
     (pg_error + version_row) \<times> backend" where
  "insert_version db strategy_id version_number title description change_notes =
     (case request db of
        (True, db1) \<Rightarrow> (Inl Fault, db1)
      | (False, db1) \<Rightarrow>
          if \<not> in_int4 version_number then (Inl NumericValueOutOfRange, db1) else
          (case gen_random_uuid db1 of
             None \<Rightarrow> (Inl Fault, db1)
           | Some (u, db2) \<Rightarrow>
               if u \<in> v_id ` set (tbl_strategy_versions db2) then (Inl UniqueViolation, db2)
               else if strategy_id \<notin> s_id ` set (tbl_strategies db2) then (Inl ForeignKey, db2)
               else if list_ex (\<lambda>v. v_strategy_id v = strategy_id \<and> v_version_number v = version_number)
                         (tbl_strategy_versions db2)
                 then (Inl UniqueViolation, db2)
               else
                 let row = \<lparr>v_id = u, v_strategy_id = strategy_id,
                            v_version_number = version_number, v_title = title,
                            v_description = description, v_change_notes = change_notes,
                            v_created_at = db_now db2\<rparr>
                 in (Inr row, db2\<lparr>tbl_strategy_versions := tbl_strategy_versions db2 @ [row]\<rparr>)))"

text \<open>
  \<open>from('strategy_images').insert({..}).select().single()\<close>: the range of
  \<open>position_in_content\<close>, primary key and the two nullable foreign keys.
\<close>

definition insert_image ::
  "backend \<Rightarrow> uuid option \<Rightarrow> uuid option \<Rightarrow> string \<Rightarrow> string \<Rightarrow> string \<Rightarrow> string option \<Rightarrow> int \<Rightarrow>
     (pg_error + image_row) \<times> backend" where
  "insert_image db strategy_id version_id storage_path bucket_name url alt_text position_in_content =
     (case request db of
        (True, db1) \<Rightarrow> (Inl Fault, db1)
      | (False, db1) \<Rightarrow>
          if \<not> in_int4 position_in_content then (Inl NumericValueOutOfRange, db1) else
          (case gen_random_uuid db1 of
             None \<Rightarrow> (Inl Fault, db1)
           | Some (u, db2) \<Rightarrow>
               if u \<in> i_id ` set (tbl_strategy_images db2) then (Inl UniqueViolation, db2)
               else if (case strategy_id of None \<Rightarrow> False
                        | Some s \<Rightarrow> s \<notin> s_id ` set (tbl_strategies db2))
                 then (Inl ForeignKey, db2)
               else if (case version_id of None \<Rightarrow> False
                        | Some v \<Rightarrow> v \<notin> v_id ` set (tbl_strategy_versions db2))
                 then (Inl ForeignKey, db2)
               else
                 let row = \<lparr>i_id = u, i_strategy_id = strategy_id, i_version_id = version_id,
                            i_storage_path = storage_path, i_bucket_name = bucket_name,
                            i_url = url, i_alt_text = alt_text,
                            i_position_in_content = position_in_content,
                            i_created_at = db_now db2\<rparr>
                 in (Inr row, db2\<lparr>tbl_strategy_images := tbl_strategy_images db2 @ [row]\<rparr>)))"

text \<open>
  \<open>from('strategies').update(patch).eq('id', id).select(..).single()\<close>: the patch is
  applied to the rows with that id, and the trigger \<open>update_strategies_updated_at\<close>
  (migration 002) sets their \<open>updated_at\<close> to the time of the statement; a singular
  response that is not exactly one row is an error, and the statement is then undone.
  No patch of this file changes \<open>map_id\<close>, so the count trigger has nothing to do.
\<close>

definition update_strategy ::
  "backend \<Rightarrow> uuid \<Rightarrow> (strategy_row \<Rightarrow> strategy_row) \<Rightarrow> (pg_error + strategy_row) \<times> backend" where
  "update_strategy db sid patch =
     (case request db of
        (True, db1) \<Rightarrow> (Inl Fault, db1)
      | (False, db1) \<Rightarrow>
          (case filter (\<lambda>r. s_id r = sid) (tbl_strategies db1) of
             [r] \<Rightarrow> (Inr ((patch r)\<lparr>s_updated_at := db_now db1\<rparr>),
                     db1\<lparr>tbl_strategies :=
                           map (\<lambda>r. if s_id r = sid then (patch r)\<lparr>s_updated_at := db_now db1\<rparr>
                                     else r)
                             (tbl_strategies db1)\<rparr>)
           | _ \<Rightarrow> (Inl NotSingle, db1)))"

definition update_image ::
  "backend \<Rightarrow> uuid \<Rightarrow> (image_row \<Rightarrow> image_row) \<Rightarrow> (pg_error + image_row) \<times> backend" where
  "update_image db iid patch =
     (case request db of
        (True, db1) \<Rightarrow> (Inl Fault, db1)
      | (False, db1) \<Rightarrow>
          (case filter (\<lambda>r. i_id r = iid) (tbl_strategy_images db1) of
             [r] \<Rightarrow> (Inr (patch r),
                     db1\<lparr>tbl_strategy_images :=
                           map (\<lambda>r. if i_id r = iid then patch r else r) (tbl_strategy_images db1)\<rparr>)
           | _ \<Rightarrow> (Inl NotSingle, db1)))"

text \<open>
  \<open>from('strategies').delete().eq('id', id)\<close>, with \<open>ON DELETE CASCADE\<close> on the
  versions and images that reference a deleted row, and the trigger on \<open>maps\<close>.
\<close>

definition delete_strategies ::
  "(strategy_row \<Rightarrow> bool) \<Rightarrow> backend \<Rightarrow> backend" where
  "delete_strategies p db =
     (let gone = filter p (tbl_strategies db);
          gone_versions = filter (\<lambda>v. v_strategy_id v \<in> s_id ` set gone) (tbl_strategy_versions db)
      in db\<lparr>tbl_strategies := filter (\<lambda>r. \<not> p r) (tbl_strategies db),
             tbl_strategy_versions :=
               filter (\<lambda>v. v_strategy_id v \<notin> s_id ` set gone) (tbl_strategy_versions db),
             tbl_strategy_images :=
               filter (\<lambda>i. (case i_strategy_id i of None \<Rightarrow> True
                              | Some x \<Rightarrow> x \<notin> s_id ` set gone)
                          \<and> (case i_version_id i of None \<Rightarrow> True
                              | Some x \<Rightarrow> x \<notin> v_id ` set gone_versions))
                 (tbl_strategy_images db),
             tbl_maps :=
               foldr (\<lambda>r. bump_strategy_count (s_map_id r) (- 1) (db_now db)) gone (tbl_maps db)\<rparr>)"

definition delete_strategy :: "backend \<Rightarrow> uuid \<Rightarrow> pg_error option \<times> backend" where
  "delete_strategy db sid =
     (case request db of
        (True, db1) \<Rightarrow> (Some Fault, db1)
      | (False, db1) \<Rightarrow> (None, delete_strategies (\<lambda>r. s_id r = sid) db1))"

definition delete_image :: "backend \<Rightarrow> uuid \<Rightarrow> pg_error option \<times> backend" where
  "delete_image db iid =
     (case request db of
        (True, db1) \<Rightarrow> (Some Fault, db1)
      | (False, db1) \<Rightarrow>
          (None, db1\<lparr>tbl_strategy_images :=
                        filter (\<lambda>i. i_id i \<noteq> iid) (tbl_strategy_images db1)\<rparr>))"

text \<open>
  The stored procedure \<open>get_strategy_with_version\<close> (migrations/003_rpc_functions.sql).
  The JSON object it builds has the keys \<open>id\<close>, \<open>map_id\<close>, \<open>current_version_id\<close>,
  \<open>created_at\<close>, \<open>updated_at\<close>, \<open>current_version\<close>, \<open>map\<close> and \<open>images\<close>, and no
  others; \<open>json_agg\<close> over no rows is NULL; a scalar subquery that finds no row is NULL.
\<close>

definition scalar_subquery :: "'r list \<Rightarrow> pg_error + 'r option" where
  "scalar_subquery rows =
     (case rows of [] \<Rightarrow> Inr None | [r] \<Rightarrow> Inr (Some r) | _ \<Rightarrow> Inl MoreThanOneRow)"

definition json_agg :: "'r list \<Rightarrow> 'r list option" where
  "json_agg rows = (if rows = [] then None else Some rows)"

definition strategy_json :: "backend \<Rightarrow> (map_row \<Rightarrow> map_embed) \<Rightarrow> strategy_row \<Rightarrow>
    pg_error + strategy_with_version" where
  "strategy_json db emb s =
     (case scalar_subquery
             (filter (\<lambda>sv. Some (v_id sv) = s_current_version_id s) (tbl_strategy_versions db)) of
        Inl e \<Rightarrow> Inl e
      | Inr current_version \<Rightarrow>
     (case scalar_subquery (filter (\<lambda>m. m_id m = s_map_id s) (tbl_maps db)) of
        Inl e \<Rightarrow> Inl e
      | Inr m \<Rightarrow>
          Inr \<lparr>sv_id = s_id s, sv_map_id = s_map_id s, sv_title = None, sv_description = None,
               sv_current_version_id = s_current_version_id s,
               sv_created_at = s_created_at s, sv_updated_at = s_updated_at s,
               sv_current_version = current_version, sv_map = map_option emb m,
               sv_images =
                 json_agg (sort_key i_position_in_content
                   (filter (\<lambda>si. i_strategy_id si = Some (s_id s)) (tbl_strategy_images db)))\<rparr>))"

definition get_strategy_with_version ::
  "backend \<Rightarrow> uuid \<Rightarrow> (pg_error + strategy_with_version option) \<times> backend" where
  "get_strategy_with_version db p_strategy_id =
     (case request db of
        (True, db1) \<Rightarrow> (Inl Fault, db1)
      | (False, db1) \<Rightarrow>
          (case scalar_subquery (filter (\<lambda>s. s_id s = p_strategy_id) (tbl_strategies db1)) of
             Inl e \<Rightarrow> (Inl e, db1)
           | Inr None \<Rightarrow> (Inr None, db1)
           | Inr (Some s) \<Rightarrow>
               (case strategy_json db1 MapAll s of
                  Inl e \<Rightarrow> (Inl e, db1)
                | Inr j \<Rightarrow> (Inr (Some j), db1))))"

text \<open>Descending order on a key (\<open>ascending: false\<close>).\<close>

definition order_desc :: "('r \<Rightarrow> nat) \<Rightarrow> 'r list \<Rightarrow> 'r list" where
  "order_desc k rows = rev (sort_key k rows)"

text \<open>
  The stored procedure \<open>get_strategies_with_versions\<close>: the same object per strategy,
  with the two named columns of the map, for the strategies of the map (all of them when
  \<open>p_map_id\<close> is NULL), newest update first.
\<close>

fun collect :: "('a \<Rightarrow> 'e + 'b) \<Rightarrow> 'a list \<Rightarrow> 'e + 'b list" where
  "collect f [] = Inr []"
| "collect f (x # xs) =
     (case f x of
        Inl e \<Rightarrow> Inl e
      | Inr y \<Rightarrow> (case collect f xs of Inl e \<Rightarrow> Inl e | Inr ys \<Rightarrow> Inr (y # ys)))"

definition get_strategies_with_versions ::
  "backend \<Rightarrow> uuid option \<Rightarrow> (pg_error + strategy_with_version list) \<times> backend" where
  "get_strategies_with_versions db p_map_id =
     (case request db of
        (True, db1) \<Rightarrow> (Inl Fault, db1)
      | (False, db1) \<Rightarrow>
          (collect (strategy_json db1 (\<lambda>m. MapNameThumb (m_name m) (m_thumbnail_url m)))
             (order_desc s_updated_at
                (filter (\<lambda>s. p_map_id = None \<or> Some (s_map_id s) = p_map_id) (tbl_strategies db1))),
           db1))"

text \<open>The to-one embedding \<open>map:maps(..)\<close> of a strategy row: the map row it references.\<close>

definition embed_map :: "backend \<Rightarrow> uuid \<Rightarrow> map_row option" where
  "embed_map db map_id = find (\<lambda>m. m_id m = map_id) (tbl_maps db)"

text \<open>
  JavaScript truthiness of an optional string (\<open>undefined\<close>, \<open>null\<close> and the empty
  string are falsy), and \<open>a || b\<close> on it.
\<close>

definition truthy :: "string option \<Rightarrow> bool" where
  "truthy a = (case a of None \<Rightarrow> False | Some s \<Rightarrow> s \<noteq> [])"

definition or_string :: "string option \<Rightarrow> string \<Rightarrow> string" where
  "or_string a b = (if truthy a then the a else b)"

text \<open>\<open>a || null\<close>.\<close>

definition or_null :: "string option \<Rightarrow> string option" where
  "or_null a = (if truthy a then a else None)"

definition with_version ::
  "strategy_row \<Rightarrow> map_embed option \<Rightarrow> version_row option \<Rightarrow> image_row list option \<Rightarrow>
     strategy_with_version" where
  "with_version r m v imgs =
     \<lparr>sv_id = s_id r, sv_map_id = s_map_id r, sv_title = Some (s_title r),
      sv_description = Some (s_description r),
      sv_current_version_id = s_current_version_id r,
      sv_created_at = s_created_at r, sv_updated_at = s_updated_at r,
      sv_current_version = v, sv_map = m, sv_images = imgs\<rparr>"

section \<open>Data access layer: strategies (lib/database.ts, here unnamed/part_002)\<close>

text \<open>
  Each exported function starts with the guard \<open>if (!supabase)\<close>; the client is
  \<open>None\<close> when the environment variables are missing. The function named
  \<open>f_db\<close> is the body of \<open>f\<close> after its guard.
\<close>

definition configured :: "('e + 'a) \<times> backend \<Rightarrow> ('e + 'a) \<times> backend option" where
  "configured r = (fst r, Some (snd r))"

definition createStrategy_db ::
  "backend \<Rightarrow> create_strategy_form \<Rightarrow> (error + strategy_with_version) \<times> backend" where
  "createStrategy_db db strategyData =
     (case insert_strategy db (csf_map_id strategyData) (csf_title strategyData)
             (csf_description strategyData) of
        (Inl strategyError, db1) \<Rightarrow> (Inl (Pg strategyError), db1)
      | (Inr strategy, db1) \<Rightarrow>
     (case insert_version db1 (s_id strategy) 1 (csf_title strategyData)
             (csf_description strategyData)
             (Some (or_string (csf_change_notes strategyData) ''Initial version'')) of
        (Inl versionError, db2) \<Rightarrow> (Inl (Pg versionError), db2)
      | (Inr version, db2) \<Rightarrow>
     (case update_strategy db2 (s_id strategy)
             (\<lambda>r. r\<lparr>s_current_version_id := Some (v_id version)\<rparr>) of
        (Inl updateError, db3) \<Rightarrow> (Inl (Pg updateError), db3)
      | (Inr updatedStrategy, db3) \<Rightarrow>
     (case select_single db3 tbl_strategy_versions (\<lambda>v. v_id v = v_id version) of
        (Inl versionFetchError, db4) \<Rightarrow> (Inl (Pg versionFetchError), db4)
      | (Inr currentVersion, db4) \<Rightarrow>
          (Inr (with_version updatedStrategy
                  (map_option (\<lambda>m. MapNameThumb (m_name m) (m_thumbnail_url m))
                     (embed_map db3 (s_map_id updatedStrategy)))
                  (Some currentVersion) (Some [])),
           db4)))))"

definition createStrategy ::
  "backend option \<Rightarrow> create_strategy_form \<Rightarrow> (error + strategy_with_version) \<times> backend option" where
  "createStrategy supabase strategyData =
     (case supabase of
        None \<Rightarrow> (Inl (Error ''Strategy creation requires Supabase configuration''), None)
      | Some db \<Rightarrow> configured (createStrategy_db db strategyData))"

text \<open>
  Lines 466-478 of \<open>updateStrategy\<close>: the version number of the next version. The
  error of the read of the current version is not looked at; only its data is.
\<close>

definition nextVersionNumber :: "backend \<Rightarrow> uuid option \<Rightarrow> int \<times> backend" where
  "nextVersionNumber db current_version_id =
     (if truthy current_version_id then
        (case select_single db tbl_strategy_versions (\<lambda>v. Some (v_id v) = current_version_id) of
           (Inl _, db1) \<Rightarrow> (1, db1)
         | (Inr currentVersion, db1) \<Rightarrow> (v_version_number currentVersion + 1, db1))
      else (1, db))"

definition updateStrategy_db ::
  "backend \<Rightarrow> uuid \<Rightarrow> update_strategy_form \<Rightarrow> (error + strategy_with_version) \<times> backend" where
  "updateStrategy_db db ident strategyData =
     (case select_single db tbl_strategies (\<lambda>r. s_id r = ident) of
        (Inl fetchError, db1) \<Rightarrow> (Inl (Pg fetchError), db1)
      | (Inr currentStrategy, db1) \<Rightarrow>
     (case nextVersionNumber db1 (s_current_version_id currentStrategy) of
        (n, db2) \<Rightarrow>
     (case insert_version db2 ident n (usf_title strategyData) (usf_description strategyData)
             (usf_change_notes strategyData) of
        (Inl versionError, db3) \<Rightarrow> (Inl (Pg versionError), db3)
      | (Inr newVersion, db3) \<Rightarrow>
     (case update_strategy db3 ident
             (\<lambda>r. r\<lparr>s_current_version_id := Some (v_id newVersion),
                     s_title := usf_title strategyData,
                     s_description := usf_description strategyData\<rparr>) of
        (Inl updateError, db4) \<Rightarrow> (Inl (Pg updateError), db4)
      | (Inr updatedStrategy, db4) \<Rightarrow>
     (case select_rows db4 tbl_strategy_images (\<lambda>i. i_strategy_id i = Some ident) of
        (images, db5) \<Rightarrow>
          (Inr (with_version updatedStrategy
                  (map_option MapAll (embed_map db4 (s_map_id updatedStrategy)))
                  (Some newVersion)
                  (Some (case images of
                           Inl _ \<Rightarrow> []
                         | Inr rows \<Rightarrow> sort_key i_position_in_content rows))),
           db5))))))"

definition updateStrategy ::
  "backend option \<Rightarrow> uuid \<Rightarrow> update_strategy_form \<Rightarrow>
     (error + strategy_with_version) \<times> backend option" where
  "updateStrategy supabase ident strategyData =
     (case supabase of
        None \<Rightarrow> (Inl (Error ''Strategy updates require Supabase configuration''), None)
      | Some db \<Rightarrow> configured (updateStrategy_db db ident strategyData))"

definition deleteStrategy :: "backend option \<Rightarrow> uuid \<Rightarrow> (error + unit) \<times> backend option" where
  "deleteStrategy supabase ident =
     (case supabase of
        None \<Rightarrow> (Inr (), None)
      | Some db \<Rightarrow>
          (case delete_strategy db ident of
             (Some e, db1) \<Rightarrow> (Inl (Pg e), Some db1)
           | (None, db1) \<Rightarrow> (Inr (), Some db1)))"

text \<open>
  \<open>getStrategy\<close>. The fallback after a failed procedure call reads the strategy with
  its map and images, then the current version (the error of that read is not looked
  at), and fills \<open>title\<close> and \<open>description\<close>. After a successful procedure call the
  object is returned as it came; the debug output reads \<open>strategy.id\<close> first, which
  throws when the procedure returned NULL.
\<close>

definition getStrategy_fallback ::
  "backend \<Rightarrow> uuid \<Rightarrow> (error + strategy_with_version option) \<times> backend" where
  "getStrategy_fallback db ident =
     (case select_single db tbl_strategies (\<lambda>r. s_id r = ident) of
        (Inl strategyError, db1) \<Rightarrow> (Inl (Pg strategyError), db1)
      | (Inr strategyData, db1) \<Rightarrow>
     (case (if truthy (s_current_version_id strategyData)
            then (case select_single db1 tbl_strategy_versions
                         (\<lambda>v. Some (v_id v) = s_current_version_id strategyData) of
                    (Inl _, db2) \<Rightarrow> (None, db2)
                  | (Inr versionData, db2) \<Rightarrow> (Some versionData, db2))
            else (None, db1)) of
        (current_version, db2) \<Rightarrow>
          (Inr (Some
             ((with_version strategyData
                 (map_option MapAll (embed_map db1 (s_map_id strategyData)))
                 current_version
                 (Some (filter (\<lambda>i. i_strategy_id i = Some ident) (tbl_strategy_images db1))))
              \<lparr>sv_title :=
                 Some (or_string (Some (s_title strategyData))
                         (or_string (map_option v_title current_version) [])),
               sv_description :=
                 Some (or_string (Some (s_description strategyData))
                         (or_string (map_option v_description current_version) []))\<rparr>)),
           db2)))"

definition getStrategy_db ::
  "backend \<Rightarrow> uuid \<Rightarrow> (error + strategy_with_version option) \<times> backend" where
  "getStrategy_db db ident =
     (case get_strategy_with_version db ident of
        (Inl rpcError, db1) \<Rightarrow> getStrategy_fallback db1 ident
      | (Inr None, db1) \<Rightarrow> (Inl TypeError, db1)
      | (Inr (Some strategy), db1) \<Rightarrow> (Inr (Some strategy), db1))"

definition getStrategy ::
  "backend option \<Rightarrow> uuid \<Rightarrow> (error + strategy_with_version option) \<times> backend option" where
  "getStrategy supabase ident =
     (case supabase of
        None \<Rightarrow> (Inr None, None)
      | Some db \<Rightarrow> configured (getStrategy_db db ident))"

text \<open>
  \<open>getStrategies\<close>. In the fallback the current versions are fetched by
  \<open>Promise.all\<close> over the strategies; the reads are issued in list order and change
  nothing, so they are taken one after the other.
\<close>

fun fetch_versions ::
  "backend \<Rightarrow> (strategy_row \<Rightarrow> version_row option \<Rightarrow> strategy_with_version) \<Rightarrow>
     strategy_row list \<Rightarrow> strategy_with_version list \<times> backend" where
  "fetch_versions db build [] = ([], db)"
| "fetch_versions db build (strategy # rest) =
     (case (if truthy (s_current_version_id strategy)
            then (case select_single db tbl_strategy_versions
                         (\<lambda>v. Some (v_id v) = s_current_version_id strategy) of
                    (Inl _, db1) \<Rightarrow> (None, db1)
                  | (Inr versionData, db1) \<Rightarrow> (Some versionData, db1))
            else (None, db)) of
        (versionData, db1) \<Rightarrow>
          (case fetch_versions db1 build rest of
             (others, db2) \<Rightarrow> (build strategy versionData # others, db2)))"

definition getStrategies_db ::
  "backend \<Rightarrow> uuid option \<Rightarrow> (error + strategy_with_version list) \<times> backend" where
  "getStrategies_db db mapId =
     (case get_strategies_with_versions db (or_null mapId) of
        (Inl rpcError, db1) \<Rightarrow>
          (case select_rows db1 tbl_strategies
                  (\<lambda>r. truthy mapId \<longrightarrow> Some (s_map_id r) = mapId) of
             (Inl fallbackError, db2) \<Rightarrow> (Inl (Pg fallbackError), db2)
           | (Inr fallbackData, db2) \<Rightarrow>
               (case fetch_versions db2
                       (\<lambda>strategy versionData.
                          with_version strategy
                            (map_option (\<lambda>m. MapNameThumb (m_name m) (m_thumbnail_url m))
                               (embed_map db2 (s_map_id strategy)))
                            versionData
                            (Some (sort_key i_position_in_content
                               (filter (\<lambda>i. i_strategy_id i = Some (s_id strategy))
                                  (tbl_strategy_images db2)))))
                       (order_desc s_updated_at fallbackData) of
                  (strategiesWithVersions, db3) \<Rightarrow> (Inr strategiesWithVersions, db3)))
      | (Inr rpcData, db1) \<Rightarrow> (Inr rpcData, db1))"

definition getStrategies ::
  "backend option \<Rightarrow> uuid option \<Rightarrow> (error + strategy_with_version list) \<times> backend option" where
  "getStrategies supabase mapId =
     (case supabase of
        None \<Rightarrow> (Inr [], None)
      | Some db \<Rightarrow> configured (getStrategies_db db mapId))"

section \<open>Data access layer: strategy images\<close>

definition createStrategyImage_db ::
  "backend \<Rightarrow> uuid \<Rightarrow> string \<Rightarrow> string \<Rightarrow> string \<Rightarrow> string option \<Rightarrow> int option \<Rightarrow> uuid option \<Rightarrow>
     (error + image_row) \<times> backend" where
  "createStrategyImage_db db strategyId storagePath bucketName url altText positionInContent versionId =
     (case insert_image db (Some strategyId) (or_null versionId) storagePath bucketName url
             (Some (or_string altText (''Strategy diagram for '' @ strategyId)))
             (case positionInContent of None \<Rightarrow> 0 | Some n \<Rightarrow> n) of
        (Inl e, db1) \<Rightarrow> (Inl (Pg e), db1)
      | (Inr data, db1) \<Rightarrow> (Inr data, db1))"

definition createStrategyImage ::
  "backend option \<Rightarrow> uuid \<Rightarrow> string \<Rightarrow> string \<Rightarrow> string \<Rightarrow> string option \<Rightarrow> int option \<Rightarrow>
     uuid option \<Rightarrow> (error + image_row) \<times> backend option" where
  "createStrategyImage supabase strategyId storagePath bucketName url altText positionInContent versionId =
     (case supabase of
        None \<Rightarrow> (Inl (Error ''Strategy image creation requires Supabase configuration''), None)
      | Some db \<Rightarrow>
          configured (createStrategyImage_db db strategyId storagePath bucketName url altText
                        positionInContent versionId))"

text \<open>
  \<open>copyImagesToVersion\<close>. The query (lines 584-597): the images of the strategy with
  the given version when \<open>fromVersionId\<close> is truthy, with no version otherwise, by
  position.
\<close>

definition existingImages_query ::
  "backend \<Rightarrow> uuid \<Rightarrow> uuid option \<Rightarrow> (pg_error + image_row list) \<times> backend" where
  "existingImages_query db strategyId fromVersionId =
     (case select_rows db tbl_strategy_images
             (\<lambda>i. i_strategy_id i = Some strategyId
                   \<and> (if truthy fromVersionId then i_version_id i = fromVersionId
                       else i_version_id i = None)) of
        (Inl e, db1) \<Rightarrow> (Inl e, db1)
      | (Inr rows, db1) \<Rightarrow> (Inr (sort_key i_position_in_content rows), db1))"

text \<open>The loop (lines 602-624): a failed insert is logged and skipped.\<close>

fun copy_each ::
  "backend \<Rightarrow> uuid \<Rightarrow> uuid option \<Rightarrow> image_row list \<Rightarrow> image_row list \<Rightarrow>
     image_row list \<times> backend" where
  "copy_each db strategyId toVersionId [] copiedImages = (copiedImages, db)"
| "copy_each db strategyId toVersionId (img # rest) copiedImages =
     (case insert_image db (Some strategyId) (or_null toVersionId) (i_storage_path img)
             (i_bucket_name img) (i_url img) (i_alt_text img)
             (i_position_in_content img) of
        (Inl copyError, db1) \<Rightarrow> copy_each db1 strategyId toVersionId rest copiedImages
      | (Inr copiedImage, db1) \<Rightarrow>
          copy_each db1 strategyId toVersionId rest (copiedImages @ [copiedImage]))"

definition copyImagesToVersion_db ::
  "backend \<Rightarrow> uuid \<Rightarrow> uuid option \<Rightarrow> uuid option \<Rightarrow> (error + image_row list) \<times> backend" where
  "copyImagesToVersion_db db strategyId fromVersionId toVersionId =
     (case existingImages_query db strategyId fromVersionId of
        (Inl fetchError, db1) \<Rightarrow> (Inl (Pg fetchError), db1)
      | (Inr existingImages, db1) \<Rightarrow>
          (case copy_each db1 strategyId toVersionId existingImages [] of
             (copiedImages, db2) \<Rightarrow> (Inr copiedImages, db2)))"

definition copyImagesToVersion ::
  "backend option \<Rightarrow> uuid \<Rightarrow> uuid option \<Rightarrow> uuid option \<Rightarrow>
     (error + image_row list) \<times> backend option" where
  "copyImagesToVersion supabase strategyId fromVersionId toVersionId =
     (case supabase of
        None \<Rightarrow> (Inl (Error ''Image copying requires Supabase configuration''), None)
      | Some db \<Rightarrow> configured (copyImagesToVersion_db db strategyId fromVersionId toVersionId))"

definition updateStrategyImage ::
  "backend option \<Rightarrow> uuid \<Rightarrow> string \<Rightarrow> (error + image_row) \<times> backend option" where
  "updateStrategyImage supabase imageId altText =
     (case supabase of
        None \<Rightarrow> (Inl (Error ''Strategy image update requires Supabase configuration''), None)
      | Some db \<Rightarrow>
          (case update_image db imageId (\<lambda>r. r\<lparr>i_alt_text := Some altText\<rparr>) of
             (Inl e, db1) \<Rightarrow> (Inl (Pg e), Some db1)
           | (Inr data, db1) \<Rightarrow> (Inr data, Some db1)))"

definition deleteStrategyImage :: "backend option \<Rightarrow> uuid \<Rightarrow> (error + unit) \<times> backend option" where
  "deleteStrategyImage supabase imageId =
     (case supabase of
        None \<Rightarrow> (Inr (), None)
      | Some db \<Rightarrow>
          (case delete_image db imageId of
             (Some e, db1) \<Rightarrow> (Inl (Pg e), Some db1)
           | (None, db1) \<Rightarrow> (Inr (), Some db1)))"

section \<open>Data access layer: versions and search\<close>

definition getStrategyVersions ::
  "backend option \<Rightarrow> uuid \<Rightarrow> (error + version_row list) \<times> backend option" where
  "getStrategyVersions supabase strategyId =
     (case supabase of
        None \<Rightarrow> (Inr [], None)
      | Some db \<Rightarrow>
          (case select_rows db tbl_strategy_versions (\<lambda>v. v_strategy_id v = strategyId) of
             (Inl e, db1) \<Rightarrow> (Inl (Pg e), Some db1)
           | (Inr data, db1) \<Rightarrow>
               (Inr (rev (sort_key v_version_number data)), Some db1)))"

text \<open>
  \<open>searchStrategies\<close>. The pattern match \<open>ilike\<close> is the database's; it is a parameter
  here, applied to the pattern \<open>%query%\<close> and a column.
\<close>

definition searchStrategies_db ::
  "(string \<Rightarrow> string \<Rightarrow> bool) \<Rightarrow> backend \<Rightarrow> string \<Rightarrow> uuid option \<Rightarrow>
     (error + strategy_with_version list) \<times> backend" where
  "searchStrategies_db ilike db query mapId =
     (case select_rows db tbl_strategies
             (\<lambda>r. (ilike (''%'' @ query @ ''%'') (s_title r)
                    \<or> ilike (''%'' @ query @ ''%'') (s_description r))
                   \<and> (truthy mapId \<longrightarrow> Some (s_map_id r) = mapId)) of
        (Inl e, db1) \<Rightarrow> (Inl (Pg e), db1)
      | (Inr strategies, db1) \<Rightarrow>
          (case fetch_versions db1
                  (\<lambda>strategy versionData.
                     (with_version strategy
                        (map_option (\<lambda>m. MapNameThumb (m_name m) (m_thumbnail_url m))
                           (embed_map db1 (s_map_id strategy)))
                        versionData
                        (Some (filter (\<lambda>i. i_strategy_id i = Some (s_id strategy))
                                 (tbl_strategy_images db1))))
                     \<lparr>sv_title :=
                        Some (or_string (Some (s_title strategy))
                                (or_string (map_option v_title versionData) [])),
                      sv_description :=
                        Some (or_string (Some (s_description strategy))
                                (or_string (map_option v_description versionData) []))\<rparr>)
                  (order_desc s_updated_at strategies) of
             (strategiesWithVersions, db2) \<Rightarrow> (Inr strategiesWithVersions, db2)))"

definition searchStrategies ::
  "(string \<Rightarrow> string \<Rightarrow> bool) \<Rightarrow> backend option \<Rightarrow> string \<Rightarrow> uuid option \<Rightarrow>
     (error + strategy_with_version list) \<times> backend option" where
  "searchStrategies ilike supabase query mapId =
     (case supabase of
        None \<Rightarrow> (Inr [], None)
      | Some db \<Rightarrow> configured (searchStrategies_db ilike db query mapId))"

section \<open>Data access layer: maps, with the in-process mock list\<close>

text \<open>
  \<open>mockMaps\<close> is a module-level array; the map functions take it and return it.
  \<open>Date.now()\<close> is the parameter \<open>now\<close>, and \<open>toString\<close> of a number is its
  decimal rendering.
\<close>

function decimal :: "nat \<Rightarrow> string" where
  "decimal n =
     (if n < 10 then [''0123456789'' ! n]
      else decimal (n div 10) @ [''0123456789'' ! (n mod 10)])"
  by pat_completeness auto
termination
  by (relation "measure id") auto

declare decimal.simps [simp del]

record create_map_form =
  cmf_name :: string
  cmf_description :: "string option"
  cmf_metadata :: "(string \<times> string) list option"

text \<open>
  \<open>Partial<Map>\<close>: \<open>None\<close> is a key that the object does not have. The two optional
  fields of \<open>Map\<close> can also be present and \<open>undefined\<close> (\<open>Some None\<close>), as in the
  object the map edit page builds; a required field that is present holds a value.
\<close>

record map_patch =
  mp_id :: "uuid option"
  mp_name :: "string option"
  mp_description :: "string option option"
  mp_thumbnail_url :: "string option option"
  mp_metadata :: "(string \<times> string) list option"
  mp_strategy_count :: "int option"
  mp_created_at :: "nat option"
  mp_updated_at :: "nat option"

text \<open>
  The spread \<open>{ ...m, ...mapData, updated_at: now }\<close>: every key of \<open>mapData\<close>
  replaces that of \<open>m\<close>, also one that is \<open>undefined\<close>.
\<close>

definition spread_map :: "map_row \<Rightarrow> map_patch \<Rightarrow> nat \<Rightarrow> map_row" where
  "spread_map m mapData now =
     \<lparr>m_id = (case mp_id mapData of None \<Rightarrow> m_id m | Some x \<Rightarrow> x),
      m_name = (case mp_name mapData of None \<Rightarrow> m_name m | Some x \<Rightarrow> x),
      m_description = (case mp_description mapData of None \<Rightarrow> m_description m | Some x \<Rightarrow> x),
      m_thumbnail_url =
        (case mp_thumbnail_url mapData of None \<Rightarrow> m_thumbnail_url m | Some x \<Rightarrow> x),
      m_metadata = (case mp_metadata mapData of None \<Rightarrow> m_metadata m | Some x \<Rightarrow> x),
      m_strategy_count =
        (case mp_strategy_count mapData of None \<Rightarrow> m_strategy_count m | Some x \<Rightarrow> x),
      m_created_at = (case mp_created_at mapData of None \<Rightarrow> m_created_at m | Some x \<Rightarrow> x),
      m_updated_at = now\<rparr>"

text \<open>
  The same object as the body of an update request: JSON leaves out the keys that are
  \<open>undefined\<close>, so those columns keep their value.
\<close>

definition json_patch :: "map_row \<Rightarrow> map_patch \<Rightarrow> nat \<Rightarrow> map_row" where
  "json_patch m mapData now =
     (spread_map m mapData now)
       \<lparr>m_description :=
          (case mp_description mapData of Some (Some x) \<Rightarrow> Some x | _ \<Rightarrow> m_description m),
        m_thumbnail_url :=
          (case mp_thumbnail_url mapData of Some (Some x) \<Rightarrow> Some x | _ \<Rightarrow> m_thumbnail_url m)\<rparr>"

text \<open>The two maps the module starts with; \<open>t\<close> is the time the module is loaded.\<close>

definition initial_mockMaps :: "nat \<Rightarrow> map_row list" where
  "initial_mockMaps t =
     [\<lparr>m_id = ''1'', m_name = ''Desert Storm'',
       m_description = Some ''A classic desert map perfect for long-range engagements'',
       m_thumbnail_url = None, m_metadata = [], m_strategy_count = 0,
       m_created_at = t, m_updated_at = t\<rparr>,
      \<lparr>m_id = ''2'', m_name = ''Urban Warfare'',
       m_description = Some ''Close-quarters combat in city environments'',
       m_thumbnail_url = None, m_metadata = [], m_strategy_count = 0,
       m_created_at = t, m_updated_at = t\<rparr>]"

definition getMaps ::
  "backend option \<Rightarrow> map_row list \<Rightarrow> (error + map_row list) \<times> backend option \<times> map_row list" where
  "getMaps supabase mockMaps =
     (case supabase of
        None \<Rightarrow> (Inr mockMaps, None, mockMaps)
      | Some db \<Rightarrow>
          (case select_rows db tbl_maps (\<lambda>_. True) of
             (Inl e, db1) \<Rightarrow> (Inl (Pg e), Some db1, mockMaps)
           | (Inr data, db1) \<Rightarrow> (Inr (sort_key m_name data), Some db1, mockMaps)))"

definition getMap ::
  "backend option \<Rightarrow> map_row list \<Rightarrow> uuid \<Rightarrow>
     (error + map_row option) \<times> backend option \<times> map_row list" where
  "getMap supabase mockMaps ident =
     (case supabase of
        None \<Rightarrow> (Inr (find (\<lambda>m. m_id m = ident) mockMaps), None, mockMaps)
      | Some db \<Rightarrow>
          (case select_single db tbl_maps (\<lambda>m. m_id m = ident) of
             (Inl e, db1) \<Rightarrow> (Inl (Pg e), Some db1, mockMaps)
           | (Inr data, db1) \<Rightarrow> (Inr (Some data), Some db1, mockMaps)))"

text \<open>\<open>from('maps').insert(mapData).select().single()\<close>: primary key and \<open>UNIQUE(name)\<close>.\<close>

definition insert_map :: "backend \<Rightarrow> create_map_form \<Rightarrow> (pg_error + map_row) \<times> backend" where
  "insert_map db mapData =
     (case request db of
        (True, db1) \<Rightarrow> (Inl Fault, db1)
      | (False, db1) \<Rightarrow>
          (case gen_random_uuid db1 of
             None \<Rightarrow> (Inl Fault, db1)
           | Some (u, db2) \<Rightarrow>
               if u \<in> m_id ` set (tbl_maps db2) then (Inl UniqueViolation, db2)
               else if cmf_name mapData \<in> m_name ` set (tbl_maps db2) then (Inl UniqueViolation, db2)
               else
                 let row = \<lparr>m_id = u, m_name = cmf_name mapData,
                            m_description = cmf_description mapData, m_thumbnail_url = None,
                            m_metadata = (case cmf_metadata mapData of None \<Rightarrow> [] | Some x \<Rightarrow> x),
                            m_strategy_count = 0,
                            m_created_at = db_now db2, m_updated_at = db_now db2\<rparr>
                 in (Inr row, db2\<lparr>tbl_maps := tbl_maps db2 @ [row]\<rparr>)))"

definition createMap ::
  "backend option \<Rightarrow> map_row list \<Rightarrow> nat \<Rightarrow> create_map_form \<Rightarrow>
     (error + map_row) \<times> backend option \<times> map_row list" where
  "createMap supabase mockMaps now mapData =
     (case supabase of
        None \<Rightarrow>
          (let newMap = \<lparr>m_id = decimal now, m_name = cmf_name mapData,
                         m_description = Some (or_string (cmf_description mapData) []),
                         m_thumbnail_url = None,
                         m_metadata = (case cmf_metadata mapData of None \<Rightarrow> [] | Some x \<Rightarrow> x),
                         m_strategy_count = 0, m_created_at = now, m_updated_at = now\<rparr>
           in (Inr newMap, None, mockMaps @ [newMap]))
      | Some db \<Rightarrow>
          (case insert_map db mapData of
             (Inl e, db1) \<Rightarrow> (Inl (Pg e), Some db1, mockMaps)
           | (Inr data, db1) \<Rightarrow> (Inr data, Some db1, mockMaps)))"

text \<open>\<open>findIndex\<close>: the first index whose element satisfies the predicate, if any.\<close>

fun findIndex :: "('a \<Rightarrow> bool) \<Rightarrow> 'a list \<Rightarrow> nat option" where
  "findIndex p [] = None"
| "findIndex p (x # xs) = (if p x then Some 0 else map_option Suc (findIndex p xs))"

text \<open>
  \<open>from('maps').update(..).eq('id', id).select().single()\<close>: primary key,
  \<open>UNIQUE(name)\<close>, the foreign key of the strategies that reference the row, and the
  trigger \<open>update_maps_updated_at\<close>, which overrides the \<open>updated_at\<close> of the request.
\<close>

definition update_map ::
  "backend \<Rightarrow> uuid \<Rightarrow> (map_row \<Rightarrow> map_row) \<Rightarrow> (pg_error + map_row) \<times> backend" where
  "update_map db ident patch =
     (case request db of
        (True, db1) \<Rightarrow> (Inl Fault, db1)
      | (False, db1) \<Rightarrow>
          (case filter (\<lambda>m. m_id m = ident) (tbl_maps db1) of
             [m] \<Rightarrow>
               (let others = filter (\<lambda>m. m_id m \<noteq> ident) (tbl_maps db1) in
                if m_id (patch m) \<in> m_id ` set others \<or> m_name (patch m) \<in> m_name ` set others
                  then (Inl UniqueViolation, db1)
                else if m_id (patch m) \<noteq> ident \<and> ident \<in> s_map_id ` set (tbl_strategies db1)
                  then (Inl ForeignKey, db1)
                else (Inr ((patch m)\<lparr>m_updated_at := db_now db1\<rparr>),
                      db1\<lparr>tbl_maps :=
                            map (\<lambda>m. if m_id m = ident then (patch m)\<lparr>m_updated_at := db_now db1\<rparr>
                                      else m)
                              (tbl_maps db1)\<rparr>))
           | _ \<Rightarrow> (Inl NotSingle, db1)))"

definition updateMap ::
  "backend option \<Rightarrow> map_row list \<Rightarrow> nat \<Rightarrow> uuid \<Rightarrow> map_patch \<Rightarrow>
     (error + map_row) \<times> backend option \<times> map_row list" where
  "updateMap supabase mockMaps now ident mapData =
     (case supabase of
        None \<Rightarrow>
          (case findIndex (\<lambda>m. m_id m = ident) mockMaps of
             None \<Rightarrow> (Inl (Error ''Map not found''), None, mockMaps)
           | Some index \<Rightarrow>
               (Inr (spread_map (mockMaps ! index) mapData now), None,
                mockMaps[index := spread_map (mockMaps ! index) mapData now]))
      | Some db \<Rightarrow>
          (case update_map db ident (\<lambda>m. json_patch m mapData now) of
             (Inl e, db1) \<Rightarrow> (Inl (Pg e), Some db1, mockMaps)
           | (Inr data, db1) \<Rightarrow> (Inr data, Some db1, mockMaps)))"

text \<open>
  \<open>from('maps').delete().eq('id', id)\<close>: the strategies of the map go with it, and
  their versions and images with them.
\<close>

definition delete_map :: "backend \<Rightarrow> uuid \<Rightarrow> pg_error option \<times> backend" where
  "delete_map db ident =
     (case request db of
        (True, db1) \<Rightarrow> (Some Fault, db1)
      | (False, db1) \<Rightarrow>
          (if ident \<in> m_id ` set (tbl_maps db1)
           then (let db2 = delete_strategies (\<lambda>r. s_map_id r = ident) db1
                 in (None, db2\<lparr>tbl_maps := filter (\<lambda>m. m_id m \<noteq> ident) (tbl_maps db2)\<rparr>))
           else (None, db1)))"

definition deleteMap ::
  "backend option \<Rightarrow> map_row list \<Rightarrow> uuid \<Rightarrow> (error + unit) \<times> backend option \<times> map_row list" where
  "deleteMap supabase mockMaps ident =
     (case supabase of
        None \<Rightarrow>
          (case findIndex (\<lambda>m. m_id m = ident) mockMaps of
             None \<Rightarrow> (Inr (), None, mockMaps)
           | Some index \<Rightarrow> (Inr (), None, take index mockMaps @ drop (Suc index) mockMaps))
      | Some db \<Rightarrow>
          (case delete_map db ident of
             (Some e, db1) \<Rightarrow> (Inl (Pg e), Some db1, mockMaps)
           | (None, db1) \<Rightarrow> (Inr (), Some db1, mockMaps)))"

section \<open>Object storage (lib/storage.ts)\<close>

record js_file =
  f_name :: string
  f_type :: string
  f_size :: nat

record upload_result =
  r_path :: string
  r_fullPath :: string
  r_url :: string

text \<open>\<open>name.split('.').pop()\<close>: what follows the last dot, the whole name when it has none.\<close>

definition fileExt :: "string \<Rightarrow> string" where
  "fileExt name = rev (takeWhile (\<lambda>c. c \<noteq> CHR ''.'') (rev name))"

text \<open>
  \<open>storage.from(bucket).upload(filePath, file, { upsert: false })\<close>: the bucket must
  exist and the path must be free. \<open>getPublicUrl\<close> builds the address without a call;
  it is kept relative to the project's address.
\<close>

definition storage_upload :: "backend \<Rightarrow> string \<Rightarrow> string \<Rightarrow> (pg_error + string) \<times> backend" where
  "storage_upload db bucket filePath =
     (case request db of
        (True, db1) \<Rightarrow> (Inl Fault, db1)
      | (False, db1) \<Rightarrow>
          if bucket \<notin> set (buckets db1) then (Inl BucketNotFound, db1)
          else if (bucket, filePath) \<in> set (objects db1) then (Inl ObjectExists, db1)
          else (Inr filePath, db1\<lparr>objects := objects db1 @ [(bucket, filePath)]\<rparr>))"

definition getPublicUrl :: "string \<Rightarrow> string \<Rightarrow> string" where
  "getPublicUrl bucket path = ''/storage/v1/object/public/'' @ bucket @ ''/'' @ path"

text \<open>
  \<open>uploadImage\<close>. \<open>stamp\<close> is the text \<open>${Date.now()}-${Math.random()...}\<close> that the
  call draws for the file name.
\<close>

definition uploadImage ::
  "backend option \<Rightarrow> string \<Rightarrow> js_file \<Rightarrow> string \<Rightarrow> string option \<Rightarrow>
     (error + upload_result) \<times> backend option" where
  "uploadImage supabase stamp file bucket folder =
     (case supabase of
        None \<Rightarrow>
          (Inl (Error ''Supabase client not initialized. Please check your environment variables.''),
           None)
      | Some db \<Rightarrow>
          (let fileName = stamp @ ''.'' @ fileExt (f_name file);
               filePath = (if truthy folder then the folder @ ''/'' @ fileName else fileName)
           in case storage_upload db bucket filePath of
                (Inl e, db1) \<Rightarrow> (Inl (Pg e), Some db1)
              | (Inr path, db1) \<Rightarrow>
                  (Inr \<lparr>r_path = path, r_fullPath = bucket @ ''/'' @ path,
                        r_url = getPublicUrl bucket path\<rparr>,
                   Some db1)))"

section \<open>The strategy forms (NewStrategyPage in app/strategies/page.tsx, EditStrategyPage in unnamed/part_003)\<close>

text \<open>
  The part of the component state that the handlers below read and write. The previews
  that \<open>FileReader\<close> delivers later are display only and are left out.
\<close>

record form_state =
  fs_error :: "string option"
  fs_uploadedImages :: "js_file list"
  fs_imageDescriptions :: "string list"

text \<open>The filter of \<open>handleImageSelect\<close>, the same on both pages.\<close>

definition valid_file :: "js_file \<Rightarrow> bool" where
  "valid_file f = (prefix ''image/'' (f_type f) \<and> f_size f \<le> 5 * 1024 * 1024)"

definition handleImageSelect :: "string \<Rightarrow> js_file list \<Rightarrow> form_state \<Rightarrow> form_state" where
  "handleImageSelect message files st =
     (let validFiles = filter valid_file files
      in st\<lparr>fs_error := (if length validFiles \<noteq> length files then Some message
                          else fs_error st),
             fs_uploadedImages := fs_uploadedImages st @ validFiles,
             fs_imageDescriptions := fs_imageDescriptions st @ map (\<lambda>_. []) validFiles\<rparr>)"

definition handleImageSelect_new :: "js_file list \<Rightarrow> form_state \<Rightarrow> form_state" where
  "handleImageSelect_new =
     handleImageSelect ''Beberapa file ditolak. Pastikan semua file adalah gambar maksimal 5MB.''"

definition handleImageSelect_edit :: "js_file list \<Rightarrow> form_state \<Rightarrow> form_state" where
  "handleImageSelect_edit =
     handleImageSelect ''Some files were rejected. Please ensure all files are images under 5MB.''"

text \<open>
  \<open>String.prototype.trim\<close> on strings of code units below 256: the white space and
  line terminators in that range.
\<close>

definition is_space :: "char \<Rightarrow> bool" where
  "is_space c =
     (c \<in> set [CHR 0x09, CHR 0x0A, CHR 0x0B, CHR 0x0C, CHR 0x0D, CHR 0x20, CHR 0xA0])"

definition trim :: "string \<Rightarrow> string" where
  "trim s = rev (dropWhile is_space (rev (dropWhile is_space s)))"

definition truncateString :: "string \<Rightarrow> nat \<Rightarrow> string" where
  "truncateString str maxLength =
     (if length str \<le> maxLength then str else take (maxLength - 3) str @ ''...'')"

text \<open>\<open>xs[i]\<close>: \<open>undefined\<close> beyond the end.\<close>

definition nth_opt :: "'a list \<Rightarrow> nat \<Rightarrow> 'a option" where
  "nth_opt xs i = (if i < length xs then Some (xs ! i) else None)"

text \<open>
  The loop of \<open>uploadStrategyImages\<close>, the same on both pages: the files in order, each
  in a \<open>try\<close> whose \<open>catch\<close> throws an error naming the file. \<open>body\<close> is the content
  of the \<open>try\<close> for the file at \<open>index\<close>; it gives the address pushed on \<open>imageUrls\<close>.
\<close>

fun upload_loop ::
  "(nat \<Rightarrow> js_file \<Rightarrow> backend option \<Rightarrow> (error + string) \<times> backend option) \<Rightarrow>
     nat \<Rightarrow> js_file list \<Rightarrow> string list \<Rightarrow> backend option \<Rightarrow>
     (error + string list) \<times> backend option" where
  "upload_loop body index [] imageUrls supabase = (Inr imageUrls, supabase)"
| "upload_loop body index (file # rest) imageUrls supabase =
     (case body index file supabase of
        (Inl _, supabase1) \<Rightarrow>
          (Inl (Error (''Failed to upload image: '' @ f_name file)), supabase1)
      | (Inr url, supabase1) \<Rightarrow>
          upload_loop body (Suc index) rest (imageUrls @ [url]) supabase1)"

text \<open>The page that creates a strategy: the content of the \<open>try\<close> of its loop.\<close>

definition upload_one_new ::
  "(nat \<Rightarrow> string) \<Rightarrow> string list \<Rightarrow> uuid \<Rightarrow> uuid option \<Rightarrow>
     nat \<Rightarrow> js_file \<Rightarrow> backend option \<Rightarrow> (error + string) \<times> backend option" where
  "upload_one_new stamps imageDescriptions strategyId versionId index file supabase =
     (case uploadImage supabase (stamps index) file ''strategy-images''
             (Some (''strategies/'' @ strategyId)) of
        (Inl e, supabase1) \<Rightarrow> (Inl e, supabase1)
      | (Inr result, supabase1) \<Rightarrow>
          (let customDescription =
                 or_string (map_option trim (nth_opt imageDescriptions index))
                   (''Gambar strategi '' @ decimal (index + 1) @ '' untuk '' @ strategyId)
           in case createStrategyImage supabase1 strategyId
                     (truncateString (r_path result) 250) ''strategy-images''
                     (truncateString (r_url result) 250)
                     (Some (truncateString customDescription 250)) (Some (int index))
                     versionId of
                (Inl e, supabase2) \<Rightarrow> (Inl e, supabase2)
              | (Inr _, supabase2) \<Rightarrow> (Inr (r_url result), supabase2)))"

definition uploadStrategyImages_new ::
  "(nat \<Rightarrow> string) \<Rightarrow> form_state \<Rightarrow> backend option \<Rightarrow> uuid \<Rightarrow> uuid option \<Rightarrow>
     (error + string list) \<times> backend option" where
  "uploadStrategyImages_new stamps st supabase strategyId versionId =
     upload_loop (upload_one_new stamps (fs_imageDescriptions st) strategyId versionId)
       0 (fs_uploadedImages st) [] supabase"

text \<open>
  The page that edits a strategy: it first reads the strategy for the number of images
  it has, outside the \<open>try\<close>, and passes the key \<open>STRATEGY_IMAGES\<close> as the bucket.
\<close>

definition upload_one_edit ::
  "(nat \<Rightarrow> string) \<Rightarrow> string list \<Rightarrow> uuid \<Rightarrow> uuid option \<Rightarrow> nat \<Rightarrow>
     nat \<Rightarrow> js_file \<Rightarrow> backend option \<Rightarrow> (error + string) \<times> backend option" where
  "upload_one_edit stamps imageDescriptions strategyId versionId currentImageCount index file supabase =
     (case uploadImage supabase (stamps index) file ''STRATEGY_IMAGES''
             (Some (''strategies/'' @ strategyId)) of
        (Inl e, supabase1) \<Rightarrow> (Inl e, supabase1)
      | (Inr result, supabase1) \<Rightarrow>
          (let customDescription =
                 or_string (map_option trim (nth_opt imageDescriptions index))
                   (''Strategy diagram '' @ decimal (currentImageCount + index + 1) @ '' for ''
                      @ strategyId)
           in case createStrategyImage supabase1 strategyId (r_path result) ''strategy-images''
                     (r_url result) (Some customDescription)
                     (Some (int (currentImageCount + index))) versionId of
                (Inl e, supabase2) \<Rightarrow> (Inl e, supabase2)
              | (Inr _, supabase2) \<Rightarrow> (Inr (r_url result), supabase2)))"

definition images_of :: "strategy_with_version option \<Rightarrow> image_row list" where
  "images_of strategy =
     (case strategy of None \<Rightarrow> [] | Some s \<Rightarrow> (case sv_images s of None \<Rightarrow> [] | Some imgs \<Rightarrow> imgs))"

definition uploadStrategyImages_edit ::
  "(nat \<Rightarrow> string) \<Rightarrow> form_state \<Rightarrow> backend option \<Rightarrow> uuid \<Rightarrow> uuid option \<Rightarrow>
     (error + string list) \<times> backend option" where
  "uploadStrategyImages_edit stamps st supabase strategyId versionId =
     (case getStrategy supabase strategyId of
        (Inl e, supabase1) \<Rightarrow> (Inl e, supabase1)
      | (Inr currentStrategy, supabase1) \<Rightarrow>
          upload_loop
            (upload_one_edit stamps (fs_imageDescriptions st) strategyId versionId
               (length (images_of currentStrategy)))
            0 (fs_uploadedImages st) [] supabase1)"

text \<open>
  The edit page's \<open>onSubmit\<close>, lines 246-270: the descriptions of the existing images.
  \<open>existingImageDescriptions\<close> is the object's entries in iteration order; \<open>strategy\<close> is
  the strategy as the page loaded it.
\<close>

definition update_description ::
  "strategy_with_version option \<Rightarrow> image_row list \<Rightarrow> uuid \<times> string \<Rightarrow> backend option \<Rightarrow>
     (error + unit) \<times> backend option" where
  "update_description strategy newVersionImages entry supabase =
     (case entry of (originalImageId, description) \<Rightarrow>
        (case find (\<lambda>img. i_id img = originalImageId) (images_of strategy) of
           None \<Rightarrow> (Inr (), supabase)
         | Some originalImage \<Rightarrow>
             if i_alt_text originalImage \<noteq> Some (trim description) then
               (case find (\<lambda>img. i_storage_path img = i_storage_path originalImage
                                 \<or> i_position_in_content img = i_position_in_content originalImage)
                       newVersionImages of
                  None \<Rightarrow>
                    (case updateStrategyImage supabase (i_id originalImage) (trim description) of
                       (Inl e, supabase1) \<Rightarrow> (Inl e, supabase1)
                     | (Inr _, supabase1) \<Rightarrow> (Inr (), supabase1))
                | Some newVersionImage \<Rightarrow>
                    if trim description \<noteq> [] then
                      (case updateStrategyImage supabase (i_id newVersionImage) (trim description) of
                         (Inl e, supabase1) \<Rightarrow> (Inl e, supabase1)
                       | (Inr _, supabase1) \<Rightarrow> (Inr (), supabase1))
                    else (Inr (), supabase))
             else (Inr (), supabase)))"

fun update_descriptions ::
  "strategy_with_version option \<Rightarrow> image_row list \<Rightarrow> (uuid \<times> string) list \<Rightarrow> backend option \<Rightarrow>
     (error + unit) \<times> backend option" where
  "update_descriptions strategy newVersionImages [] supabase = (Inr (), supabase)"
| "update_descriptions strategy newVersionImages (entry # rest) supabase =
     (case update_description strategy newVersionImages entry supabase of
        (Inl e, supabase1) \<Rightarrow> (Inl e, supabase1)
      | (Inr _, supabase1) \<Rightarrow> update_descriptions strategy newVersionImages rest supabase1)"

definition onSubmit_descriptions ::
  "strategy_with_version option \<Rightarrow> (uuid \<times> string) list \<Rightarrow> backend option \<Rightarrow> uuid \<Rightarrow>
     uuid option \<Rightarrow> (error + unit) \<times> backend option" where
  "onSubmit_descriptions strategy existingImageDescriptions supabase strategyId newVersionId =
     (case getStrategy supabase strategyId of
        (Inl e, supabase1) \<Rightarrow> (Inl e, supabase1)
      | (Inr updatedStrategyWithImages, supabase1) \<Rightarrow>
          update_descriptions strategy
            (filter (\<lambda>img. newVersionId \<noteq> None \<and> i_version_id img = newVersionId)
               (images_of updatedStrategyWithImages))
            existingImageDescriptions supabase1)"

text \<open>The alt text of the image rows with a given identity set to a text.\<close>

definition set_alt_text :: "uuid \<Rightarrow> string \<Rightarrow> image_row list \<Rightarrow> image_row list" where
  "set_alt_text iid t rows = map (\<lambda>r. if i_id r = iid then r\<lparr>i_alt_text := Some t\<rparr> else r) rows"

section \<open>Scenarios\<close>

text \<open>
  \<open>N\<close> sequential edits of one strategy: each \<open>updateStrategy\<close> is awaited before the
  next one is issued, and the sequence stops at the first edit that throws.
\<close>

fun edits ::
  "backend option \<Rightarrow> uuid \<Rightarrow> update_strategy_form list \<Rightarrow> (error + unit) \<times> backend option" where
  "edits supabase ident [] = (Inr (), supabase)"
| "edits supabase ident (d # ds) =
     (case updateStrategy supabase ident d of
        (Inl e, supabase') \<Rightarrow> (Inl e, supabase')
      | (Inr _, supabase') \<Rightarrow> edits supabase' ident ds)"

text \<open>
  What a copied image row shares with its source: the five copied columns, under the
  given strategy and target version.
\<close>

definition copy_of :: "uuid \<Rightarrow> uuid option \<Rightarrow> image_row \<Rightarrow> image_row \<Rightarrow> bool" where
  "copy_of strategyId toVersionId src c =
     (i_storage_path c = i_storage_path src \<and> i_bucket_name c = i_bucket_name src
      \<and> i_url c = i_url src \<and> i_alt_text c = i_alt_text src
      \<and> i_position_in_content c = i_position_in_content src
      \<and> i_version_id c = or_null toVersionId \<and> i_strategy_id c = Some strategyId)"

text \<open>The version rows of a strategy, in insertion order.\<close>

definition versions_of :: "backend \<Rightarrow> uuid \<Rightarrow> version_row list" where
  "versions_of db sid = filter (\<lambda>v. v_strategy_id v = sid) (tbl_strategy_versions db)"

text \<open>
  The state of a strategy after \<open>k\<close> versions: its version rows are numbered
  \<open>1..k\<close>, there is one strategy row, and its pointer is the identity of the last
  version row and of no other row.
\<close>

definition history_ok :: "backend \<Rightarrow> uuid \<Rightarrow> nat \<Rightarrow> bool" where
  "history_ok db sid k =
     (map v_version_number (versions_of db sid) = map int [1..<Suc k]
      \<and> (case filter (\<lambda>r. s_id r = sid) (tbl_strategies db) of
            [r] \<Rightarrow> s_current_version_id r = Some (v_id (last (versions_of db sid)))
          | _ \<Rightarrow> False)
      \<and> filter (\<lambda>v. v_id v = v_id (last (versions_of db sid))) (tbl_strategy_versions db)
          = [last (versions_of db sid)])"

text \<open>
  A backend holding the map "Desert Storm" and nothing else, on which no call is
  rejected for an outside reason.
\<close>

definition desert_storm :: map_row where
  "desert_storm =
     \<lparr>m_id = ''m1'', m_name = ''Desert Storm'', m_description = None,
      m_thumbnail_url = None, m_metadata = [], m_strategy_count = 0,
      m_created_at = 0, m_updated_at = 0\<rparr>"

definition fresh_backend :: backend where
  "fresh_backend =
     \<lparr>tbl_maps = [desert_storm], tbl_strategies = [], tbl_strategy_versions = [],
      tbl_strategy_images = [], buckets = [''map-thumbnails'', ''strategy-images''],
      objects = [], faults = [],
      uuids = [''u1'', ''u2'', ''u3'', ''u4'', ''u5'', ''u6'', ''u7'', ''u8''], db_now = 1\<rparr>"

text \<open>The foreign key of \<open>strategy_versions.strategy_id\<close>, as a property of a state.\<close>

definition versions_fk :: "backend \<Rightarrow> bool" where
  "versions_fk db =
     list_all (\<lambda>v. v_strategy_id v \<in> s_id ` set (tbl_strategies db)) (tbl_strategy_versions db)"

text \<open>The same backend once the strategy "Rush A" has been created on that map.\<close>

definition created_backend :: backend where
  "created_backend =
     fresh_backend
       \<lparr>tbl_maps := [desert_storm\<lparr>m_strategy_count := 1, m_updated_at := 2\<rparr>],
        tbl_strategies :=
          [\<lparr>s_id = ''u1'', s_map_id = ''m1'', s_title = ''Rush A'',
            s_description = ''Smoke and go'', s_current_version_id = Some ''u2'',
            s_created_at = 2, s_updated_at = 4\<rparr>],
        tbl_strategy_versions :=
          [\<lparr>v_id = ''u2'', v_strategy_id = ''u1'', v_version_number = 1,
            v_title = ''Rush A'', v_description = ''Smoke and go'',
            v_change_notes = Some ''Initial version'', v_created_at = 3\<rparr>],
        uuids := [''u3'', ''u4'', ''u5'', ''u6'', ''u7'', ''u8''],
        db_now := 5\<rparr>"

text \<open>
  Legacy data: a strategy without a current version, with two images that have no
  version either.
\<close>

definition legacy_backend :: backend where
  "legacy_backend =
     fresh_backend
       \<lparr>tbl_maps := [desert_storm\<lparr>m_strategy_count := 1\<rparr>],
        tbl_strategies :=
          [\<lparr>s_id = ''s0'', s_map_id = ''m1'', s_title = ''Hold B'',
            s_description = ''Anchor the site'', s_current_version_id = None,
            s_created_at = 0, s_updated_at = 0\<rparr>],
        tbl_strategy_images :=
          [\<lparr>i_id = ''i1'', i_strategy_id = Some ''s0'', i_version_id = None,
            i_storage_path = ''strategies/s0/b.png'', i_bucket_name = ''strategy-images'',
            i_url = ''https://cdn/strategies/s0/b.png'', i_alt_text = Some ''Crossfire'',
            i_position_in_content = 1, i_created_at = 0\<rparr>,
           \<lparr>i_id = ''i2'', i_strategy_id = Some ''s0'', i_version_id = None,
            i_storage_path = ''strategies/s0/a.png'', i_bucket_name = ''strategy-images'',
            i_url = ''https://cdn/strategies/s0/a.png'', i_alt_text = None,
            i_position_in_content = 0, i_created_at = 0\<rparr>]\<rparr>"

text \<open>The legacy backend after a first edit of its strategy: version 1 is current.\<close>

definition legacy_edited_backend :: backend where
  "legacy_edited_backend =
     legacy_backend
       \<lparr>tbl_strategies :=
          [\<lparr>s_id = ''s0'', s_map_id = ''m1'', s_title = ''Hold B'',
            s_description = ''Anchor the site, late rotate'', s_current_version_id = Some ''u1'',
            s_created_at = 0, s_updated_at = 4\<rparr>],
        tbl_strategy_versions :=
          [\<lparr>v_id = ''u1'', v_strategy_id = ''s0'', v_version_number = 1,
            v_title = ''Hold B'', v_description = ''Anchor the site, late rotate'',
            v_change_notes = Some ''Updated strategy'', v_created_at = 3\<rparr>],
        uuids := [''u2'', ''u3'', ''u4'', ''u5'', ''u6'', ''u7'', ''u8''],
        db_now := 5\<rparr>"

text \<open>
  The same backend after the two legacy images have been copied to version 1, and the
  strategy as the edit page had loaded it before the edit.
\<close>

definition crossfire :: image_row where
  "crossfire =
     \<lparr>i_id = ''i1'', i_strategy_id = Some ''s0'', i_version_id = None,
      i_storage_path = ''strategies/s0/b.png'', i_bucket_name = ''strategy-images'',
      i_url = ''https://cdn/strategies/s0/b.png'', i_alt_text = Some ''Crossfire'',
      i_position_in_content = 1, i_created_at = 0\<rparr>"

definition crossfire_copy :: image_row where
  "crossfire_copy = crossfire\<lparr>i_id := ''u3'', i_version_id := Some ''u1'', i_created_at := 7\<rparr>"

definition copied_backend :: backend where
  "copied_backend =
     legacy_edited_backend
       \<lparr>tbl_strategy_images :=
          tbl_strategy_images legacy_edited_backend @
          [\<lparr>i_id = ''u2'', i_strategy_id = Some ''s0'', i_version_id = Some ''u1'',
            i_storage_path = ''strategies/s0/a.png'', i_bucket_name = ''strategy-images'',
            i_url = ''https://cdn/strategies/s0/a.png'', i_alt_text = None,
            i_position_in_content = 0, i_created_at = 6\<rparr>,
           crossfire_copy],
        uuids := [''u4'', ''u5'', ''u6'', ''u7'', ''u8''],
        db_now := 7\<rparr>"

definition loaded_strategy :: strategy_with_version where
  "loaded_strategy =
     \<lparr>sv_id = ''s0'', sv_map_id = ''m1'', sv_title = None, sv_description = None,
      sv_current_version_id = None, sv_created_at = 0, sv_updated_at = 0,
      sv_current_version = None, sv_map = Some (MapAll (desert_storm\<lparr>m_strategy_count := 1\<rparr>)),
      sv_images = Some [tbl_strategy_images legacy_backend ! 1, crossfire]\<rparr>"

text \<open>Three files picked for upload; the second is not an image.\<close>

definition three_files :: "js_file list" where
  "three_files =
     [\<lparr>f_name = ''a.site.png'', f_type = ''image/png'', f_size = 204800\<rparr>,
      \<lparr>f_name = ''notes.pdf'', f_type = ''application/pdf'', f_size = 1024\<rparr>,
      \<lparr>f_name = ''b-site.jpg'', f_type = ''image/jpeg'', f_size = 5242880\<rparr>]"

definition empty_form :: form_state where
  "empty_form = \<lparr>fs_error = None, fs_uploadedImages = [], fs_imageDescriptions = []\<rparr>"

text \<open>The file name stamps drawn for the files of a batch.\<close>

definition stamps0 :: "nat \<Rightarrow> string" where
  "stamps0 index = ''1700000000000-k'' @ decimal index"

text \<open>
  Where \<open>uploadImage\<close> puts a file, and which image row the creating page then
  records for the file at an index, as far as the page decides it.
\<close>

definition upload_path :: "uuid \<Rightarrow> string \<Rightarrow> js_file \<Rightarrow> string" where
  "upload_path strategyId stamp file =
     ''strategies/'' @ strategyId @ ''/'' @ stamp @ ''.'' @ fileExt (f_name file)"

definition recorded_new ::
  "(nat \<Rightarrow> string) \<Rightarrow> uuid \<Rightarrow> uuid option \<Rightarrow> nat \<Rightarrow> js_file \<Rightarrow> image_row \<Rightarrow> bool" where
  "recorded_new stamps strategyId versionId index file row =
     (i_strategy_id row = Some strategyId \<and> i_version_id row = or_null versionId
      \<and> i_position_in_content row = int index
      \<and> i_storage_path row = truncateString (upload_path strategyId (stamps index) file) 250
      \<and> i_bucket_name row = ''strategy-images'')"

definition recorded_edit ::
  "(nat \<Rightarrow> string) \<Rightarrow> uuid \<Rightarrow> uuid option \<Rightarrow> nat \<Rightarrow> nat \<Rightarrow> js_file \<Rightarrow> image_row \<Rightarrow> bool" where
  "recorded_edit stamps strategyId versionId currentImageCount index file row =
     (i_strategy_id row = Some strategyId \<and> i_version_id row = or_null versionId
      \<and> i_position_in_content row = int (currentImageCount + index)
      \<and> i_storage_path row = upload_path strategyId (stamps index) file
      \<and> i_bucket_name row = ''strategy-images'')"

text \<open>
  Two states with the same data: they differ at most in the clock and in the oracle of
  rejections, as after calls that only read.
\<close>

definition same_data :: "backend \<Rightarrow> backend \<Rightarrow> bool" where
  "same_data db db' \<longleftrightarrow>
     tbl_maps db' = tbl_maps db \<and> tbl_strategies db' = tbl_strategies db
     \<and> tbl_strategy_versions db' = tbl_strategy_versions db
     \<and> tbl_strategy_images db' = tbl_strategy_images db
     \<and> buckets db' = buckets db \<and> objects db' = objects db \<and> uuids db' = uuids db"

text \<open>
  When the backend in the state \<open>db\<close> takes a file: its next call, the upload of the
  object \<open>obj\<close> (a bucket and a path), is accepted when the call is not rejected for an
  outside reason, the bucket exists and the path is free in it; the call after that, the
  insert of the image row, is accepted when it is not rejected for an outside reason, the
  position fits the column, the row gets a fresh identity, and the strategy and the
  version it refers to exist.
\<close>

definition upload_ok :: "backend \<Rightarrow> string \<times> string \<Rightarrow> bool" where
  "upload_ok db obj \<longleftrightarrow>
     \<not> rejected db 0 \<and> fst obj \<in> set (buckets db) \<and> obj \<notin> set (objects db)"

definition record_ok :: "backend \<Rightarrow> uuid \<Rightarrow> uuid option \<Rightarrow> int \<Rightarrow> bool" where
  "record_ok db strategyId versionId position \<longleftrightarrow>
     \<not> rejected db 1 \<and> in_int4 position
     \<and> (case uuids db of [] \<Rightarrow> False | u # _ \<Rightarrow> u \<notin> i_id ` set (tbl_strategy_images db))
     \<and> strategyId \<in> s_id ` set (tbl_strategies db)
     \<and> (case or_null versionId of None \<Rightarrow> True
         | Some v \<Rightarrow> v \<in> v_id ` set (tbl_strategy_versions db))"

text \<open>
  The state \<open>dbk\<close> in which the first \<open>k\<close> of the \<open>files\<close> have been uploaded and
  recorded from the state \<open>db\<close>, and nothing else has happened: one row and one object
  per file, in order, two calls and one identity each.
\<close>

definition uploaded_prefix ::
  "(nat \<Rightarrow> js_file \<Rightarrow> image_row \<Rightarrow> bool) \<Rightarrow> (nat \<Rightarrow> js_file \<Rightarrow> string \<times> string) \<Rightarrow>
     js_file list \<Rightarrow> backend \<Rightarrow> nat \<Rightarrow> backend \<Rightarrow> bool" where
  "uploaded_prefix recorded stored files db k dbk \<longleftrightarrow>
     (\<exists>rows. tbl_strategy_images dbk = tbl_strategy_images db @ rows \<and> length rows = k
            \<and> map i_id rows = take k (uuids db)
            \<and> (\<forall>j<k. recorded j (files ! j) (rows ! j)))
     \<and> objects dbk = objects db @ map (\<lambda>j. stored j (files ! j)) [0..<k]
     \<and> faults dbk = drop (2 * k) (faults db) \<and> uuids dbk = drop k (uuids db)
     \<and> db_now dbk = db_now db + 2 * k
     \<and> buckets dbk = buckets db \<and> tbl_maps dbk = tbl_maps db
     \<and> tbl_strategies dbk = tbl_strategies db
     \<and> tbl_strategy_versions dbk = tbl_strategy_versions db"

text \<open>
  A file that fails from the state \<open>db\<close> leaves \<open>db'\<close>: no row is added; when the
  upload of its object \<open>obj\<close> was accepted the object is stored and stays, and two calls
  were made; otherwise the store is as it was and one call was made.
\<close>

definition failed_at :: "string \<times> string \<Rightarrow> backend \<Rightarrow> backend \<Rightarrow> bool" where
  "failed_at obj db db' \<longleftrightarrow>
     tbl_strategy_images db' = tbl_strategy_images db
     \<and> (if upload_ok db obj
         then objects db' = objects db @ [obj] \<and> db_now db' = db_now db + 2
         else objects db' = objects db \<and> db_now db' = db_now db + 1)"

text \<open>
  The outcome of an upload loop over \<open>files\<close> from the state \<open>db\<close>. \<open>k\<close> is the
  number of files that were uploaded and recorded: each of them was taken by the backend
  in the state that the files before it had left. Either \<open>k\<close> is the number of files and
  the result is their addresses, or the backend did not take file \<open>k\<close> in the state the
  first \<open>k\<close> files had left, the result is the error naming that file, and nothing was
  done after its failure.
\<close>

definition upload_outcome ::
  "(nat \<Rightarrow> js_file \<Rightarrow> image_row \<Rightarrow> bool) \<Rightarrow> (nat \<Rightarrow> js_file \<Rightarrow> string \<times> string) \<Rightarrow>
     uuid \<Rightarrow> uuid option \<Rightarrow> (nat \<Rightarrow> int) \<Rightarrow>
     js_file list \<Rightarrow> backend \<Rightarrow> error + string list \<Rightarrow> backend \<Rightarrow> bool" where
  "upload_outcome recorded stored strategyId versionId position files db r db' \<longleftrightarrow>
     (\<exists>k dbk. k \<le> length files
        \<and> uploaded_prefix recorded stored files db k dbk
        \<and> (\<forall>j<k. \<exists>dbj. uploaded_prefix recorded stored files db j dbj
                \<and> upload_ok dbj (stored j (files ! j))
                \<and> record_ok dbj strategyId versionId (position j))
        \<and> (if k = length files then (\<exists>urls. r = Inr urls \<and> length urls = k) \<and> db' = dbk
            else r = Inl (Error (''Failed to upload image: '' @ f_name (files ! k)))
                 \<and> \<not> (upload_ok dbk (stored k (files ! k))
                        \<and> record_ok dbk strategyId versionId (position k))
                 \<and> failed_at (stored k (files ! k)) dbk db'))"

text \<open>
  What one pass of the body of either loop does: the file is uploaded and recorded
  exactly when the backend takes it, and fails otherwise.
\<close>

definition body_ok ::
  "(nat \<Rightarrow> js_file \<Rightarrow> backend option \<Rightarrow> (error + string) \<times> backend option) \<Rightarrow>
     (nat \<Rightarrow> js_file \<Rightarrow> image_row \<Rightarrow> bool) \<Rightarrow> (nat \<Rightarrow> js_file \<Rightarrow> string \<times> string) \<Rightarrow>
     uuid \<Rightarrow> uuid option \<Rightarrow> (nat \<Rightarrow> int) \<Rightarrow> bool" where
  "body_ok body recorded stored strategyId versionId position \<longleftrightarrow>
     (\<forall>i f db r c. body i f (Some db) = (r, c) \<longrightarrow>
        (\<exists>db'. c = Some db'
           \<and> buckets db' = buckets db \<and> tbl_maps db' = tbl_maps db
           \<and> tbl_strategies db' = tbl_strategies db
           \<and> tbl_strategy_versions db' = tbl_strategy_versions db
           \<and> (if upload_ok db (stored i f) \<and> record_ok db strategyId versionId (position i)
               then (\<exists>url. r = Inr url)
                    \<and> (\<exists>row. tbl_strategy_images db' = tbl_strategy_images db @ [row]
                           \<and> recorded i f row \<and> [i_id row] = take 1 (uuids db))
                    \<and> objects db' = objects db @ [stored i f]
                    \<and> faults db' = drop 2 (faults db) \<and> uuids db' = drop 1 (uuids db)
                    \<and> db_now db' = db_now db + 2
               else (\<exists>e. r = Inl e) \<and> failed_at (stored i f) db db')))"

text \<open>
  The contract for one edited description, as an operation on the image table:
  \<open>strategy\<close> is the strategy as the edit page loaded it, \<open>newVersionImages\<close> the images
  of the new version. An entry whose original image is not found, or whose trimmed
  description is that image's alt text, changes nothing. Otherwise the first image of
  the new version with the original's storage path or position gets the trimmed
  description as alt text when that is not empty, and nothing changes when it is empty;
  when the new version has no such image, the original image gets the trimmed
  description.
\<close>

definition describe_image ::
  "strategy_with_version option \<Rightarrow> image_row list \<Rightarrow> uuid \<times> string \<Rightarrow> image_row list \<Rightarrow>
     image_row list" where
  "describe_image strategy newVersionImages entry rows =
     (case find (\<lambda>img. i_id img = fst entry) (images_of strategy) of
        None \<Rightarrow> rows
      | Some originalImage \<Rightarrow>
          if i_alt_text originalImage = Some (trim (snd entry)) then rows
          else
            (case find (\<lambda>img. i_storage_path img = i_storage_path originalImage
                              \<or> i_position_in_content img = i_position_in_content originalImage)
                    newVersionImages of
               Some newVersionImage \<Rightarrow>
                 if trim (snd entry) \<noteq> []
                 then set_alt_text (i_id newVersionImage) (trim (snd entry)) rows
                 else rows
             | None \<Rightarrow> set_alt_text (i_id originalImage) (trim (snd entry)) rows))"

text \<open>
  The images of a strategy as \<open>getStrategy\<close> delivers them from the state \<open>db\<close>: by
  position when the stored procedure answers, in table order from the fallback.
\<close>

definition images_read :: "backend \<Rightarrow> uuid \<Rightarrow> image_row list" where
  "images_read db strategyId =
     (case fst (get_strategy_with_version db strategyId) of
        Inr _ \<Rightarrow>
          sort_key i_position_in_content
            (filter (\<lambda>i. i_strategy_id i = Some strategyId) (tbl_strategy_images db))
      | Inl _ \<Rightarrow> filter (\<lambda>i. i_strategy_id i = Some strategyId) (tbl_strategy_images db))"

definition rush_a :: create_strategy_form where
  "rush_a =
     \<lparr>csf_map_id = ''m1'', csf_title = ''Rush A'', csf_description = ''Smoke and go'',
      csf_change_notes = None\<rparr>"

definition rush_a_edit :: update_strategy_form where
  "rush_a_edit =
     \<lparr>usf_title = ''Rush A'', usf_description = ''Flash, smoke and go'',
      usf_change_notes = Some ''Updated strategy''\<rparr>"

section \<open>Verification: versioning protocol\<close>


lemmas prim_defs = request_def select_single_def select_rows_def single_def gen_random_uuid_def
  insert_strategy_def insert_version_def insert_image_def update_strategy_def embed_map_def
  truthy_def or_string_def or_null_def with_version_def configured_def Let_def
  bump_strategy_count_def in_int4_def

lemmas ex_defs = desert_storm_def fresh_backend_def rush_a_def rush_a_edit_def legacy_backend_def
  created_backend_def legacy_edited_backend_def crossfire_def crossfire_copy_def
  copied_backend_def loaded_strategy_def three_files_def empty_form_def

lemma request_tables: "request db = (f, db1) \<Longrightarrow>
   tbl_maps db1 = tbl_maps db \<and> tbl_strategies db1 = tbl_strategies db \<and>
   tbl_strategy_versions db1 = tbl_strategy_versions db \<and>
   tbl_strategy_images db1 = tbl_strategy_images db \<and> uuids db1 = uuids db \<and>
   buckets db1 = buckets db \<and> objects db1 = objects db \<and>
   faults db1 = tl (faults db) \<and> db_now db1 = Suc (db_now db) \<and> f = rejected db 0"
  by (auto simp: request_def rejected_def split: list.splits)

lemma select_single_tables: "select_single db tbl p = (r, db1) \<Longrightarrow>
   tbl_maps db1 = tbl_maps db \<and> tbl_strategies db1 = tbl_strategies db \<and>
   tbl_strategy_versions db1 = tbl_strategy_versions db \<and>
   tbl_strategy_images db1 = tbl_strategy_images db \<and> uuids db1 = uuids db \<and>
   buckets db1 = buckets db \<and> objects db1 = objects db \<and>
   faults db1 = tl (faults db) \<and> db_now db1 = Suc (db_now db)"
  by (auto simp: select_single_def split: prod.splits bool.splits dest: request_tables)

lemma select_rows_tables: "select_rows db tbl p = (r, db1) \<Longrightarrow>
   tbl_maps db1 = tbl_maps db \<and> tbl_strategies db1 = tbl_strategies db \<and>
   tbl_strategy_versions db1 = tbl_strategy_versions db \<and>
   tbl_strategy_images db1 = tbl_strategy_images db \<and> uuids db1 = uuids db \<and>
   buckets db1 = buckets db \<and> objects db1 = objects db \<and>
   faults db1 = tl (faults db) \<and> db_now db1 = Suc (db_now db)"
  by (auto simp: select_rows_def split: prod.splits bool.splits dest: request_tables)

lemma insert_version_Inr:
  assumes "insert_version db sid n t d c = (Inr row, db')"
  shows "tbl_strategy_versions db' = tbl_strategy_versions db @ [row]"
    and "tbl_strategies db' = tbl_strategies db"
    and "tbl_maps db' = tbl_maps db"
    and "tbl_strategy_images db' = tbl_strategy_images db"
    and "v_strategy_id row = sid" and "v_version_number row = n"
    and "v_title row = t" and "v_description row = d" and "v_change_notes row = c"
    and "v_id row \<notin> v_id ` set (tbl_strategy_versions db)"
    and "sid \<in> s_id ` set (tbl_strategies db)"
    and "\<forall>v \<in> set (tbl_strategy_versions db). v_strategy_id v = sid \<longrightarrow> v_version_number v \<noteq> n"
    and "faults db' = tl (faults db)"
    and "in_int4 n"
  using assms
  by (auto simp: insert_version_def gen_random_uuid_def Let_def list_ex_iff
      split: prod.splits bool.splits option.splits list.splits if_splits dest!: request_tables)

lemma insert_version_Inl:
  assumes "insert_version db sid n t d c = (Inl e, db')"
  shows "tbl_strategy_versions db' = tbl_strategy_versions db"
    and "tbl_strategies db' = tbl_strategies db"
    and "tbl_maps db' = tbl_maps db"
    and "tbl_strategy_images db' = tbl_strategy_images db"
    and "faults db' = tl (faults db)"
  using assms
  by (auto simp: insert_version_def gen_random_uuid_def Let_def list_ex_iff
      split: prod.splits bool.splits option.splits list.splits if_splits dest!: request_tables)

lemma insert_strategy_Inr:
  assumes "insert_strategy db m t d = (Inr row, db')"
  shows "tbl_strategies db' = tbl_strategies db @ [row]"
    and "tbl_strategy_versions db' = tbl_strategy_versions db"
    and "tbl_maps db' = bump_strategy_count m 1 (db_now db') (tbl_maps db)"
    and "tbl_strategy_images db' = tbl_strategy_images db"
    and "s_id row \<notin> s_id ` set (tbl_strategies db)"
    and "s_current_version_id row = None"
    and "s_map_id row = m" and "s_title row = t" and "s_description row = d"
    and "faults db' = tl (faults db)"
  using assms
  by (auto simp: insert_strategy_def gen_random_uuid_def Let_def
      split: prod.splits bool.splits option.splits list.splits if_splits dest!: request_tables)

lemma update_strategy_Inr:
  assumes "update_strategy db sid patch = (Inr r', db')"
  shows "\<exists>r. filter (\<lambda>r. s_id r = sid) (tbl_strategies db) = [r]
             \<and> r' = (patch r)\<lparr>s_updated_at := db_now db'\<rparr>"
    and "tbl_strategies db' =
           map (\<lambda>r. if s_id r = sid then (patch r)\<lparr>s_updated_at := db_now db'\<rparr> else r)
             (tbl_strategies db)"
    and "tbl_strategy_versions db' = tbl_strategy_versions db"
    and "tbl_maps db' = tbl_maps db"
    and "tbl_strategy_images db' = tbl_strategy_images db"
    and "faults db' = tl (faults db)"
  using assms
  by (auto simp: update_strategy_def
      split: prod.splits bool.splits option.splits list.splits if_splits dest!: request_tables)

lemma select_single_Inr:
  assumes "select_single db tbl p = (Inr r, db')"
  shows "filter p (tbl db') = [r]"
  using assms
  by (auto simp: select_single_def single_def
      split: prod.splits bool.splits option.splits list.splits if_splits)

lemma filter_singleD: "filter P xs = [x] \<Longrightarrow> P x \<and> x \<in> set xs"
proof -
  assume "filter P xs = [x]"
  then have "x \<in> set (filter P xs)" by simp
  then show ?thesis by simp
qed

lemma filter_fresh: "k \<notin> f ` set xs \<Longrightarrow> filter (\<lambda>v. f v = k) xs = []"
  by (induction xs) auto

text \<open>
  Claim C10. Whatever the tables hold, a successful \<open>createStrategy\<close> appends one
  version row, numbered 1, for the strategy it returns; the returned
  \<open>current_version\<close> is that row, the returned pointer is its identity, and
  \<open>images\<close> is the empty list.
\<close>

theorem createStrategy_initial_version:
  assumes "createStrategy (Some db) strategyData = (Inr s, db')"
  shows "\<exists>db1 v. db' = Some db1
           \<and> tbl_strategy_versions db1 = tbl_strategy_versions db @ [v]
           \<and> v_version_number v = 1 \<and> v_strategy_id v = sv_id s
           \<and> sv_current_version s = Some v \<and> sv_current_version_id s = Some (v_id v)
           \<and> sv_images s = Some []"
proof -
  from assms obtain db1 where db': "db' = Some db1"
    and c: "createStrategy_db db strategyData = (Inr s, db1)"
    by (cases "createStrategy_db db strategyData") (auto simp: createStrategy_def configured_def)
  from c obtain strategy d1 version d2 updated d3 current where
    i1: "insert_strategy db (csf_map_id strategyData) (csf_title strategyData)
             (csf_description strategyData) = (Inr strategy, d1)"
    and i2: "insert_version d1 (s_id strategy) 1 (csf_title strategyData)
             (csf_description strategyData)
             (Some (or_string (csf_change_notes strategyData) ''Initial version'')) = (Inr version, d2)"
    and u: "update_strategy d2 (s_id strategy)
             (\<lambda>r. r\<lparr>s_current_version_id := Some (v_id version)\<rparr>) = (Inr updated, d3)"
    and f: "select_single d3 tbl_strategy_versions (\<lambda>v. v_id v = v_id version) = (Inr current, db1)"
    and s: "s = with_version updated
                  (map_option (\<lambda>m. MapNameThumb (m_name m) (m_thumbnail_url m))
                     (embed_map d3 (s_map_id updated)))
                  (Some current) (Some [])"
    by (auto simp: createStrategy_db_def split: prod.splits sum.splits)
  note v = insert_version_Inr[OF i2]
  note st = insert_strategy_Inr[OF i1]
  note up = update_strategy_Inr[OF u]
  have vs: "tbl_strategy_versions db1 = tbl_strategy_versions db @ [version]"
    using select_single_tables[OF f] up(3) v(1) st(2) by simp
  have "filter (\<lambda>v. v_id v = v_id version) (tbl_strategy_versions db1) = [current]"
    using select_single_Inr[OF f] by simp
  moreover have "filter (\<lambda>v. v_id v = v_id version) (tbl_strategy_versions db1) = [version]"
    using v(10) st(2) unfolding vs by (simp add: filter_fresh)
  ultimately have cur: "current = version" by simp
  from up(1) obtain r where r: "filter (\<lambda>r. s_id r = s_id strategy) (tbl_strategies d2) = [r]"
    and upd: "updated = r\<lparr>s_current_version_id := Some (v_id version), s_updated_at := db_now d3\<rparr>"
    by blast
  have "r \<in> set (filter (\<lambda>r. s_id r = s_id strategy) (tbl_strategies d2))" using r by simp
  then have rid: "s_id r = s_id strategy" by simp
  show ?thesis
    using db' vs cur v(5,6) upd rid s by (simp add: with_version_def)
qed


lemma rejected_tl: "faults db1 = tl (faults db) \<Longrightarrow> rejected db1 k = rejected db (Suc k)"
  by (cases "faults db") (auto simp: rejected_def)

lemma select_single_result:
  "select_single db tbl p = (r, db1) \<Longrightarrow>
     r = (if rejected db 0 then Inl Fault else single (filter p (tbl db1)))"
  by (auto simp: select_single_def split: prod.splits bool.splits dest: request_tables)

lemma nextVersionNumber_value:
  assumes "nextVersionNumber db cv = (n, db1)"
  shows "n = (if truthy cv \<and> \<not> rejected db 0
              then case filter (\<lambda>v. Some (v_id v) = cv) (tbl_strategy_versions db) of
                     [c] \<Rightarrow> v_version_number c + 1 | _ \<Rightarrow> 1
              else 1)"
    and "tbl_strategy_versions db1 = tbl_strategy_versions db"
    and "tbl_strategies db1 = tbl_strategies db"
    and "tbl_maps db1 = tbl_maps db"
    and "tbl_strategy_images db1 = tbl_strategy_images db"
proof -
  show "n = (if truthy cv \<and> \<not> rejected db 0
              then case filter (\<lambda>v. Some (v_id v) = cv) (tbl_strategy_versions db) of
                     [c] \<Rightarrow> v_version_number c + 1 | _ \<Rightarrow> 1
              else 1)"
  proof (cases "truthy cv")
    case False
    with assms show ?thesis by (simp add: nextVersionNumber_def)
  next
    case True
    obtain r d where sel: "select_single db tbl_strategy_versions (\<lambda>v. Some (v_id v) = cv) = (r, d)"
      by (cases "select_single db tbl_strategy_versions (\<lambda>v. Some (v_id v) = cv)")
    from select_single_result[OF sel] select_single_tables[OF sel] assms True sel
    show ?thesis
      by (auto simp: nextVersionNumber_def single_def split: sum.splits list.splits if_splits)
  qed
  show "tbl_strategy_versions db1 = tbl_strategy_versions db"
    "tbl_strategies db1 = tbl_strategies db"
    "tbl_maps db1 = tbl_maps db"
    "tbl_strategy_images db1 = tbl_strategy_images db"
    using assms
    by (auto simp: nextVersionNumber_def split: if_splits prod.splits sum.splits
        dest: select_single_tables)
qed

text \<open>What a successful \<open>updateStrategy\<close> did, call by call.\<close>

lemma updateStrategy_db_Inr:
  assumes "updateStrategy_db db ident d = (Inr s, db')"
  shows "\<exists>cur v n d1 d2 t.
           filter (\<lambda>r. s_id r = ident) (tbl_strategies db) = [cur]
         \<and> select_single db tbl_strategies (\<lambda>r. s_id r = ident) = (Inr cur, d1)
         \<and> nextVersionNumber d1 (s_current_version_id cur) = (n, d2)
         \<and> tbl_strategy_versions db' = tbl_strategy_versions db @ [v]
         \<and> v_strategy_id v = ident \<and> v_version_number v = n
         \<and> v_title v = usf_title d \<and> v_description v = usf_description d
         \<and> v_change_notes v = usf_change_notes d
         \<and> v_id v \<notin> v_id ` set (tbl_strategy_versions db)
         \<and> (\<forall>x \<in> set (tbl_strategy_versions db). v_strategy_id x = ident \<longrightarrow> v_version_number x \<noteq> n)
         \<and> tbl_strategies db' =
             map (\<lambda>r. if s_id r = ident
                       then r\<lparr>s_current_version_id := Some (v_id v), s_title := usf_title d,
                               s_description := usf_description d, s_updated_at := t\<rparr>
                       else r) (tbl_strategies db)
         \<and> tbl_maps db' = tbl_maps db \<and> tbl_strategy_images db' = tbl_strategy_images db
         \<and> sv_current_version s = Some v \<and> sv_current_version_id s = Some (v_id v)
         \<and> sv_id s = ident"
proof -
  from assms obtain cur d1 n d2 v d3 upd d4 imgs where
    f: "select_single db tbl_strategies (\<lambda>r. s_id r = ident) = (Inr cur, d1)"
    and nv: "nextVersionNumber d1 (s_current_version_id cur) = (n, d2)"
    and iv: "insert_version d2 ident n (usf_title d) (usf_description d) (usf_change_notes d)
               = (Inr v, d3)"
    and u: "update_strategy d3 ident
             (\<lambda>r. r\<lparr>s_current_version_id := Some (v_id v), s_title := usf_title d,
                     s_description := usf_description d\<rparr>) = (Inr upd, d4)"
    and im: "select_rows d4 tbl_strategy_images (\<lambda>i. i_strategy_id i = Some ident) = (imgs, db')"
    and s: "s = with_version upd (map_option MapAll (embed_map d4 (s_map_id upd))) (Some v)
                  (Some (case imgs of Inl _ \<Rightarrow> []
                         | Inr rows \<Rightarrow> sort_key i_position_in_content rows))"
    by (auto simp: updateStrategy_db_def split: prod.splits sum.splits)
  note t1 = select_single_tables[OF f]
  note t2 = nextVersionNumber_value(2-5)[OF nv]
  note t3 = insert_version_Inr[OF iv]
  note t4 = update_strategy_Inr[OF u]
  note t5 = select_rows_tables[OF im]
  have cur: "filter (\<lambda>r. s_id r = ident) (tbl_strategies db) = [cur]"
    using select_single_Inr[OF f] t1 by simp
  from t4(1) obtain r where r: "filter (\<lambda>r. s_id r = ident) (tbl_strategies d3) = [r]"
    and upd: "upd = r\<lparr>s_current_version_id := Some (v_id v), s_title := usf_title d,
                     s_description := usf_description d, s_updated_at := db_now d4\<rparr>" by blast
  have "r \<in> set (filter (\<lambda>r. s_id r = ident) (tbl_strategies d3))" using r by simp
  then have rid: "s_id r = ident" by simp
  have vs: "tbl_strategy_versions db' = tbl_strategy_versions db @ [v]"
    using t1 t2 t3(1) t4(3) t5 by simp
  have ss: "tbl_strategies db' =
             map (\<lambda>r. if s_id r = ident
                       then r\<lparr>s_current_version_id := Some (v_id v), s_title := usf_title d,
                               s_description := usf_description d, s_updated_at := db_now d4\<rparr>
                       else r) (tbl_strategies db)"
    using t1 t2 t3(2) t4(2) t5 by simp
  have fresh: "v_id v \<notin> v_id ` set (tbl_strategy_versions db)"
    using t3(10) t1 t2 by simp
  have uniq: "\<forall>x \<in> set (tbl_strategy_versions db). v_strategy_id x = ident \<longrightarrow> v_version_number x \<noteq> n"
    using t3(12) t1 t2 by simp
  have rest: "tbl_maps db' = tbl_maps db" "tbl_strategy_images db' = tbl_strategy_images db"
    using t1 t2 t3(3,4) t4(4,5) t5 by simp_all
  have cv: "sv_current_version s = Some v" "sv_current_version_id s = Some (v_id v)"
    "sv_id s = ident"
    using s upd rid by (simp_all add: with_version_def)
  show ?thesis
    by (intro exI[of _ cur] exI[of _ v] exI[of _ n] exI[of _ d1] exI[of _ d2]
        exI[of _ "db_now d4"] conjI cur f nv vs t3(5-9) fresh uniq ss rest cv)
qed


lemma updateStrategy_db_no_version_succeeds:
  assumes "filter (\<lambda>r. s_id r = ident) (tbl_strategies db) = [cur]"
    and "s_current_version_id cur = None"
    and "faults db = []"
    and "uuids db = u # us"
    and "u \<notin> v_id ` set (tbl_strategy_versions db)"
    and "\<forall>v \<in> set (tbl_strategy_versions db). v_strategy_id v = ident \<longrightarrow> v_version_number v \<noteq> 1"
  shows "\<exists>s db1. updateStrategy_db db ident d = (Inr s, db1)"
proof -
  have "cur \<in> set (filter (\<lambda>r. s_id r = ident) (tbl_strategies db))" using assms(1) by simp
  then have mem: "ident \<in> s_id ` set (tbl_strategies db)" by auto
  have nex: "\<not> list_ex (\<lambda>v. v_strategy_id v = ident \<and> v_version_number v = 1) (tbl_strategy_versions db)"
    using assms(6) by (auto simp: list_ex_iff)
  show ?thesis
    using assms(1-5) mem nex
    by (simp add: updateStrategy_db_def nextVersionNumber_def truthy_def prim_defs)
qed

lemma history_step:
  assumes inv: "history_ok db sid k" and k: "1 \<le> k"
    and upd: "updateStrategy_db db sid d = (Inr s, db')"
  shows "history_ok db' sid (Suc k)"
proof -
  let ?vs = "versions_of db sid"
  from updateStrategy_db_Inr[OF upd] obtain cur v n d1 d2 t where
    cur: "filter (\<lambda>r. s_id r = sid) (tbl_strategies db) = [cur]"
    and sel: "select_single db tbl_strategies (\<lambda>r. s_id r = sid) = (Inr cur, d1)"
    and nv: "nextVersionNumber d1 (s_current_version_id cur) = (n, d2)"
    and vs': "tbl_strategy_versions db' = tbl_strategy_versions db @ [v]"
    and vsid: "v_strategy_id v = sid" and vn: "v_version_number v = n"
    and fresh: "v_id v \<notin> v_id ` set (tbl_strategy_versions db)"
    and uniq: "\<forall>x \<in> set (tbl_strategy_versions db). v_strategy_id x = sid \<longrightarrow> v_version_number x \<noteq> n"
    and ss': "tbl_strategies db' =
             map (\<lambda>r. if s_id r = sid
                       then r\<lparr>s_current_version_id := Some (v_id v), s_title := usf_title d,
                               s_description := usf_description d, s_updated_at := t\<rparr>
                       else r) (tbl_strategies db)"
    by (elim exE conjE) (rule that)
  from inv have nums: "map v_version_number ?vs = map int [1..<Suc k]"
    and ptr: "s_current_version_id cur = Some (v_id (last ?vs))"
    and one: "filter (\<lambda>v. v_id v = v_id (last ?vs)) (tbl_strategy_versions db) = [last ?vs]"
    using cur by (auto simp: history_ok_def)
  from nums k have len: "length ?vs = k"
    by (metis diff_Suc_1 length_map length_upt)
  with k have ne: "?vs \<noteq> []" by auto
  have lastn: "v_version_number (last ?vs) = int k"
  proof -
    have "v_version_number (last ?vs) = last (map v_version_number ?vs)"
      using ne by (simp add: last_map)
    also have "\<dots> = last (map int [1..<Suc k])" using nums by simp
    also have "\<dots> = int k" using k by (simp add: last_map)
    finally show ?thesis .
  qed
  have hdn: "v_version_number (hd ?vs) = 1"
  proof -
    have "v_version_number (hd ?vs) = hd (map v_version_number ?vs)"
      using ne by (simp add: hd_map)
    also have "\<dots> = hd (map int [1..<Suc k])" using nums by simp
    also have "\<dots> = 1" using k by (simp del: upt_Suc add: hd_map)
    finally show ?thesis .
  qed
  have hd_in: "hd ?vs \<in> set (tbl_strategy_versions db)" "v_strategy_id (hd ?vs) = sid"
    using ne hd_in_set[OF ne] by (auto simp: versions_of_def)
  have n1: "n \<noteq> 1" using uniq hd_in hdn by auto
  have "tbl_strategy_versions d1 = tbl_strategy_versions db"
    using select_single_tables[OF sel] by simp
  moreover have "filter (\<lambda>v. Some (v_id v) = Some (v_id (last ?vs))) (tbl_strategy_versions db)
      = [last ?vs]"
    using one by simp
  ultimately have n: "n = int k + 1"
    using nextVersionNumber_value(1)[OF nv] ptr n1
    by (simp add: lastn split: if_splits)
  have vof: "versions_of db' sid = ?vs @ [v]"
    using vs' vsid by (simp add: versions_of_def)
  have c1: "map v_version_number (versions_of db' sid) = map int [1..<Suc (Suc k)]"
    using nums vn n by (simp add: vof)
  have "filter (\<lambda>r. s_id r = sid) (tbl_strategies db') =
        map (\<lambda>r. if s_id r = sid
                       then r\<lparr>s_current_version_id := Some (v_id v), s_title := usf_title d,
                               s_description := usf_description d, s_updated_at := t\<rparr>
                       else r) (filter (\<lambda>r. s_id r = sid) (tbl_strategies db))"
    unfolding ss' filter_map by (rule arg_cong[where f="map _"], rule filter_cong) auto
  then have c2: "filter (\<lambda>r. s_id r = sid) (tbl_strategies db') =
       [cur\<lparr>s_current_version_id := Some (v_id v), s_title := usf_title d,
                               s_description := usf_description d, s_updated_at := t\<rparr>]"
    using cur filter_singleD[OF cur] by simp
  have c3: "filter (\<lambda>x. v_id x = v_id v) (tbl_strategy_versions db') = [v]"
    using fresh by (simp add: vs' filter_fresh)
  show ?thesis
    using c1 c2 c3 by (simp add: history_ok_def vof)
qed

lemma edits_history:
  assumes "edits (Some db) sid ds = (Inr (), c)" and "history_ok db sid k" and "1 \<le> k"
  shows "\<exists>db'. c = Some db' \<and> history_ok db' sid (k + length ds)"
  using assms
proof (induction ds arbitrary: db k)
  case Nil
  then show ?case by auto
next
  case (Cons d ds)
  from Cons.prems(1) obtain s db1 where
    u: "updateStrategy_db db sid d = (Inr s, db1)"
    and rest: "edits (Some db1) sid ds = (Inr (), c)"
    by (cases "updateStrategy_db db sid d")
       (auto simp: updateStrategy_def configured_def split: sum.splits)
  from history_step[OF Cons.prems(2,3) u] have "history_ok db1 sid (Suc k)" .
  from Cons.IH[OF rest this] Cons.prems(3) show ?case by simp
qed

lemma createStrategy_db_history:
  assumes fk: "v_strategy_id ` set (tbl_strategy_versions db) \<subseteq> s_id ` set (tbl_strategies db)"
    and c: "createStrategy_db db strategyData = (Inr s, db1)"
  shows "history_ok db1 (sv_id s) 1"
proof -
  from c obtain strategy d1 version d2 updated d3 current where
    i1: "insert_strategy db (csf_map_id strategyData) (csf_title strategyData)
             (csf_description strategyData) = (Inr strategy, d1)"
    and i2: "insert_version d1 (s_id strategy) 1 (csf_title strategyData)
             (csf_description strategyData)
             (Some (or_string (csf_change_notes strategyData) ''Initial version'')) = (Inr version, d2)"
    and u: "update_strategy d2 (s_id strategy)
             (\<lambda>r. r\<lparr>s_current_version_id := Some (v_id version)\<rparr>) = (Inr updated, d3)"
    and f: "select_single d3 tbl_strategy_versions (\<lambda>v. v_id v = v_id version) = (Inr current, db1)"
    and s: "s = with_version updated
                  (map_option (\<lambda>m. MapNameThumb (m_name m) (m_thumbnail_url m))
                     (embed_map d3 (s_map_id updated)))
                  (Some current) (Some [])"
    by (auto simp: createStrategy_db_def split: prod.splits sum.splits)
  note v = insert_version_Inr[OF i2]
  note st = insert_strategy_Inr[OF i1]
  note up = update_strategy_Inr[OF u]
  note se = select_single_tables[OF f]
  have vs: "tbl_strategy_versions db1 = tbl_strategy_versions db @ [version]"
    using se up(3) v(1) st(2) by simp
  from up(1) obtain r where r: "filter (\<lambda>r. s_id r = s_id strategy) (tbl_strategies d2) = [r]"
    and upd: "updated = r\<lparr>s_current_version_id := Some (v_id version), s_updated_at := db_now d3\<rparr>"
    by blast
  have "r \<in> set (filter (\<lambda>r. s_id r = s_id strategy) (tbl_strategies d2))" using r by simp
  then have rid: "s_id r = s_id strategy" by simp
  have sid: "sv_id s = s_id strategy" using s upd rid by (simp add: with_version_def)
  have "s_id strategy \<notin> v_strategy_id ` set (tbl_strategy_versions db)"
    using st(5) fk by auto
  then have old: "filter (\<lambda>v. v_strategy_id v = s_id strategy) (tbl_strategy_versions db) = []"
    by (rule filter_fresh)
  have vof: "versions_of db1 (sv_id s) = [version]"
    using old v(5) by (simp add: versions_of_def vs sid)
  have ss: "tbl_strategies db1 =
      map (\<lambda>r. if s_id r = s_id strategy
                then r\<lparr>s_current_version_id := Some (v_id version), s_updated_at := db_now d3\<rparr>
                else r)
        (tbl_strategies db @ [strategy])"
    using se up(2) v(2) st(1) by simp
  have old_s: "filter (\<lambda>r. s_id r = s_id strategy) (tbl_strategies db) = []"
    using st(5) by (rule filter_fresh)
  have "filter (\<lambda>r. s_id r = s_id strategy) (tbl_strategies db1) =
        map (\<lambda>r. if s_id r = s_id strategy
                  then r\<lparr>s_current_version_id := Some (v_id version), s_updated_at := db_now d3\<rparr>
                  else r)
         (filter (\<lambda>r. s_id r = s_id strategy) (tbl_strategies db @ [strategy]))"
    unfolding ss filter_map by (rule arg_cong[where f="map _"], rule filter_cong) auto
  then have c2: "filter (\<lambda>r. s_id r = sv_id s) (tbl_strategies db1) =
        [strategy\<lparr>s_current_version_id := Some (v_id version), s_updated_at := db_now d3\<rparr>]"
    using old_s by (simp add: sid)
  have c3: "filter (\<lambda>x. v_id x = v_id version) (tbl_strategy_versions db1) = [version]"
    using v(10) st(2) by (simp add: vs filter_fresh)
  show ?thesis
    using vof c2 c3 v(6) by (simp add: history_ok_def)
qed


text \<open>
  Claim C1. A successful \<open>updateStrategy\<close> appends exactly one version row for the
  strategy. When the strategy's \<open>current_version_id\<close> points at a version row that is
  read (the read is the second call), the new row's \<open>version_number\<close> is that row's
  number plus one; when the pointer is absent (falsy), or the read is rejected or does
  not give exactly one row, it is 1. On a strategy without a current version, a backend that
  rejects nothing and has no version numbered 1 for it, the call returns. Whatever error
  the call returns is an error of the backend, never a crash of the computation.
\<close>

theorem updateStrategy_version_number:
  "(updateStrategy (Some db) ident strategyData = (Inr s, db') \<longrightarrow>
      (\<exists>db1 cur v. db' = Some db1
         \<and> filter (\<lambda>r. s_id r = ident) (tbl_strategies db) = [cur]
         \<and> tbl_strategy_versions db1 = tbl_strategy_versions db @ [v]
         \<and> v_strategy_id v = ident \<and> sv_current_version s = Some v
         \<and> (\<forall>vid c. s_current_version_id cur = Some vid \<and> vid \<noteq> [] \<and> \<not> rejected db 1
                \<and> filter (\<lambda>x. v_id x = vid) (tbl_strategy_versions db) = [c]
              \<longrightarrow> v_version_number v = v_version_number c + 1)
         \<and> (\<not> truthy (s_current_version_id cur) \<longrightarrow> v_version_number v = 1)
         \<and> (\<forall>vid. s_current_version_id cur = Some vid
                \<and> (rejected db 1
                    \<or> length (filter (\<lambda>x. v_id x = vid) (tbl_strategy_versions db)) \<noteq> 1)
              \<longrightarrow> v_version_number v = 1)))
   \<and> (filter (\<lambda>r. s_id r = ident) (tbl_strategies db) = [cur0]
        \<and> s_current_version_id cur0 = None \<and> faults db = [] \<and> uuids db = u # us
        \<and> u \<notin> v_id ` set (tbl_strategy_versions db)
        \<and> (\<forall>x \<in> set (tbl_strategy_versions db).
              v_strategy_id x = ident \<longrightarrow> v_version_number x \<noteq> 1)
      \<longrightarrow> (\<exists>s1 db1. updateStrategy (Some db) ident strategyData = (Inr s1, Some db1)))
   \<and> (\<forall>e. fst (updateStrategy (Some db) ident strategyData) = Inl e \<longrightarrow> (\<exists>p. e = Pg p))"
proof (intro conjI impI)
  assume a: "updateStrategy (Some db) ident strategyData = (Inr s, db')"
  then obtain db1 where db': "db' = Some db1"
    and u: "updateStrategy_db db ident strategyData = (Inr s, db1)"
    by (cases "updateStrategy_db db ident strategyData")
       (auto simp: updateStrategy_def configured_def)
  from updateStrategy_db_Inr[OF u] obtain cur v n d1 d2 where
    cur: "filter (\<lambda>r. s_id r = ident) (tbl_strategies db) = [cur]"
    and sel: "select_single db tbl_strategies (\<lambda>r. s_id r = ident) = (Inr cur, d1)"
    and nv: "nextVersionNumber d1 (s_current_version_id cur) = (n, d2)"
    and vs': "tbl_strategy_versions db1 = tbl_strategy_versions db @ [v]"
    and vsid: "v_strategy_id v = ident" and vn: "v_version_number v = n"
    and cv: "sv_current_version s = Some v"
    by (elim exE conjE) (rule that)
  note t = select_single_tables[OF sel]
  have rj: "rejected d1 0 = rejected db 1"
    using t by (simp add: rejected_tl)
  have n: "n = (if truthy (s_current_version_id cur) \<and> \<not> rejected db 1
              then case filter (\<lambda>v. Some (v_id v) = s_current_version_id cur)
                          (tbl_strategy_versions db) of
                     [c] \<Rightarrow> v_version_number c + 1 | _ \<Rightarrow> 1
              else 1)"
    using nextVersionNumber_value(1)[OF nv] t rj by simp
  have h1: "\<forall>vid c. s_current_version_id cur = Some vid \<and> vid \<noteq> [] \<and> \<not> rejected db 1
                \<and> filter (\<lambda>x. v_id x = vid) (tbl_strategy_versions db) = [c]
              \<longrightarrow> v_version_number v = v_version_number c + 1"
    using n vn by (auto simp: truthy_def)
  have h2: "\<not> truthy (s_current_version_id cur) \<longrightarrow> v_version_number v = 1"
    using n vn by auto
  have h3: "\<forall>vid. s_current_version_id cur = Some vid
                \<and> (rejected db 1
                    \<or> length (filter (\<lambda>x. v_id x = vid) (tbl_strategy_versions db)) \<noteq> 1)
              \<longrightarrow> v_version_number v = 1"
    using n vn by (auto split: list.splits if_splits)
  show "\<exists>db1 cur v. db' = Some db1
         \<and> filter (\<lambda>r. s_id r = ident) (tbl_strategies db) = [cur]
         \<and> tbl_strategy_versions db1 = tbl_strategy_versions db @ [v]
         \<and> v_strategy_id v = ident \<and> sv_current_version s = Some v
         \<and> (\<forall>vid c. s_current_version_id cur = Some vid \<and> vid \<noteq> [] \<and> \<not> rejected db 1
                \<and> filter (\<lambda>x. v_id x = vid) (tbl_strategy_versions db) = [c]
              \<longrightarrow> v_version_number v = v_version_number c + 1)
         \<and> (\<not> truthy (s_current_version_id cur) \<longrightarrow> v_version_number v = 1)
         \<and> (\<forall>vid. s_current_version_id cur = Some vid
                \<and> (rejected db 1
                    \<or> length (filter (\<lambda>x. v_id x = vid) (tbl_strategy_versions db)) \<noteq> 1)
              \<longrightarrow> v_version_number v = 1)"
    by (intro exI[of _ db1] exI[of _ cur] exI[of _ v] conjI db' cur vs' vsid cv h1 h2 h3)
next
  assume b: "filter (\<lambda>r. s_id r = ident) (tbl_strategies db) = [cur0]
        \<and> s_current_version_id cur0 = None \<and> faults db = [] \<and> uuids db = u # us
        \<and> u \<notin> v_id ` set (tbl_strategy_versions db)
        \<and> (\<forall>x \<in> set (tbl_strategy_versions db).
              v_strategy_id x = ident \<longrightarrow> v_version_number x \<noteq> 1)"
  then obtain s1 db1 where "updateStrategy_db db ident strategyData = (Inr s1, db1)"
    using updateStrategy_db_no_version_succeeds[of ident db cur0 u us strategyData] by blast
  then show "\<exists>s1 db1. updateStrategy (Some db) ident strategyData = (Inr s1, Some db1)"
    by (simp add: updateStrategy_def configured_def)
next
  show "\<forall>e. fst (updateStrategy (Some db) ident strategyData) = Inl e \<longrightarrow> (\<exists>p. e = Pg p)"
    by (auto simp: updateStrategy_def configured_def updateStrategy_db_def
        split: prod.splits sum.splits)
qed

text \<open>
  The two cases at concrete inputs: the legacy strategy without a version gets version 1,
  the strategy "Rush A" at version 1 gets version 2.
\<close>

theorem updateStrategy_version_number_witness:
  "(\<exists>s db1 v. updateStrategy (Some legacy_backend) ''s0'' rush_a_edit = (Inr s, Some db1)
       \<and> tbl_strategy_versions db1 = [v] \<and> v_version_number v = 1)
   \<and> (\<exists>s db1 v. updateStrategy (Some created_backend) ''u1'' rush_a_edit = (Inr s, Some db1)
       \<and> tbl_strategy_versions db1 = tbl_strategy_versions created_backend @ [v]
       \<and> v_version_number v = 2)"
proof
  obtain s c where r: "updateStrategy (Some legacy_backend) ''s0'' rush_a_edit = (Inr s, c)"
    by (simp add: updateStrategy_def updateStrategy_db_def nextVersionNumber_def prim_defs ex_defs)
  have cur: "filter (\<lambda>r. s_id r = ''s0'') (tbl_strategies legacy_backend)
       = [\<lparr>s_id = ''s0'', s_map_id = ''m1'', s_title = ''Hold B'',
            s_description = ''Anchor the site'', s_current_version_id = None,
            s_created_at = 0, s_updated_at = 0\<rparr>]"
    and vs: "tbl_strategy_versions legacy_backend = []"
    by (simp_all add: ex_defs)
  from updateStrategy_version_number[of legacy_backend "''s0''" rush_a_edit s c,
      THEN conjunct1, THEN mp, OF r]
  obtain db1 cur' v where c: "c = Some db1"
    and cur': "filter (\<lambda>r. s_id r = ''s0'') (tbl_strategies legacy_backend) = [cur']"
    and v: "tbl_strategy_versions db1 = tbl_strategy_versions legacy_backend @ [v]"
    and n: "\<not> truthy (s_current_version_id cur') \<longrightarrow> v_version_number v = 1"
    by (elim exE conjE) (rule that)
  from cur cur' n have "v_version_number v = 1" by (simp add: truthy_def)
  with r c v vs
  show "\<exists>s db1 v. updateStrategy (Some legacy_backend) ''s0'' rush_a_edit = (Inr s, Some db1)
       \<and> tbl_strategy_versions db1 = [v] \<and> v_version_number v = 1"
    by auto
next
  obtain s c where r: "updateStrategy (Some created_backend) ''u1'' rush_a_edit = (Inr s, c)"
    by (simp add: updateStrategy_def updateStrategy_db_def nextVersionNumber_def prim_defs ex_defs)
  have cur: "filter (\<lambda>r. s_id r = ''u1'') (tbl_strategies created_backend)
       = [\<lparr>s_id = ''u1'', s_map_id = ''m1'', s_title = ''Rush A'',
            s_description = ''Smoke and go'', s_current_version_id = Some ''u2'',
            s_created_at = 2, s_updated_at = 4\<rparr>]"
    and vs: "filter (\<lambda>x. v_id x = ''u2'') (tbl_strategy_versions created_backend)
       = [\<lparr>v_id = ''u2'', v_strategy_id = ''u1'', v_version_number = 1,
            v_title = ''Rush A'', v_description = ''Smoke and go'',
            v_change_notes = Some ''Initial version'', v_created_at = 3\<rparr>]"
    and rj: "\<not> rejected created_backend 1"
    by (simp_all add: ex_defs rejected_def)
  from updateStrategy_version_number[of created_backend "''u1''" rush_a_edit s c,
      THEN conjunct1, THEN mp, OF r]
  obtain db1 cur' v where c: "c = Some db1"
    and cur': "filter (\<lambda>r. s_id r = ''u1'') (tbl_strategies created_backend) = [cur']"
    and v: "tbl_strategy_versions db1 = tbl_strategy_versions created_backend @ [v]"
    and n: "\<forall>vid c. s_current_version_id cur' = Some vid \<and> vid \<noteq> [] \<and> \<not> rejected created_backend 1
                \<and> filter (\<lambda>x. v_id x = vid) (tbl_strategy_versions created_backend) = [c]
              \<longrightarrow> v_version_number v = v_version_number c + 1"
    by (elim exE conjE) (rule that)
  from cur cur' have "s_current_version_id cur' = Some ''u2''" by auto
  with n[rule_format, of "''u2''"] rj vs have "v_version_number v = 2" by simp
  with r c v
  show "\<exists>s db1 v. updateStrategy (Some created_backend) ''u1'' rush_a_edit = (Inr s, Some db1)
       \<and> tbl_strategy_versions db1 = tbl_strategy_versions created_backend @ [v]
       \<and> v_version_number v = 2"
    by auto
qed

text \<open>
  Claim C2. On a state that respects the foreign key of \<open>strategy_versions\<close>, a
  strategy created by \<open>createStrategy\<close> and then edited by \<open>N\<close> successful
  \<open>updateStrategy\<close> calls has exactly \<open>N + 1\<close> version rows, numbered
  \<open>1..N+1\<close> in insertion order, and the single strategy row points at the last of
  them, which carries the highest number and whose identity no other version row has.
  \<open>N\<close> is arbitrary, so this holds after each successful operation.
\<close>

theorem edits_version_history:
  assumes "versions_fk db"
    and "createStrategy (Some db) strategyData = (Inr s, c1)"
    and "edits c1 (sv_id s) ds = (Inr (), c2)"
  shows "\<exists>db2 r. c2 = Some db2
     \<and> map v_version_number (versions_of db2 (sv_id s)) = map int [1..<length ds + 2]
     \<and> length (versions_of db2 (sv_id s)) = length ds + 1
     \<and> filter (\<lambda>r. s_id r = sv_id s) (tbl_strategies db2) = [r]
     \<and> s_current_version_id r = Some (v_id (last (versions_of db2 (sv_id s))))
     \<and> v_version_number (last (versions_of db2 (sv_id s))) = int (length ds) + 1
     \<and> filter (\<lambda>v. v_id v = v_id (last (versions_of db2 (sv_id s)))) (tbl_strategy_versions db2)
          = [last (versions_of db2 (sv_id s))]"
proof -
  from assms(2) obtain db1 where c1: "c1 = Some db1"
    and c: "createStrategy_db db strategyData = (Inr s, db1)"
    by (cases "createStrategy_db db strategyData") (auto simp: createStrategy_def configured_def)
  have fk: "v_strategy_id ` set (tbl_strategy_versions db) \<subseteq> s_id ` set (tbl_strategies db)"
    using assms(1) by (auto simp: versions_fk_def list_all_iff)
  from createStrategy_db_history[OF fk c] have h1: "history_ok db1 (sv_id s) 1" .
  from edits_history[OF assms(3)[unfolded c1] h1] obtain db2 where
    c2: "c2 = Some db2" and h: "history_ok db2 (sv_id s) (1 + length ds)" by auto
  let ?vs = "versions_of db2 (sv_id s)"
  from h have nums: "map v_version_number ?vs = map int [1..<length ds + 2]"
    by (simp add: history_ok_def)
  then have len: "length ?vs = length ds + 1"
    by (metis add_diff_cancel_right' length_map length_upt Suc_eq_plus1 add_2_eq_Suc')
  then have ne: "?vs \<noteq> []" by auto
  have "v_version_number (last ?vs) = last (map v_version_number ?vs)"
    using ne by (simp add: last_map)
  also have "\<dots> = last (map int [1..<length ds + 2])" using nums by simp
  also have "\<dots> = int (length ds) + 1" by (simp add: last_map)
  finally have lastn: "v_version_number (last ?vs) = int (length ds) + 1" .
  from h obtain r where r: "filter (\<lambda>r. s_id r = sv_id s) (tbl_strategies db2) = [r]"
    and p: "s_current_version_id r = Some (v_id (last ?vs))"
    by (auto simp: history_ok_def split: list.splits)
  from h have one: "filter (\<lambda>v. v_id v = v_id (last ?vs)) (tbl_strategy_versions db2) = [last ?vs]"
    by (simp add: history_ok_def)
  show ?thesis using c2 nums len r p lastn one by blast
qed

text \<open>Creation followed by two edits on the fresh backend: versions 1, 2, 3.\<close>

theorem edits_version_history_witness:
  "\<exists>s c1 c2 db2. versions_fk fresh_backend
     \<and> createStrategy (Some fresh_backend) rush_a = (Inr s, c1)
     \<and> edits c1 (sv_id s) [rush_a_edit, rush_a_edit] = (Inr (), c2)
     \<and> c2 = Some db2
     \<and> map v_version_number (versions_of db2 (sv_id s)) = [1, 2, 3]"
proof -
  have fk: "versions_fk fresh_backend" by (simp add: versions_fk_def ex_defs)
  obtain s c1 where c: "createStrategy (Some fresh_backend) rush_a = (Inr s, c1)"
    and sid: "sv_id s = ''u1''" and c1: "c1 = Some created_backend"
    by (simp add: createStrategy_def createStrategy_db_def prim_defs ex_defs)
  obtain c2 where e: "edits c1 (sv_id s) [rush_a_edit, rush_a_edit] = (Inr (), c2)"
    unfolding sid c1
    by (simp add: updateStrategy_def updateStrategy_db_def nextVersionNumber_def prim_defs ex_defs)
  from edits_version_history[OF fk c e] obtain db2 where "c2 = Some db2"
    and "map v_version_number (versions_of db2 (sv_id s)) = map int [1..<length [rush_a_edit, rush_a_edit] + 2]"
    by blast
  moreover have "map int [1..<length [rush_a_edit, rush_a_edit] + 2] = [1, 2, 3]"
    by (simp add: upt_rec)
  ultimately show ?thesis using fk c e by auto
qed

text \<open>The creation of "Rush A" on the fresh backend.\<close>

theorem createStrategy_initial_version_witness:
  "\<exists>s db1 v. createStrategy (Some fresh_backend) rush_a = (Inr s, Some db1)
     \<and> tbl_strategy_versions db1 = [v] \<and> v_version_number v = 1
     \<and> sv_current_version s = Some v \<and> sv_images s = Some []"
proof -
  obtain s c where c: "createStrategy (Some fresh_backend) rush_a = (Inr s, c)"
    by (simp add: createStrategy_def createStrategy_db_def prim_defs ex_defs)
  have "tbl_strategy_versions fresh_backend = []" by (simp add: ex_defs)
  with createStrategy_initial_version[OF c] c show ?thesis by auto
qed

section \<open>Verification: image association and the data access layer\<close>


lemma insert_image_Inr:
  assumes "insert_image db sid vid sp bn url alt pos = (Inr row, db')"
  shows "tbl_strategy_images db' = tbl_strategy_images db @ [row]"
    and "tbl_strategies db' = tbl_strategies db"
    and "tbl_maps db' = tbl_maps db"
    and "tbl_strategy_versions db' = tbl_strategy_versions db"
    and "i_strategy_id row = sid" and "i_version_id row = vid"
    and "i_storage_path row = sp" and "i_bucket_name row = bn" and "i_url row = url"
    and "i_alt_text row = alt" and "i_position_in_content row = pos"
    and "i_id row \<notin> i_id ` set (tbl_strategy_images db)"
    and "db_now db' = Suc (db_now db)"
    and "faults db' = tl (faults db)"
    and "\<not> rejected db 0"
  using assms
  by (auto simp: insert_image_def gen_random_uuid_def Let_def
      split: prod.splits bool.splits option.splits list.splits if_splits
      dest!: request_tables)

lemma insert_image_Inl:
  assumes "insert_image db sid vid sp bn url alt pos = (Inl e, db')"
  shows "tbl_strategy_images db' = tbl_strategy_images db"
    and "tbl_strategies db' = tbl_strategies db"
    and "tbl_maps db' = tbl_maps db"
    and "tbl_strategy_versions db' = tbl_strategy_versions db"
    and "db_now db' = Suc (db_now db)"
    and "faults db' = tl (faults db)"
  using assms
  by (auto simp: insert_image_def gen_random_uuid_def Let_def
      split: prod.splits bool.splits option.splits list.splits if_splits
      dest!: request_tables)

lemma copy_each_spec:
  assumes "copy_each db strategyId toVersionId imgs acc = (copied, db')"
  shows "\<exists>new kept. copied = acc @ new \<and> subseq kept imgs
           \<and> list_all2 (copy_of strategyId toVersionId) kept new
           \<and> tbl_strategy_images db' = tbl_strategy_images db @ new
           \<and> tbl_strategies db' = tbl_strategies db
           \<and> tbl_strategy_versions db' = tbl_strategy_versions db
           \<and> tbl_maps db' = tbl_maps db
           \<and> db_now db' = db_now db + length imgs"
  using assms
proof (induction imgs arbitrary: db acc)
  case Nil
  then show ?case by (auto intro!: exI[of _ "[]"])
next
  case (Cons img rest)
  obtain r d1 where ins: "insert_image db (Some strategyId) (or_null toVersionId) (i_storage_path img)
             (i_bucket_name img) (i_url img) (i_alt_text img)
             (i_position_in_content img) = (r, d1)"
    by (cases "insert_image db (Some strategyId) (or_null toVersionId) (i_storage_path img)
             (i_bucket_name img) (i_url img) (i_alt_text img)
             (i_position_in_content img)")
  show ?case
  proof (cases r)
    case (Inl e)
    with Cons.prems ins have "copy_each d1 strategyId toVersionId rest acc = (copied, db')"
      by simp
    from Cons.IH[OF this] obtain new kept where
      a: "copied = acc @ new" "subseq kept rest" "list_all2 (copy_of strategyId toVersionId) kept new"
         "tbl_strategy_images db' = tbl_strategy_images d1 @ new"
         "tbl_strategies db' = tbl_strategies d1"
         "tbl_strategy_versions db' = tbl_strategy_versions d1"
         "tbl_maps db' = tbl_maps d1"
         "db_now db' = db_now d1 + length rest"
      by blast
    note t = insert_image_Inl[OF ins[unfolded Inl]]
    have "subseq kept (img # rest)" using a(2) by (rule list_emb_Cons)
    with a t show ?thesis
      by (intro exI[of _ new] exI[of _ kept]) simp
  next
    case (Inr c)
    with Cons.prems ins have "copy_each d1 strategyId toVersionId rest (acc @ [c]) = (copied, db')"
      by simp
    from Cons.IH[OF this] obtain new kept where
      a: "copied = (acc @ [c]) @ new" "subseq kept rest"
         "list_all2 (copy_of strategyId toVersionId) kept new"
         "tbl_strategy_images db' = tbl_strategy_images d1 @ new"
         "tbl_strategies db' = tbl_strategies d1"
         "tbl_strategy_versions db' = tbl_strategy_versions d1"
         "tbl_maps db' = tbl_maps d1"
         "db_now db' = db_now d1 + length rest"
      by blast
    note t = insert_image_Inr[OF ins[unfolded Inr]]
    have c: "copy_of strategyId toVersionId img c"
      using t by (simp add: copy_of_def)
    have "subseq (img # kept) (img # rest)" using a(2) by simp
    moreover have "list_all2 (copy_of strategyId toVersionId) (img # kept) (c # new)"
      using c a(3) by simp
    ultimately show ?thesis using a t
      by (intro exI[of _ "c # new"] exI[of _ "img # kept"]) simp
  qed
qed

lemma existingImages_query_result:
  "existingImages_query db strategyId fromVersionId = (r, db1) \<Longrightarrow>
     r = (if rejected db 0 then Inl Fault
          else Inr (sort_key i_position_in_content
                 (filter (\<lambda>i. i_strategy_id i = Some strategyId
                               \<and> i_version_id i = or_null fromVersionId)
                    (tbl_strategy_images db))))
     \<and> tbl_strategy_images db1 = tbl_strategy_images db
     \<and> tbl_strategies db1 = tbl_strategies db
     \<and> tbl_strategy_versions db1 = tbl_strategy_versions db
     \<and> tbl_maps db1 = tbl_maps db
     \<and> db_now db1 = Suc (db_now db)"
proof -
  have eq: "(\<lambda>i. i_strategy_id i = Some strategyId
                   \<and> (if truthy fromVersionId then i_version_id i = fromVersionId
                       else i_version_id i = None))
      = (\<lambda>i. i_strategy_id i = Some strategyId \<and> i_version_id i = or_null fromVersionId)"
    by (auto simp: or_null_def)
  assume "existingImages_query db strategyId fromVersionId = (r, db1)"
  then show ?thesis
    unfolding existingImages_query_def eq
    by (auto simp: select_rows_def split: prod.splits bool.splits sum.splits
        dest!: request_tables)
qed

text \<open>
  Claim C3. In a successful \<open>copyImagesToVersion\<close> the rows selected as sources are the
  image rows of the strategy whose \<open>version_id\<close> is \<open>fromVersionId\<close> when that is
  given (truthy), and those without a version otherwise, ordered by position. The
  returned rows are copies of a subsequence of the selected rows, in order: each has the
  \<open>storage_path\<close>, \<open>bucket_name\<close>, \<open>url\<close>, \<open>alt_text\<close> and \<open>position_in_content\<close>
  of its source, the strategy as \<open>strategy_id\<close> and \<open>toVersionId\<close> (null when that is
  absent) as \<open>version_id\<close>; they are the rows the call added to the table.
\<close>

theorem copyImagesToVersion_sources_and_copies:
  assumes "copyImagesToVersion (Some db) strategyId fromVersionId toVersionId
             = (Inr copiedImages, db')"
  shows "\<exists>db1 db2 existingImages kept.
      existingImages_query db strategyId fromVersionId = (Inr existingImages, db1)
    \<and> existingImages =
        sort_key i_position_in_content
          (filter (\<lambda>i. i_strategy_id i = Some strategyId \<and> i_version_id i = or_null fromVersionId)
             (tbl_strategy_images db))
    \<and> (truthy fromVersionId \<longrightarrow>
         set existingImages = {i \<in> set (tbl_strategy_images db).
            i_strategy_id i = Some strategyId \<and> i_version_id i = fromVersionId})
    \<and> (\<not> truthy fromVersionId \<longrightarrow>
         set existingImages = {i \<in> set (tbl_strategy_images db).
            i_strategy_id i = Some strategyId \<and> i_version_id i = None})
    \<and> db' = Some db2
    \<and> subseq kept existingImages
    \<and> list_all2 (copy_of strategyId toVersionId) kept copiedImages
    \<and> tbl_strategy_images db2 = tbl_strategy_images db @ copiedImages"
proof -
  from assms obtain db2 where db': "db' = Some db2"
    and c: "copyImagesToVersion_db db strategyId fromVersionId toVersionId = (Inr copiedImages, db2)"
    by (cases "copyImagesToVersion_db db strategyId fromVersionId toVersionId")
       (auto simp: copyImagesToVersion_def configured_def)
  from c obtain existingImages db1 where
    q: "existingImages_query db strategyId fromVersionId = (Inr existingImages, db1)"
    and l: "copy_each db1 strategyId toVersionId existingImages [] = (copiedImages, db2)"
    by (auto simp: copyImagesToVersion_db_def split: prod.splits sum.splits)
  note r = existingImages_query_result[OF q]
  from r have ex: "existingImages =
        sort_key i_position_in_content
          (filter (\<lambda>i. i_strategy_id i = Some strategyId \<and> i_version_id i = or_null fromVersionId)
             (tbl_strategy_images db))"
    by (simp split: if_splits)
  from copy_each_spec[OF l] obtain kept where
    k: "subseq kept existingImages" "list_all2 (copy_of strategyId toVersionId) kept copiedImages"
       "tbl_strategy_images db2 = tbl_strategy_images db1 @ copiedImages"
    by auto
  have s1: "truthy fromVersionId \<longrightarrow>
         set existingImages = {i \<in> set (tbl_strategy_images db).
            i_strategy_id i = Some strategyId \<and> i_version_id i = fromVersionId}"
    unfolding ex by (auto simp: or_null_def)
  have s2: "\<not> truthy fromVersionId \<longrightarrow>
         set existingImages = {i \<in> set (tbl_strategy_images db).
            i_strategy_id i = Some strategyId \<and> i_version_id i = None}"
    unfolding ex by (auto simp: or_null_def)
  have t: "tbl_strategy_images db2 = tbl_strategy_images db @ copiedImages"
    using k(3) r by simp
  show ?thesis
    by (intro exI[of _ db1] exI[of _ db2] exI[of _ existingImages] exI[of _ kept] conjI
          q ex s1 s2 db' k(1) k(2) t)
qed

text \<open>
  Claim C4. With a configured client, \<open>copyImagesToVersion\<close> fails exactly when its
  selection query is rejected, with that error. Otherwise it returns, whatever happens
  to the inserts: the loop makes one call per selected image (the clock advances by their
  number), and the returned list is exactly what has been added to the table.
\<close>

theorem copyImagesToVersion_partial_success:
  "(\<forall>e db'. copyImagesToVersion (Some db) strategyId fromVersionId toVersionId = (Inl e, db')
       \<longrightarrow> rejected db 0 \<and> e = Pg Fault)
   \<and> (rejected db 0 \<longrightarrow>
        fst (copyImagesToVersion (Some db) strategyId fromVersionId toVersionId) = Inl (Pg Fault))
   \<and> (\<not> rejected db 0 \<longrightarrow>
        (\<exists>copiedImages db2 existingImages db1.
            copyImagesToVersion (Some db) strategyId fromVersionId toVersionId
              = (Inr copiedImages, Some db2)
          \<and> existingImages_query db strategyId fromVersionId = (Inr existingImages, db1)
          \<and> db_now db2 = db_now db1 + length existingImages
          \<and> tbl_strategy_images db2 = tbl_strategy_images db @ copiedImages
          \<and> length copiedImages \<le> length existingImages))"
proof -
  obtain r db1 where q: "existingImages_query db strategyId fromVersionId = (r, db1)"
    by (cases "existingImages_query db strategyId fromVersionId")
  note res = existingImages_query_result[OF q]
  show ?thesis
  proof (cases "rejected db 0")
    case True
    with res q show ?thesis
      by (simp add: copyImagesToVersion_def copyImagesToVersion_db_def configured_def)
  next
    case False
    with res obtain existingImages where r: "r = Inr existingImages" by simp
    obtain copiedImages db2 where
      l: "copy_each db1 strategyId toVersionId existingImages [] = (copiedImages, db2)"
      by (cases "copy_each db1 strategyId toVersionId existingImages []")
    from copy_each_spec[OF l] obtain kept where
      k: "subseq kept existingImages" "list_all2 (copy_of strategyId toVersionId) kept copiedImages"
         "tbl_strategy_images db2 = tbl_strategy_images db1 @ copiedImages"
         "db_now db2 = db_now db1 + length existingImages"
      by auto
    have len: "length copiedImages \<le> length existingImages"
      using k(1,2) by (metis list_all2_lengthD list_emb_length)
    have c: "copyImagesToVersion (Some db) strategyId fromVersionId toVersionId
              = (Inr copiedImages, Some db2)"
      using q r l
      by (simp add: copyImagesToVersion_def copyImagesToVersion_db_def configured_def)
    have "\<exists>copiedImages db2 existingImages db1.
            copyImagesToVersion (Some db) strategyId fromVersionId toVersionId
              = (Inr copiedImages, Some db2)
          \<and> existingImages_query db strategyId fromVersionId = (Inr existingImages, db1)
          \<and> db_now db2 = db_now db1 + length existingImages
          \<and> tbl_strategy_images db2 = tbl_strategy_images db @ copiedImages
          \<and> length copiedImages \<le> length existingImages"
      using c q[unfolded r] k(3,4) res len
      by (intro exI[of _ copiedImages] exI[of _ db2] exI[of _ existingImages] exI[of _ db1]) simp
    with False c show ?thesis by simp
  qed
qed


lemmas copy_defs = copyImagesToVersion_def copyImagesToVersion_db_def existingImages_query_def

text \<open>The two legacy images copied to version 1, by position.\<close>

theorem copyImagesToVersion_sources_and_copies_witness:
  "\<exists>copiedImages db2.
      copyImagesToVersion (Some legacy_edited_backend) ''s0'' None (Some ''u1'')
        = (Inr copiedImages, Some db2)
    \<and> map i_storage_path copiedImages = [''strategies/s0/a.png'', ''strategies/s0/b.png'']
    \<and> tbl_strategy_images db2 = tbl_strategy_images legacy_edited_backend @ copiedImages"
proof -
  obtain copiedImages c where
    h: "copyImagesToVersion (Some legacy_edited_backend) ''s0'' None (Some ''u1'')
          = (Inr copiedImages, c)"
    and p: "map i_storage_path copiedImages = [''strategies/s0/a.png'', ''strategies/s0/b.png'']"
    by (simp add: copy_defs prim_defs ex_defs)
  from copyImagesToVersion_sources_and_copies[OF h] obtain db2 where
    "c = Some db2"
    "tbl_strategy_images db2 = tbl_strategy_images legacy_edited_backend @ copiedImages"
    by (elim exE conjE) (rule that)
  with h p show ?thesis
    by (intro exI[of _ copiedImages] exI[of _ db2]) simp
qed


text \<open>
  The second call, the insert of the first copy, is rejected: the other image is still
  copied and returned.
\<close>

theorem copyImagesToVersion_partial_success_witness:
  "\<not> rejected (legacy_edited_backend\<lparr>faults := [False, True, False]\<rparr>) 0
   \<and> (\<exists>copiedImages db2.
        copyImagesToVersion (Some (legacy_edited_backend\<lparr>faults := [False, True, False]\<rparr>))
            ''s0'' None (Some ''u1'') = (Inr copiedImages, Some db2)
      \<and> map i_storage_path copiedImages = [''strategies/s0/b.png'']
      \<and> db_now db2 = db_now legacy_edited_backend + 3
      \<and> tbl_strategy_images db2 = tbl_strategy_images legacy_edited_backend @ copiedImages)"
proof -
  let ?B = "legacy_edited_backend\<lparr>faults := [False, True, False]\<rparr>"
  have nr: "\<not> rejected ?B 0" by (simp add: rejected_def)
  from copyImagesToVersion_partial_success[of ?B "''s0''" None "Some ''u1''",
      THEN conjunct2, THEN conjunct2, THEN mp, OF nr]
  obtain copiedImages db2 existingImages db1 where
    c: "copyImagesToVersion (Some ?B) ''s0'' None (Some ''u1'') = (Inr copiedImages, Some db2)"
    and q: "existingImages_query ?B ''s0'' None = (Inr existingImages, db1)"
    and n: "db_now db2 = db_now db1 + length existingImages"
    and t: "tbl_strategy_images db2 = tbl_strategy_images ?B @ copiedImages"
    by (elim conjE exE) (rule that)
  have "copyImagesToVersion (Some ?B) ''s0'' None (Some ''u1'')
          = (Inr [\<lparr>i_id = ''u2'', i_strategy_id = Some ''s0'', i_version_id = Some ''u1'',
                    i_storage_path = ''strategies/s0/b.png'', i_bucket_name = ''strategy-images'',
                    i_url = ''https://cdn/strategies/s0/b.png'', i_alt_text = Some ''Crossfire'',
                    i_position_in_content = 1, i_created_at = 8\<rparr>], snd (copyImagesToVersion (Some ?B) ''s0'' None (Some ''u1'')))"
    by (simp add: copy_defs prim_defs ex_defs)
  with c have p: "map i_storage_path copiedImages = [''strategies/s0/b.png'']" by simp
  have "db_now db1 = 6 \<and> length existingImages = 2"
    using q by (auto simp: copy_defs prim_defs ex_defs)
  with n have n': "db_now db2 = db_now legacy_edited_backend + 3" by (simp add: ex_defs)
  from t have t': "tbl_strategy_images db2 = tbl_strategy_images legacy_edited_backend @ copiedImages"
    by simp
  show ?thesis using nr c p n' t'
    by (intro conjI exI[of _ copiedImages] exI[of _ db2]) simp_all
qed


lemmas get_defs = getStrategy_def getStrategy_db_def getStrategy_fallback_def
  get_strategy_with_version_def strategy_json_def scalar_subquery_def json_agg_def

text \<open>
  On every backend, an object that comes from the stored procedure has neither field, and
  an object that comes from the fallback has both.
\<close>

lemma rpc_path_has_no_title:
  assumes "get_strategy_with_version db ident = (Inr (Some a), d)"
  shows "sv_title a = None \<and> sv_description a = None"
  using assms
  by (auto simp: get_strategy_with_version_def strategy_json_def
      split: prod.splits bool.splits sum.splits option.splits)

lemma fallback_path_has_title:
  assumes "getStrategy_fallback db ident = (Inr (Some b), d)"
  shows "sv_title b \<noteq> None \<and> sv_description b \<noteq> None"
  using assms
  by (auto simp: getStrategy_fallback_def split: prod.splits sum.splits if_splits)

text \<open>
  Claim C5. For the strategy "Rush A", the object from the stored procedure has no
  \<open>title\<close> and no \<open>description\<close>, and the object from the fallback (the procedure
  call rejected) has both; the current version is the same on both paths.
\<close>

theorem getStrategy_paths_differ_on_title:
  "\<exists>a b c1 c2.
      getStrategy (Some created_backend) ''u1'' = (Inr (Some a), c1)
    \<and> getStrategy (Some (created_backend\<lparr>faults := [True]\<rparr>)) ''u1'' = (Inr (Some b), c2)
    \<and> sv_title a = None \<and> sv_title b = Some ''Rush A''
    \<and> sv_description a = None \<and> sv_description b = Some ''Smoke and go''
    \<and> sv_current_version a = sv_current_version b"
  by (simp add: get_defs prim_defs ex_defs)


text \<open>
  Claim C7, as stated, fails for the two delete operations: without a client they
  return normally.
\<close>

theorem unconfigured_delete_counterexample:
  "fst (deleteStrategy None ''u1'') = Inr ()
   \<and> fst (deleteStrategyImage None ''i1'') = Inr ()"
  by (simp add: deleteStrategy_def deleteStrategyImage_def)

text \<open>
  Claim C7, amended. Without a client: \<open>createStrategy\<close>, \<open>updateStrategy\<close>,
  \<open>createStrategyImage\<close>, \<open>copyImagesToVersion\<close> and \<open>updateStrategyImage\<close> throw
  their configuration error; \<open>deleteStrategy\<close> and \<open>deleteStrategyImage\<close> return
  without doing anything; \<open>getStrategies\<close>, \<open>getStrategyVersions\<close> and
  \<open>searchStrategies\<close> return the empty list and \<open>getStrategy\<close> returns null; the map
  operations read and change the mock list.
\<close>

theorem unconfigured_operations:
  "createStrategy None strategyData
     = (Inl (Error ''Strategy creation requires Supabase configuration''), None)
   \<and> updateStrategy None ident updateData
     = (Inl (Error ''Strategy updates require Supabase configuration''), None)
   \<and> createStrategyImage None strategyId storagePath bucketName url altText positionInContent versionId
     = (Inl (Error ''Strategy image creation requires Supabase configuration''), None)
   \<and> copyImagesToVersion None strategyId fromVersionId toVersionId
     = (Inl (Error ''Image copying requires Supabase configuration''), None)
   \<and> updateStrategyImage None imageId text
     = (Inl (Error ''Strategy image update requires Supabase configuration''), None)
   \<and> deleteStrategy None ident = (Inr (), None)
   \<and> deleteStrategyImage None imageId = (Inr (), None)
   \<and> getStrategies None mapId = (Inr [], None)
   \<and> getStrategy None ident = (Inr None, None)
   \<and> getStrategyVersions None strategyId = (Inr [], None)
   \<and> searchStrategies ilike None query mapId = (Inr [], None)
   \<and> getMaps None mockMaps = (Inr mockMaps, None, mockMaps)
   \<and> getMap None mockMaps ident = (Inr (find (\<lambda>m. m_id m = ident) mockMaps), None, mockMaps)
   \<and> (\<exists>newMap. createMap None mockMaps now mapData = (Inr newMap, None, mockMaps @ [newMap])
        \<and> m_id newMap = decimal now \<and> m_name newMap = cmf_name mapData)
   \<and> (case findIndex (\<lambda>m. m_id m = ident) mockMaps of
         None \<Rightarrow> updateMap None mockMaps now ident patch
                  = (Inl (Error ''Map not found''), None, mockMaps)
       | Some i \<Rightarrow> updateMap None mockMaps now ident patch
                  = (Inr (spread_map (mockMaps ! i) patch now), None,
                     mockMaps[i := spread_map (mockMaps ! i) patch now]))
   \<and> (case findIndex (\<lambda>m. m_id m = ident) mockMaps of
         None \<Rightarrow> deleteMap None mockMaps ident = (Inr (), None, mockMaps)
       | Some i \<Rightarrow> deleteMap None mockMaps ident
                  = (Inr (), None, take i mockMaps @ drop (Suc i) mockMaps))"
proof (intro conjI)
  show "createStrategy None strategyData
     = (Inl (Error ''Strategy creation requires Supabase configuration''), None)"
    by (simp add: createStrategy_def)
  show "updateStrategy None ident updateData
     = (Inl (Error ''Strategy updates require Supabase configuration''), None)"
    by (simp add: updateStrategy_def)
  show "createStrategyImage None strategyId storagePath bucketName url altText positionInContent versionId
     = (Inl (Error ''Strategy image creation requires Supabase configuration''), None)"
    by (simp add: createStrategyImage_def)
  show "copyImagesToVersion None strategyId fromVersionId toVersionId
     = (Inl (Error ''Image copying requires Supabase configuration''), None)"
    by (simp add: copyImagesToVersion_def)
  show "updateStrategyImage None imageId text
     = (Inl (Error ''Strategy image update requires Supabase configuration''), None)"
    by (simp add: updateStrategyImage_def)
  show "deleteStrategy None ident = (Inr (), None)"
    by (simp add: deleteStrategy_def)
  show "deleteStrategyImage None imageId = (Inr (), None)"
    by (simp add: deleteStrategyImage_def)
  show "getStrategies None mapId = (Inr [], None)"
    by (simp add: getStrategies_def)
  show "getStrategy None ident = (Inr None, None)"
    by (simp add: getStrategy_def)
  show "getStrategyVersions None strategyId = (Inr [], None)"
    by (simp add: getStrategyVersions_def)
  show "searchStrategies ilike None query mapId = (Inr [], None)"
    by (simp add: searchStrategies_def)
  show "getMaps None mockMaps = (Inr mockMaps, None, mockMaps)"
    by (simp add: getMaps_def)
  show "getMap None mockMaps ident = (Inr (find (\<lambda>m. m_id m = ident) mockMaps), None, mockMaps)"
    by (simp add: getMap_def)
  show "\<exists>newMap. createMap None mockMaps now mapData = (Inr newMap, None, mockMaps @ [newMap])
        \<and> m_id newMap = decimal now \<and> m_name newMap = cmf_name mapData"
    by (simp add: createMap_def Let_def del: decimal.simps)
  show "case findIndex (\<lambda>m. m_id m = ident) mockMaps of
         None \<Rightarrow> updateMap None mockMaps now ident patch
                  = (Inl (Error ''Map not found''), None, mockMaps)
       | Some i \<Rightarrow> updateMap None mockMaps now ident patch
                  = (Inr (spread_map (mockMaps ! i) patch now), None,
                     mockMaps[i := spread_map (mockMaps ! i) patch now])"
    by (simp add: updateMap_def split: option.splits)
  show "case findIndex (\<lambda>m. m_id m = ident) mockMaps of
         None \<Rightarrow> deleteMap None mockMaps ident = (Inr (), None, mockMaps)
       | Some i \<Rightarrow> deleteMap None mockMaps ident
                  = (Inr (), None, take i mockMaps @ drop (Suc i) mockMaps)"
    by (simp add: deleteMap_def split: option.splits)
qed

text \<open>The operations at concrete arguments, on the two maps the module starts with.\<close>

theorem unconfigured_operations_witness:
  "createStrategy None rush_a
     = (Inl (Error ''Strategy creation requires Supabase configuration''), None)
   \<and> deleteStrategy None ''u1'' = (Inr (), None)
   \<and> getStrategy None ''u1'' = (Inr None, None)
   \<and> getMaps None (initial_mockMaps 0) = (Inr (initial_mockMaps 0), None, initial_mockMaps 0)
   \<and> deleteMap None (initial_mockMaps 0) ''1'' = (Inr (), None, tl (initial_mockMaps 0))"
proof -
  have f: "findIndex (\<lambda>m. m_id m = ''1'') (initial_mockMaps 0) = Some 0"
    by (simp add: initial_mockMaps_def)
  from unconfigured_operations[where strategyData = rush_a and ident = "''1''"
      and mockMaps = "initial_mockMaps 0"]
  have "deleteMap None (initial_mockMaps 0) ''1'' = (Inr (), None, tl (initial_mockMaps 0))"
    and "getMaps None (initial_mockMaps 0) = (Inr (initial_mockMaps 0), None, initial_mockMaps 0)"
    and "createStrategy None rush_a
     = (Inl (Error ''Strategy creation requires Supabase configuration''), None)"
    by (simp_all add: f drop_Suc)
  moreover from unconfigured_operations[where ident = "''u1''"]
  have "deleteStrategy None ''u1'' = (Inr (), None)" and "getStrategy None ''u1'' = (Inr None, None)"
    by simp_all
  ultimately show ?thesis by simp
qed

section \<open>Verification: the strategy forms\<close>

text \<open>What the two calls of a file do, exactly: the upload and the insert of the row.\<close>

lemma storage_upload_spec:
  assumes "storage_upload db bucket p = (r, d)"
  shows "buckets d = buckets db \<and> tbl_maps d = tbl_maps db
     \<and> tbl_strategies d = tbl_strategies db
     \<and> tbl_strategy_versions d = tbl_strategy_versions db
     \<and> tbl_strategy_images d = tbl_strategy_images db \<and> uuids d = uuids db
     \<and> faults d = tl (faults db) \<and> db_now d = Suc (db_now db)
     \<and> (if upload_ok db (bucket, p)
         then r = Inr p \<and> objects d = objects db @ [(bucket, p)]
         else (\<exists>e. r = Inl e) \<and> objects d = objects db)"
  using assms
  by (auto simp: storage_upload_def upload_ok_def
      split: prod.splits bool.splits if_splits dest!: request_tables)

lemma insert_image_spec:
  assumes "insert_image d (Some sid) vid sp bn url alt p = (r, d')"
  shows "buckets d' = buckets d \<and> tbl_maps d' = tbl_maps d
     \<and> tbl_strategies d' = tbl_strategies d
     \<and> tbl_strategy_versions d' = tbl_strategy_versions d
     \<and> objects d' = objects d
     \<and> faults d' = tl (faults d) \<and> db_now d' = Suc (db_now d)
     \<and> (if \<not> rejected d 0 \<and> in_int4 p
            \<and> (case uuids d of [] \<Rightarrow> False | u # _ \<Rightarrow> u \<notin> i_id ` set (tbl_strategy_images d))
            \<and> sid \<in> s_id ` set (tbl_strategies d)
            \<and> (case vid of None \<Rightarrow> True | Some v \<Rightarrow> v \<in> v_id ` set (tbl_strategy_versions d))
         then (\<exists>row. r = Inr row
                 \<and> tbl_strategy_images d' = tbl_strategy_images d @ [row]
                 \<and> i_strategy_id row = Some sid \<and> i_version_id row = vid
                 \<and> i_storage_path row = sp \<and> i_bucket_name row = bn
                 \<and> i_position_in_content row = p
                 \<and> [i_id row] = take 1 (uuids d))
              \<and> uuids d' = drop 1 (uuids d)
         else (\<exists>e. r = Inl e) \<and> tbl_strategy_images d' = tbl_strategy_images d)"
  using assms
  by (auto simp: insert_image_def gen_random_uuid_def Let_def
      split: prod.splits bool.splits option.splits list.splits if_splits dest!: request_tables)

lemma uploadImage_spec:
  assumes "uploadImage (Some db) stamp file bucket (Some (''strategies/'' @ sid)) = (q, c1)"
  shows "\<exists>d1. c1 = Some d1
     \<and> buckets d1 = buckets db \<and> tbl_maps d1 = tbl_maps db
     \<and> tbl_strategies d1 = tbl_strategies db
     \<and> tbl_strategy_versions d1 = tbl_strategy_versions db
     \<and> tbl_strategy_images d1 = tbl_strategy_images db \<and> uuids d1 = uuids db
     \<and> faults d1 = tl (faults db) \<and> db_now d1 = Suc (db_now db)
     \<and> (if upload_ok db (bucket, upload_path sid stamp file)
         then (\<exists>res. q = Inr res \<and> r_path res = upload_path sid stamp file)
              \<and> objects d1 = objects db @ [(bucket, upload_path sid stamp file)]
         else (\<exists>e. q = Inl e) \<and> objects d1 = objects db)"
proof -
  let ?p = "upload_path sid stamp file"
  obtain r d where u: "storage_upload db bucket ?p = (r, d)"
    by (cases "storage_upload db bucket ?p")
  from storage_upload_spec[OF u] u assms show ?thesis
    by (auto simp: uploadImage_def Let_def truthy_def upload_path_def split: if_splits)
qed

lemma createStrategyImage_spec:
  assumes c: "createStrategyImage (Some d1) sid sp bn url alt (Some p) vid = (q2, c2)"
    and f: "faults d1 = tl (faults db)" "uuids d1 = uuids db"
      "tbl_strategy_images d1 = tbl_strategy_images db"
      "tbl_strategies d1 = tbl_strategies db"
      "tbl_strategy_versions d1 = tbl_strategy_versions db"
  shows "\<exists>d2. c2 = Some d2
     \<and> buckets d2 = buckets d1 \<and> tbl_maps d2 = tbl_maps d1
     \<and> tbl_strategies d2 = tbl_strategies d1
     \<and> tbl_strategy_versions d2 = tbl_strategy_versions d1
     \<and> objects d2 = objects d1
     \<and> faults d2 = tl (faults d1) \<and> db_now d2 = Suc (db_now d1)
     \<and> (if record_ok db sid vid p
         then (\<exists>row. q2 = Inr row
                 \<and> tbl_strategy_images d2 = tbl_strategy_images d1 @ [row]
                 \<and> i_strategy_id row = Some sid \<and> i_version_id row = or_null vid
                 \<and> i_storage_path row = sp \<and> i_bucket_name row = bn
                 \<and> i_position_in_content row = p
                 \<and> [i_id row] = take 1 (uuids db))
              \<and> uuids d2 = drop 1 (uuids db)
         else (\<exists>e. q2 = Inl e) \<and> tbl_strategy_images d2 = tbl_strategy_images d1)"
proof -
  obtain r d where i: "insert_image d1 (Some sid) (or_null vid) sp bn url
             (Some (or_string alt (''Strategy diagram for '' @ sid))) p = (r, d)"
    by (cases "insert_image d1 (Some sid) (or_null vid) sp bn url
             (Some (or_string alt (''Strategy diagram for '' @ sid))) p")
  have rj: "rejected d1 0 = rejected db 1" using f(1) by (simp add: rejected_tl)
  have ok: "record_ok db sid vid p \<longleftrightarrow>
     (\<not> rejected d1 0 \<and> in_int4 p
            \<and> (case uuids d1 of [] \<Rightarrow> False | u # _ \<Rightarrow> u \<notin> i_id ` set (tbl_strategy_images d1))
            \<and> sid \<in> s_id ` set (tbl_strategies d1)
            \<and> (case or_null vid of None \<Rightarrow> True
                | Some v \<Rightarrow> v \<in> v_id ` set (tbl_strategy_versions d1)))"
    unfolding record_ok_def rj f by (rule refl)
  from c i have q2: "q2 = (case r of Inl e \<Rightarrow> Inl (Pg e) | Inr x \<Rightarrow> Inr x)" and c2: "c2 = Some d"
    by (auto simp: createStrategyImage_def createStrategyImage_db_def configured_def
        split: sum.splits)
  from insert_image_spec[OF i, folded ok] show ?thesis
    unfolding q2 c2 f(2) by (auto split: if_splits)
qed

lemma tl_tl_drop: "tl (tl xs) = drop 2 xs"
  by (cases xs; cases "tl xs") auto

lemma upload_one_new_ok:
  "body_ok (upload_one_new stamps ds sid vid) (recorded_new stamps sid vid)
     (\<lambda>i f. (''strategy-images'', upload_path sid (stamps i) f)) sid vid int"
  unfolding body_ok_def
proof (intro allI impI)
  fix i f db r c
  assume a: "upload_one_new stamps ds sid vid i f (Some db) = (r, c)"
  let ?obj = "(''strategy-images'', upload_path sid (stamps i) f)"
  let ?goal = "\<exists>db'. c = Some db'
           \<and> buckets db' = buckets db \<and> tbl_maps db' = tbl_maps db
           \<and> tbl_strategies db' = tbl_strategies db
           \<and> tbl_strategy_versions db' = tbl_strategy_versions db
           \<and> (if upload_ok db ?obj \<and> record_ok db sid vid (int i)
               then (\<exists>url. r = Inr url)
                    \<and> (\<exists>row. tbl_strategy_images db' = tbl_strategy_images db @ [row]
                           \<and> recorded_new stamps sid vid i f row \<and> [i_id row] = take 1 (uuids db))
                    \<and> objects db' = objects db @ [?obj]
                    \<and> faults db' = drop 2 (faults db) \<and> uuids db' = drop 1 (uuids db)
                    \<and> db_now db' = db_now db + 2
               else (\<exists>e. r = Inl e) \<and> failed_at ?obj db db')"
  obtain q c1 where u: "uploadImage (Some db) (stamps i) f ''strategy-images''
             (Some (''strategies/'' @ sid)) = (q, c1)"
    by (cases "uploadImage (Some db) (stamps i) f ''strategy-images'' (Some (''strategies/'' @ sid))")
  from uploadImage_spec[OF u] obtain d1 where c1: "c1 = Some d1"
    and fr: "buckets d1 = buckets db" "tbl_maps d1 = tbl_maps db"
      "tbl_strategies d1 = tbl_strategies db"
      "tbl_strategy_versions d1 = tbl_strategy_versions db"
      "tbl_strategy_images d1 = tbl_strategy_images db" "uuids d1 = uuids db"
      "faults d1 = tl (faults db)" "db_now d1 = Suc (db_now db)"
    and q: "if upload_ok db ?obj
         then (\<exists>res. q = Inr res \<and> r_path res = upload_path sid (stamps i) f)
              \<and> objects d1 = objects db @ [?obj]
         else (\<exists>e. q = Inl e) \<and> objects d1 = objects db"
    by (elim exE conjE) (rule that)
  show ?goal
  proof (cases "upload_ok db ?obj")
    case False
    with q obtain e where e: "q = Inl e" and o: "objects d1 = objects db" by auto
    from a u e c1 have "r = Inl e" "c = Some d1" by (auto simp: upload_one_new_def)
    with False fr o show ?thesis by (simp add: failed_at_def)
  next
    case True
    with q obtain res where res: "q = Inr res" "r_path res = upload_path sid (stamps i) f"
      and o: "objects d1 = objects db @ [?obj]" by auto
    let ?desc = "or_string (map_option trim (nth_opt ds i))
                   (''Gambar strategi '' @ decimal (i + 1) @ '' untuk '' @ sid)"
    obtain q2 c2 where cr: "createStrategyImage (Some d1) sid
                     (truncateString (r_path res) 250) ''strategy-images''
                     (truncateString (r_url res) 250)
                     (Some (truncateString ?desc 250)) (Some (int i)) vid = (q2, c2)"
      by (cases "createStrategyImage (Some d1) sid
                     (truncateString (r_path res) 250) ''strategy-images''
                     (truncateString (r_url res) 250)
                     (Some (truncateString ?desc 250)) (Some (int i)) vid")
    from createStrategyImage_spec[OF cr fr(7,6,5,3,4)] obtain d2 where c2: "c2 = Some d2"
      and fr2: "buckets d2 = buckets d1" "tbl_maps d2 = tbl_maps d1"
        "tbl_strategies d2 = tbl_strategies d1"
        "tbl_strategy_versions d2 = tbl_strategy_versions d1"
        "objects d2 = objects d1" "faults d2 = tl (faults d1)" "db_now d2 = Suc (db_now d1)"
      and q2: "if record_ok db sid vid (int i)
         then (\<exists>row. q2 = Inr row
                 \<and> tbl_strategy_images d2 = tbl_strategy_images d1 @ [row]
                 \<and> i_strategy_id row = Some sid \<and> i_version_id row = or_null vid
                 \<and> i_storage_path row = truncateString (r_path res) 250
                 \<and> i_bucket_name row = ''strategy-images''
                 \<and> i_position_in_content row = int i
                 \<and> [i_id row] = take 1 (uuids db))
              \<and> uuids d2 = drop 1 (uuids db)
         else (\<exists>e. q2 = Inl e) \<and> tbl_strategy_images d2 = tbl_strategy_images d1"
      by (elim exE conjE) (rule that)
    have rc: "r = (case q2 of Inl e \<Rightarrow> Inl e | Inr _ \<Rightarrow> Inr (r_url res))" "c = Some d2"
      using a u res(1) c1 cr c2 by (auto simp: upload_one_new_def Let_def split: sum.splits)
    have fa: "faults d2 = drop 2 (faults db)" using fr2(6) fr(7) by (simp add: tl_tl_drop)
    show ?thesis
    proof (cases "record_ok db sid vid (int i)")
      case False
      with q2 obtain e where "q2 = Inl e" "tbl_strategy_images d2 = tbl_strategy_images d1" by auto
      with rc True False fr fr2 o show ?thesis by (simp add: failed_at_def)
    next
      case ok: True
      with q2 obtain row where row: "q2 = Inr row"
        "tbl_strategy_images d2 = tbl_strategy_images d1 @ [row]"
        "i_strategy_id row = Some sid" "i_version_id row = or_null vid"
        "i_storage_path row = truncateString (r_path res) 250"
        "i_bucket_name row = ''strategy-images''"
        "i_position_in_content row = int i"
        "[i_id row] = take 1 (uuids db)"
        and uu: "uuids d2 = drop 1 (uuids db)" by auto
      have rec: "recorded_new stamps sid vid i f row"
        using row res(2) by (simp add: recorded_new_def)
      have R: "\<exists>row. tbl_strategy_images d2 = tbl_strategy_images db @ [row]
                           \<and> recorded_new stamps sid vid i f row \<and> [i_id row] = take 1 (uuids db)"
        using row(2,8) rec fr(5) by (intro exI[of _ row]) simp
      from rc row(1) have r: "\<exists>url. r = Inr url" by simp
      show ?thesis
        using True ok rc(2) fr fr2 o fa uu R r by simp
    qed
  qed
qed

lemma upload_one_edit_ok:
  "body_ok (upload_one_edit stamps ds sid vid n) (recorded_edit stamps sid vid n)
     (\<lambda>i f. (''STRATEGY_IMAGES'', upload_path sid (stamps i) f)) sid vid (\<lambda>i. int (n + i))"
  unfolding body_ok_def
proof (intro allI impI)
  fix i f db r c
  assume a: "upload_one_edit stamps ds sid vid n i f (Some db) = (r, c)"
  let ?obj = "(''STRATEGY_IMAGES'', upload_path sid (stamps i) f)"
  let ?goal = "\<exists>db'. c = Some db'
           \<and> buckets db' = buckets db \<and> tbl_maps db' = tbl_maps db
           \<and> tbl_strategies db' = tbl_strategies db
           \<and> tbl_strategy_versions db' = tbl_strategy_versions db
           \<and> (if upload_ok db ?obj \<and> record_ok db sid vid (int (n + i))
               then (\<exists>url. r = Inr url)
                    \<and> (\<exists>row. tbl_strategy_images db' = tbl_strategy_images db @ [row]
                           \<and> recorded_edit stamps sid vid n i f row
                           \<and> [i_id row] = take 1 (uuids db))
                    \<and> objects db' = objects db @ [?obj]
                    \<and> faults db' = drop 2 (faults db) \<and> uuids db' = drop 1 (uuids db)
                    \<and> db_now db' = db_now db + 2
               else (\<exists>e. r = Inl e) \<and> failed_at ?obj db db')"
  obtain q c1 where u: "uploadImage (Some db) (stamps i) f ''STRATEGY_IMAGES''
             (Some (''strategies/'' @ sid)) = (q, c1)"
    by (cases "uploadImage (Some db) (stamps i) f ''STRATEGY_IMAGES'' (Some (''strategies/'' @ sid))")
  from uploadImage_spec[OF u] obtain d1 where c1: "c1 = Some d1"
    and fr: "buckets d1 = buckets db" "tbl_maps d1 = tbl_maps db"
      "tbl_strategies d1 = tbl_strategies db"
      "tbl_strategy_versions d1 = tbl_strategy_versions db"
      "tbl_strategy_images d1 = tbl_strategy_images db" "uuids d1 = uuids db"
      "faults d1 = tl (faults db)" "db_now d1 = Suc (db_now db)"
    and q: "if upload_ok db ?obj
         then (\<exists>res. q = Inr res \<and> r_path res = upload_path sid (stamps i) f)
              \<and> objects d1 = objects db @ [?obj]
         else (\<exists>e. q = Inl e) \<and> objects d1 = objects db"
    by (elim exE conjE) (rule that)
  show ?goal
  proof (cases "upload_ok db ?obj")
    case False
    with q obtain e where e: "q = Inl e" and o: "objects d1 = objects db" by auto
    from a u e c1 have "r = Inl e" "c = Some d1" by (auto simp: upload_one_edit_def)
    with False fr o show ?thesis by (simp add: failed_at_def)
  next
    case True
    with q obtain res where res: "q = Inr res" "r_path res = upload_path sid (stamps i) f"
      and o: "objects d1 = objects db @ [?obj]" by auto
    let ?desc = "or_string (map_option trim (nth_opt ds i))
                   (''Strategy diagram '' @ decimal (n + i + 1) @ '' for '' @ sid)"
    obtain q2 c2 where cr: "createStrategyImage (Some d1) sid
                     (r_path res) ''strategy-images'' (r_url res)
                     (Some ?desc) (Some (int (n + i))) vid = (q2, c2)"
      by (cases "createStrategyImage (Some d1) sid
                     (r_path res) ''strategy-images'' (r_url res)
                     (Some ?desc) (Some (int (n + i))) vid")
    from createStrategyImage_spec[OF cr fr(7,6,5,3,4)] obtain d2 where c2: "c2 = Some d2"
      and fr2: "buckets d2 = buckets d1" "tbl_maps d2 = tbl_maps d1"
        "tbl_strategies d2 = tbl_strategies d1"
        "tbl_strategy_versions d2 = tbl_strategy_versions d1"
        "objects d2 = objects d1" "faults d2 = tl (faults d1)" "db_now d2 = Suc (db_now d1)"
      and q2: "if record_ok db sid vid (int (n + i))
         then (\<exists>row. q2 = Inr row
                 \<and> tbl_strategy_images d2 = tbl_strategy_images d1 @ [row]
                 \<and> i_strategy_id row = Some sid \<and> i_version_id row = or_null vid
                 \<and> i_storage_path row = r_path res
                 \<and> i_bucket_name row = ''strategy-images''
                 \<and> i_position_in_content row = int (n + i)
                 \<and> [i_id row] = take 1 (uuids db))
              \<and> uuids d2 = drop 1 (uuids db)
         else (\<exists>e. q2 = Inl e) \<and> tbl_strategy_images d2 = tbl_strategy_images d1"
      by (elim exE conjE) (rule that)
    have rc: "r = (case q2 of Inl e \<Rightarrow> Inl e | Inr _ \<Rightarrow> Inr (r_url res))" "c = Some d2"
      using a u res(1) c1 cr c2 by (auto simp: upload_one_edit_def Let_def split: sum.splits)
    have fa: "faults d2 = drop 2 (faults db)" using fr2(6) fr(7) by (simp add: tl_tl_drop)
    show ?thesis
    proof (cases "record_ok db sid vid (int (n + i))")
      case False
      with q2 obtain e where "q2 = Inl e" "tbl_strategy_images d2 = tbl_strategy_images d1" by auto
      with rc True False fr fr2 o show ?thesis by (simp add: failed_at_def)
    next
      case ok: True
      with q2 obtain row where row: "q2 = Inr row"
        "tbl_strategy_images d2 = tbl_strategy_images d1 @ [row]"
        "i_strategy_id row = Some sid" "i_version_id row = or_null vid"
        "i_storage_path row = r_path res"
        "i_bucket_name row = ''strategy-images''"
        "i_position_in_content row = int (n + i)"
        "[i_id row] = take 1 (uuids db)"
        and uu: "uuids d2 = drop 1 (uuids db)" by auto
      have rec: "recorded_edit stamps sid vid n i f row"
        using row res(2) by (simp add: recorded_edit_def)
      have R: "\<exists>row. tbl_strategy_images d2 = tbl_strategy_images db @ [row]
                           \<and> recorded_edit stamps sid vid n i f row
                           \<and> [i_id row] = take 1 (uuids db)"
        using row(2,8) rec fr(5) by (intro exI[of _ row]) simp
      from rc row(1) have r: "\<exists>url. r = Inr url" by simp
      show ?thesis
        using True ok rc(2) fr fr2 o fa uu R r by simp
    qed
  qed
qed

text \<open>The loop, by induction on the files that are left.\<close>

lemma uploaded_prefix_0: "uploaded_prefix recorded stored files db 0 db"
  by (simp add: uploaded_prefix_def)

lemma uploaded_prefix_Cons:
  assumes row: "tbl_strategy_images d1 = tbl_strategy_images db @ [row]"
      "recorded i0 f row" "[i_id row] = take 1 (uuids db)"
    and st: "objects d1 = objects db @ [stored i0 f]"
      "faults d1 = drop 2 (faults db)" "uuids d1 = drop 1 (uuids db)"
      "db_now d1 = db_now db + 2"
      "buckets d1 = buckets db" "tbl_maps d1 = tbl_maps db"
      "tbl_strategies d1 = tbl_strategies db"
      "tbl_strategy_versions d1 = tbl_strategy_versions db"
    and p: "uploaded_prefix (\<lambda>j. recorded (Suc i0 + j)) (\<lambda>j. stored (Suc i0 + j)) rest d1 k dbk"
  shows "uploaded_prefix (\<lambda>j. recorded (i0 + j)) (\<lambda>j. stored (i0 + j)) (f # rest) db (Suc k) dbk"
proof -
  from p[unfolded uploaded_prefix_def] obtain rows where
    rows: "tbl_strategy_images dbk = tbl_strategy_images d1 @ rows" "length rows = k"
      "map i_id rows = take k (uuids d1)"
      "\<forall>j<k. recorded (Suc i0 + j) (rest ! j) (rows ! j)"
    and o: "objects dbk = objects d1 @ map (\<lambda>j. stored (Suc i0 + j) (rest ! j)) [0..<k]"
    and fu: "faults dbk = drop (2 * k) (faults d1)" "uuids dbk = drop k (uuids d1)"
      "db_now dbk = db_now d1 + 2 * k"
    and fr: "buckets dbk = buckets d1" "tbl_maps dbk = tbl_maps d1"
      "tbl_strategies dbk = tbl_strategies d1"
      "tbl_strategy_versions dbk = tbl_strategy_versions d1"
    by (elim exE conjE) (rule that)
  from row(3) obtain u us where uu: "uuids db = u # us" "i_id row = u"
    by (cases "uuids db") auto
  have shift: "map (\<lambda>j. stored (i0 + j) ((f # rest) ! j)) [0..<Suc k]
        = stored i0 f # map (\<lambda>j. stored (Suc i0 + j) (rest ! j)) [0..<k]"
  proof -
    have "[0..<Suc k] = 0 # map Suc [0..<k]"
      by (simp add: upt_conv_Cons map_Suc_upt del: upt_Suc)
    then show ?thesis by (simp add: comp_def del: upt_Suc)
  qed
  have R: "\<exists>rows'. tbl_strategy_images dbk = tbl_strategy_images db @ rows'
             \<and> length rows' = Suc k
             \<and> map i_id rows' = take (Suc k) (uuids db)
             \<and> (\<forall>j<Suc k. recorded (i0 + j) ((f # rest) ! j) (rows' ! j))"
  proof (intro exI[of _ "row # rows"] conjI allI impI)
    show "tbl_strategy_images dbk = tbl_strategy_images db @ row # rows"
      using rows(1) row(1) by simp
    show "length (row # rows) = Suc k" using rows(2) by simp
    show "map i_id (row # rows) = take (Suc k) (uuids db)"
      using rows(3) st(3) uu by simp
    fix j assume "j < Suc k"
    then show "recorded (i0 + j) ((f # rest) ! j) ((row # rows) ! j)"
      using rows(4) row(2) by (cases j) auto
  qed
  have O: "objects dbk = objects db @ map (\<lambda>j. stored (i0 + j) ((f # rest) ! j)) [0..<Suc k]"
    unfolding shift using o st(1) by simp
  have F: "faults dbk = drop (2 * Suc k) (faults db)"
    using fu(1) st(2) by (simp add: add.commute)
  have U: "uuids dbk = drop (Suc k) (uuids db)"
    using fu(2) st(3) by simp
  have T: "db_now dbk = db_now db + 2 * Suc k" using fu(3) st(4) by simp
  show ?thesis
    unfolding uploaded_prefix_def
    using R O F U T fr st(5-8) by (intro conjI) simp_all
qed

lemma upload_loop_outcome:
  assumes ok: "body_ok body recorded stored sid vid position"
    and run: "upload_loop body i0 files urls0 (Some db) = (r, c)"
  shows "\<exists>db' k dbk. c = Some db' \<and> k \<le> length files
     \<and> uploaded_prefix (\<lambda>j. recorded (i0 + j)) (\<lambda>j. stored (i0 + j)) files db k dbk
     \<and> (\<forall>j<k. \<exists>dbj. uploaded_prefix (\<lambda>j. recorded (i0 + j)) (\<lambda>j. stored (i0 + j)) files db j dbj
             \<and> upload_ok dbj (stored (i0 + j) (files ! j))
             \<and> record_ok dbj sid vid (position (i0 + j)))
     \<and> (if k = length files then (\<exists>urls. r = Inr (urls0 @ urls) \<and> length urls = k) \<and> db' = dbk
         else r = Inl (Error (''Failed to upload image: '' @ f_name (files ! k)))
              \<and> \<not> (upload_ok dbk (stored (i0 + k) (files ! k))
                     \<and> record_ok dbk sid vid (position (i0 + k)))
              \<and> failed_at (stored (i0 + k) (files ! k)) dbk db')"
  using run
proof (induction files arbitrary: i0 urls0 db)
  case Nil
  then have "r = Inr urls0" "c = Some db" by auto
  then show ?case
    by (intro exI[of _ db] exI[of _ 0]) (simp add: uploaded_prefix_0)
next
  case (Cons f rest)
  obtain q c1 where b: "body i0 f (Some db) = (q, c1)" by (cases "body i0 f (Some db)")
  from ok[unfolded body_ok_def, rule_format, OF b] obtain d1 where d1: "c1 = Some d1"
    and fr: "buckets d1 = buckets db" "tbl_maps d1 = tbl_maps db"
      "tbl_strategies d1 = tbl_strategies db"
      "tbl_strategy_versions d1 = tbl_strategy_versions db"
    and q: "if upload_ok db (stored i0 f) \<and> record_ok db sid vid (position i0)
               then (\<exists>url. q = Inr url)
                    \<and> (\<exists>row. tbl_strategy_images d1 = tbl_strategy_images db @ [row]
                           \<and> recorded i0 f row \<and> [i_id row] = take 1 (uuids db))
                    \<and> objects d1 = objects db @ [stored i0 f]
                    \<and> faults d1 = drop 2 (faults db) \<and> uuids d1 = drop 1 (uuids db)
                    \<and> db_now d1 = db_now db + 2
               else (\<exists>e. q = Inl e) \<and> failed_at (stored i0 f) db d1"
    by (elim exE conjE) (rule that)
  show ?case
  proof (cases "upload_ok db (stored i0 f) \<and> record_ok db sid vid (position i0)")
    case False
    with q obtain e where e: "q = Inl e" and fa: "failed_at (stored i0 f) db d1" by auto
    from Cons.prems b d1 e have r: "r = Inl (Error (''Failed to upload image: '' @ f_name f))"
      and c: "c = Some d1" by auto
    show ?thesis
      using False fa r c
      by (intro exI[of _ d1] exI[of _ 0] exI[of _ db]) (simp add: uploaded_prefix_0)
  next
    case True
    with q obtain url row where url: "q = Inr url"
      and row: "tbl_strategy_images d1 = tbl_strategy_images db @ [row]"
        "recorded i0 f row" "[i_id row] = take 1 (uuids db)"
      and st: "objects d1 = objects db @ [stored i0 f]"
        "faults d1 = drop 2 (faults db)" "uuids d1 = drop 1 (uuids db)"
        "db_now d1 = db_now db + 2"
      by auto
    note step = uploaded_prefix_Cons[where recorded=recorded and stored=stored,
        OF row st fr]
    from Cons.prems b d1 url
    have "upload_loop body (Suc i0) rest (urls0 @ [url]) (Some d1) = (r, c)" by simp
    from Cons.IH[OF this] obtain db' k dbk where
      c: "c = Some db'" and k: "k \<le> length rest"
      and p: "uploaded_prefix (\<lambda>j. recorded (Suc i0 + j)) (\<lambda>j. stored (Suc i0 + j)) rest d1 k dbk"
      and a: "\<forall>j<k. \<exists>dbj. uploaded_prefix (\<lambda>j. recorded (Suc i0 + j)) (\<lambda>j. stored (Suc i0 + j))
                              rest d1 j dbj
             \<and> upload_ok dbj (stored (Suc i0 + j) (rest ! j))
             \<and> record_ok dbj sid vid (position (Suc i0 + j))"
      and res: "if k = length rest
         then (\<exists>urls. r = Inr ((urls0 @ [url]) @ urls) \<and> length urls = k) \<and> db' = dbk
         else r = Inl (Error (''Failed to upload image: '' @ f_name (rest ! k)))
              \<and> \<not> (upload_ok dbk (stored (Suc i0 + k) (rest ! k))
                     \<and> record_ok dbk sid vid (position (Suc i0 + k)))
              \<and> failed_at (stored (Suc i0 + k) (rest ! k)) dbk db'"
      by (elim exE conjE) (rule that)
    have P: "uploaded_prefix (\<lambda>j. recorded (i0 + j)) (\<lambda>j. stored (i0 + j)) (f # rest) db (Suc k) dbk"
      by (rule step[OF p])
    have A: "\<forall>j<Suc k. \<exists>dbj. uploaded_prefix (\<lambda>j. recorded (i0 + j)) (\<lambda>j. stored (i0 + j))
                              (f # rest) db j dbj
             \<and> upload_ok dbj (stored (i0 + j) ((f # rest) ! j))
             \<and> record_ok dbj sid vid (position (i0 + j))"
    proof (intro allI impI)
      fix j assume j: "j < Suc k"
      show "\<exists>dbj. uploaded_prefix (\<lambda>j. recorded (i0 + j)) (\<lambda>j. stored (i0 + j))
                              (f # rest) db j dbj
             \<and> upload_ok dbj (stored (i0 + j) ((f # rest) ! j))
             \<and> record_ok dbj sid vid (position (i0 + j))"
      proof (cases j)
        case 0
        with True show ?thesis
          by (intro exI[of _ db]) (simp add: uploaded_prefix_0)
      next
        case (Suc j')
        with j have "j' < k" by simp
        with a obtain dbj where
          pj: "uploaded_prefix (\<lambda>j. recorded (Suc i0 + j)) (\<lambda>j. stored (Suc i0 + j)) rest d1 j' dbj"
          and aj: "upload_ok dbj (stored (Suc i0 + j') (rest ! j'))"
            "record_ok dbj sid vid (position (Suc i0 + j'))"
          by blast
        from step[OF pj] aj show ?thesis
          unfolding Suc by (intro exI[of _ dbj]) simp
      qed
    qed
    have E: "if Suc k = length (f # rest)
         then (\<exists>urls. r = Inr (urls0 @ urls) \<and> length urls = Suc k) \<and> db' = dbk
         else r = Inl (Error (''Failed to upload image: '' @ f_name ((f # rest) ! Suc k)))
              \<and> \<not> (upload_ok dbk (stored (i0 + Suc k) ((f # rest) ! Suc k))
                     \<and> record_ok dbk sid vid (position (i0 + Suc k)))
              \<and> failed_at (stored (i0 + Suc k) ((f # rest) ! Suc k)) dbk db'"
    proof (cases "k = length rest")
      case True
      with res obtain urls where "r = Inr ((urls0 @ [url]) @ urls)" "length urls = k" "db' = dbk"
        by auto
      then have "r = Inr (urls0 @ (url # urls)) \<and> length (url # urls) = Suc k" by simp
      with True \<open>db' = dbk\<close> show ?thesis by (auto intro: exI[of _ "url # urls"])
    next
      case False
      with res show ?thesis by simp
    qed
    show ?thesis
      using c k P A E by (intro exI[of _ db'] exI[of _ "Suc k"] exI[of _ dbk]) simp
  qed
qed

lemma upload_loop_outcome0:
  assumes "body_ok body recorded stored sid vid position"
    and "upload_loop body 0 files [] (Some db) = (r, c)"
  shows "\<exists>db'. c = Some db' \<and> upload_outcome recorded stored sid vid position files db r db'"
proof -
  from upload_loop_outcome[OF assms, unfolded add_0 append_Nil]
  obtain db' k dbk where c: "c = Some db'"
    and rest: "k \<le> length files
     \<and> uploaded_prefix recorded stored files db k dbk
     \<and> (\<forall>j<k. \<exists>dbj. uploaded_prefix recorded stored files db j dbj
             \<and> upload_ok dbj (stored j (files ! j))
             \<and> record_ok dbj sid vid (position j))
     \<and> (if k = length files then (\<exists>urls. r = Inr urls \<and> length urls = k) \<and> db' = dbk
         else r = Inl (Error (''Failed to upload image: '' @ f_name (files ! k)))
              \<and> \<not> (upload_ok dbk (stored k (files ! k))
                     \<and> record_ok dbk sid vid (position k))
              \<and> failed_at (stored k (files ! k)) dbk db')"
    by blast
  have "upload_outcome recorded stored sid vid position files db r db'"
    unfolding upload_outcome_def by (intro exI[of _ k] exI[of _ dbk]) (rule rest)
  with c show ?thesis by blast
qed

text \<open>What \<open>getStrategy\<close> leaves and which images it delivers.\<close>

lemma same_data_refl: "same_data db db"
  by (simp add: same_data_def)

lemma same_data_trans: "same_data a b \<Longrightarrow> same_data b c \<Longrightarrow> same_data a c"
  by (simp add: same_data_def)

lemma request_same: "request db = (f, db1) \<Longrightarrow> same_data db db1"
  by (drule request_tables) (simp add: same_data_def)

lemma select_single_same: "select_single db tbl p = (r, db1) \<Longrightarrow> same_data db db1"
  by (drule select_single_tables) (simp add: same_data_def)

lemma rpc_same: "get_strategy_with_version db sid = (q, d1) \<Longrightarrow> same_data db d1"
  by (auto simp: get_strategy_with_version_def
      split: prod.splits bool.splits sum.splits option.splits dest!: request_same)

lemma rpc_images:
  assumes "get_strategy_with_version db sid = (Inr (Some j), d1)"
  shows "images_of (Some j)
     = sort_key i_position_in_content
         (filter (\<lambda>i. i_strategy_id i = Some sid) (tbl_strategy_images db))"
proof -
  obtain f db1 where rq: "request db = (f, db1)" by (cases "request db")
  note t = request_tables[OF rq]
  from assms rq obtain s where s: "filter (\<lambda>s. s_id s = sid) (tbl_strategies db1) = [s]"
    and j: "strategy_json db1 MapAll s = Inr j"
    by (auto simp: get_strategy_with_version_def scalar_subquery_def
        split: bool.splits sum.splits option.splits list.splits)
  from filter_singleD[OF s] have sid: "s_id s = sid" by simp
  from j have "sv_images j = json_agg (sort_key i_position_in_content
                   (filter (\<lambda>si. i_strategy_id si = Some (s_id s)) (tbl_strategy_images db1)))"
    by (auto simp: strategy_json_def split: sum.splits)
  then show ?thesis
    using t by (simp add: sid images_of_def json_agg_def)
qed

lemma fallback_images:
  assumes "getStrategy_fallback db sid = (r, d)"
  shows "same_data db d
     \<and> (\<forall>q. r = Inr q \<longrightarrow>
          images_of q = filter (\<lambda>i. i_strategy_id i = Some sid) (tbl_strategy_images db))"
proof -
  obtain q d1 where s: "select_single db tbl_strategies (\<lambda>r. s_id r = sid) = (q, d1)"
    by (cases "select_single db tbl_strategies (\<lambda>r. s_id r = sid)")
  note t1 = select_single_tables[OF s]
  note s1 = select_single_same[OF s]
  show ?thesis
  proof (cases q)
    case (Inl e)
    with assms s s1 show ?thesis by (auto simp: getStrategy_fallback_def)
  next
    case (Inr row)
    show ?thesis
    proof (cases "truthy (s_current_version_id row)")
      case False
      with assms s t1 s1 Inr show ?thesis
        by (auto simp: getStrategy_fallback_def images_of_def with_version_def)
    next
      case True
      obtain q2 d2 where s2: "select_single d1 tbl_strategy_versions
                         (\<lambda>v. Some (v_id v) = s_current_version_id row) = (q2, d2)"
        by (cases "select_single d1 tbl_strategy_versions
                         (\<lambda>v. Some (v_id v) = s_current_version_id row)")
      note s12 = same_data_trans[OF s1 select_single_same[OF s2]]
      from assms s Inr True s2 t1 s12 show ?thesis
        by (auto simp: getStrategy_fallback_def images_of_def with_version_def split: sum.splits)
    qed
  qed
qed

lemma getStrategy_Some:
  assumes "getStrategy (Some db) sid = (r, c)"
  shows "\<exists>db0. c = Some db0 \<and> same_data db db0
           \<and> (\<forall>q. r = Inr q \<longrightarrow> images_of q = images_read db sid)"
proof -
  obtain q d1 where g: "get_strategy_with_version db sid = (q, d1)"
    by (cases "get_strategy_with_version db sid")
  note t = rpc_same[OF g]
  obtain r1 d where a: "getStrategy_db db sid = (r1, d)" by (cases "getStrategy_db db sid")
  have "same_data db d \<and> (\<forall>q. r1 = Inr q \<longrightarrow> images_of q = images_read db sid)"
  proof (cases q)
    case (Inl e)
    with a g have f: "getStrategy_fallback d1 sid = (r1, d)" by (simp add: getStrategy_db_def)
    from fallback_images[OF f] t g Inl show ?thesis
      by (auto simp: images_read_def same_data_def)
  next
    case (Inr x)
    show ?thesis
    proof (cases x)
      case None
      with a g Inr t show ?thesis by (auto simp: getStrategy_db_def)
    next
      case (Some j)
      with a g Inr have "r1 = Inr (Some j)" "d = d1" by (simp_all add: getStrategy_db_def)
      with rpc_images[OF g[unfolded Inr Some]] t g Inr show ?thesis
        by (simp add: images_read_def)
    qed
  qed
  with assms a show ?thesis by (auto simp: getStrategy_def configured_def)
qed

text \<open>
  Claim C9, amended. Whatever \<open>uploadStrategyImages\<close> returns on either page, the files
  were taken one at a time in selection order: there is a number \<open>k\<close> of files that
  were uploaded and recorded, one object and one row each, and each of them was taken by
  the backend in the state that the files before it had left. Either \<open>k\<close> is the number
  of files and the result is the list of addresses; or the backend did not take file
  \<open>k\<close> (its upload or the insert of its row was refused), the result is the error
  \<open>Failed to upload image: <name of file k>\<close>, and nothing was done after the failure
  and nothing removed: the store holds what it held, the objects of the first \<open>k\<close>
  files and, when the failure was in recording, the object of file \<open>k\<close>, for which
  there is no row. On the edit page the loop runs after the read of the strategy, which
  changes no data and whose error is returned as it is; the positions continue after the
  images that this read delivered.
\<close>

theorem uploadStrategyImages_first_failure:
  "(uploadStrategyImages_new stamps st (Some db) strategyId versionId = (r, c) \<longrightarrow>
      (\<exists>db'. c = Some db'
         \<and> upload_outcome (recorded_new stamps strategyId versionId)
             (\<lambda>i f. (''strategy-images'', upload_path strategyId (stamps i) f))
             strategyId versionId int (fs_uploadedImages st) db r db'))
   \<and> (uploadStrategyImages_edit stamps st (Some db) strategyId versionId = (r, c) \<longrightarrow>
      (\<exists>db0 q. getStrategy (Some db) strategyId = (q, Some db0) \<and> same_data db db0
         \<and> (case q of
               Inl e \<Rightarrow> r = Inl e \<and> c = Some db0
             | Inr currentStrategy \<Rightarrow>
                 images_of currentStrategy = images_read db strategyId
                 \<and> (\<exists>db'. c = Some db'
                    \<and> upload_outcome
                        (recorded_edit stamps strategyId versionId
                           (length (images_of currentStrategy)))
                        (\<lambda>i f. (''STRATEGY_IMAGES'', upload_path strategyId (stamps i) f))
                        strategyId versionId
                        (\<lambda>i. int (length (images_of currentStrategy) + i))
                        (fs_uploadedImages st) db0 r db'))))"
proof (intro conjI impI)
  assume "uploadStrategyImages_new stamps st (Some db) strategyId versionId = (r, c)"
  then have run: "upload_loop (upload_one_new stamps (fs_imageDescriptions st) strategyId versionId)
       0 (fs_uploadedImages st) [] (Some db) = (r, c)"
    by (simp add: uploadStrategyImages_new_def)
  from upload_loop_outcome0[OF upload_one_new_ok run]
  show "\<exists>db'. c = Some db'
         \<and> upload_outcome (recorded_new stamps strategyId versionId)
             (\<lambda>i f. (''strategy-images'', upload_path strategyId (stamps i) f))
             strategyId versionId int (fs_uploadedImages st) db r db'" .
next
  assume a: "uploadStrategyImages_edit stamps st (Some db) strategyId versionId = (r, c)"
  obtain q c0 where g: "getStrategy (Some db) strategyId = (q, c0)"
    by (cases "getStrategy (Some db) strategyId")
  from getStrategy_Some[OF g] obtain db0 where c0: "c0 = Some db0"
    and t: "same_data db db0"
    and im: "\<forall>x. q = Inr x \<longrightarrow> images_of x = images_read db strategyId"
    by blast
  have "case q of
               Inl e \<Rightarrow> r = Inl e \<and> c = Some db0
             | Inr currentStrategy \<Rightarrow>
                 images_of currentStrategy = images_read db strategyId
                 \<and> (\<exists>db'. c = Some db'
                    \<and> upload_outcome
                        (recorded_edit stamps strategyId versionId
                           (length (images_of currentStrategy)))
                        (\<lambda>i f. (''STRATEGY_IMAGES'', upload_path strategyId (stamps i) f))
                        strategyId versionId
                        (\<lambda>i. int (length (images_of currentStrategy) + i))
                        (fs_uploadedImages st) db0 r db')"
  proof (cases q)
    case (Inl e)
    with a g c0 show ?thesis by (auto simp: uploadStrategyImages_edit_def)
  next
    case (Inr cs)
    with a g c0 have run: "upload_loop
            (upload_one_edit stamps (fs_imageDescriptions st) strategyId versionId
               (length (images_of cs)))
            0 (fs_uploadedImages st) [] (Some db0) = (r, c)"
      by (simp add: uploadStrategyImages_edit_def)
    from upload_loop_outcome0[OF upload_one_edit_ok run] Inr im
    show ?thesis by simp
  qed
  with g c0 t
  show "\<exists>db0 q. getStrategy (Some db) strategyId = (q, Some db0) \<and> same_data db db0
         \<and> (case q of
               Inl e \<Rightarrow> r = Inl e \<and> c = Some db0
             | Inr currentStrategy \<Rightarrow>
                 images_of currentStrategy = images_read db strategyId
                 \<and> (\<exists>db'. c = Some db'
                    \<and> upload_outcome
                        (recorded_edit stamps strategyId versionId
                           (length (images_of currentStrategy)))
                        (\<lambda>i f. (''STRATEGY_IMAGES'', upload_path strategyId (stamps i) f))
                        strategyId versionId
                        (\<lambda>i. int (length (images_of currentStrategy) + i))
                        (fs_uploadedImages st) db0 r db'))"
    by (intro exI[of _ db0] exI[of _ q]) simp
qed

lemmas upload_defs = uploadStrategyImages_new_def upload_one_new_def uploadImage_def
  storage_upload_def getPublicUrl_def fileExt_def createStrategyImage_def
  createStrategyImage_db_def handleImageSelect_new_def handleImageSelect_def valid_file_def
  truncateString_def nth_opt_def stamps0_def decimal.simps

lemmas upload_edit_defs = uploadStrategyImages_edit_def upload_one_edit_def images_of_def
  handleImageSelect_edit_def

text \<open>
  Claim C9, as stated, fails when the insert of a row is rejected. The second call, the
  insert for the first queued file, is rejected: no file precedes the failure, and yet
  the object of the failed file has been uploaded and stays in the store, with no row
  for it.
\<close>

theorem uploadStrategyImages_orphan_counterexample:
  "fst (uploadStrategyImages_new stamps0 (handleImageSelect_new three_files empty_form)
          (Some (created_backend\<lparr>faults := [False, True]\<rparr>)) ''u1'' (Some ''u2''))
     = Inl (Error ''Failed to upload image: a.site.png'')
   \<and> objects created_backend = []
   \<and> objects (the (snd (uploadStrategyImages_new stamps0
          (handleImageSelect_new three_files empty_form)
          (Some (created_backend\<lparr>faults := [False, True]\<rparr>)) ''u1'' (Some ''u2''))))
     = [(''strategy-images'', ''strategies/u1/1700000000000-k0.png'')]
   \<and> tbl_strategy_images (the (snd (uploadStrategyImages_new stamps0
          (handleImageSelect_new three_files empty_form)
          (Some (created_backend\<lparr>faults := [False, True]\<rparr>)) ''u1'' (Some ''u2''))))
     = []"
  by (simp add: upload_defs prim_defs ex_defs)

text \<open>
  On the creating page the third call (the upload of the second queued file) is rejected:
  the first file stays stored and recorded. On the edit page, on a backend that has a
  bucket named \<open>STRATEGY_IMAGES\<close>, the fifth call (the insert for the second queued
  file) is rejected: the first file is stored and recorded at position 4, after the four
  images the strategy has, and the object of the second file stays without a row.
\<close>

theorem uploadStrategyImages_first_failure_witness:
  "(\<exists>db'.
      uploadStrategyImages_new stamps0 (handleImageSelect_new three_files empty_form)
        (Some (created_backend\<lparr>faults := [False, False, True]\<rparr>)) ''u1'' (Some ''u2'')
        = (Inl (Error ''Failed to upload image: b-site.jpg''), Some db')
    \<and> upload_outcome (recorded_new stamps0 ''u1'' (Some ''u2''))
        (\<lambda>i f. (''strategy-images'', upload_path ''u1'' (stamps0 i) f))
        ''u1'' (Some ''u2'') int
        (fs_uploadedImages (handleImageSelect_new three_files empty_form))
        (created_backend\<lparr>faults := [False, False, True]\<rparr>)
        (Inl (Error ''Failed to upload image: b-site.jpg'')) db'
    \<and> map i_position_in_content (tbl_strategy_images db') = [0]
    \<and> map snd (objects db') = [''strategies/u1/1700000000000-k0.png''])
   \<and> (\<exists>db0 db'.
      same_data
        (copied_backend\<lparr>buckets := [''STRATEGY_IMAGES''],
                         faults := [False, False, False, False, True]\<rparr>) db0
    \<and> uploadStrategyImages_edit stamps0 (handleImageSelect_edit three_files empty_form)
        (Some (copied_backend\<lparr>buckets := [''STRATEGY_IMAGES''],
                               faults := [False, False, False, False, True]\<rparr>))
        ''s0'' (Some ''u1'')
        = (Inl (Error ''Failed to upload image: b-site.jpg''), Some db')
    \<and> upload_outcome (recorded_edit stamps0 ''s0'' (Some ''u1'') 4)
        (\<lambda>i f. (''STRATEGY_IMAGES'', upload_path ''s0'' (stamps0 i) f))
        ''s0'' (Some ''u1'') (\<lambda>i. int (4 + i))
        (fs_uploadedImages (handleImageSelect_edit three_files empty_form))
        db0 (Inl (Error ''Failed to upload image: b-site.jpg'')) db'
    \<and> map i_position_in_content (tbl_strategy_images db') = [1, 0, 0, 1, 4]
    \<and> map snd (objects db')
        = [''strategies/s0/1700000000000-k0.png'', ''strategies/s0/1700000000000-k1.jpg''])"
proof
  let ?B = "created_backend\<lparr>faults := [False, False, True]\<rparr>"
  let ?Q = "handleImageSelect_new three_files empty_form"
  obtain c where u: "uploadStrategyImages_new stamps0 ?Q (Some ?B) ''u1'' (Some ''u2'')
        = (Inl (Error ''Failed to upload image: b-site.jpg''), c)"
    and p: "map i_position_in_content (tbl_strategy_images (the c)) = [0]"
    and o: "map snd (objects (the c)) = [''strategies/u1/1700000000000-k0.png'']"
    by (simp add: upload_defs prim_defs ex_defs)
  from uploadStrategyImages_first_failure[of stamps0 ?Q ?B "''u1''" "Some ''u2''" _ c,
      THEN conjunct1, THEN mp, OF u]
  obtain db' where "c = Some db'"
    and "upload_outcome (recorded_new stamps0 ''u1'' (Some ''u2''))
        (\<lambda>i f. (''strategy-images'', upload_path ''u1'' (stamps0 i) f))
        ''u1'' (Some ''u2'') int
        (fs_uploadedImages ?Q) ?B (Inl (Error ''Failed to upload image: b-site.jpg'')) db'"
    by blast
  with u p o
  show "\<exists>db'.
      uploadStrategyImages_new stamps0 ?Q (Some ?B) ''u1'' (Some ''u2'')
        = (Inl (Error ''Failed to upload image: b-site.jpg''), Some db')
    \<and> upload_outcome (recorded_new stamps0 ''u1'' (Some ''u2''))
        (\<lambda>i f. (''strategy-images'', upload_path ''u1'' (stamps0 i) f))
        ''u1'' (Some ''u2'') int
        (fs_uploadedImages ?Q) ?B (Inl (Error ''Failed to upload image: b-site.jpg'')) db'
    \<and> map i_position_in_content (tbl_strategy_images db') = [0]
    \<and> map snd (objects db') = [''strategies/u1/1700000000000-k0.png'']"
    by (intro exI[of _ db']) simp
next
  let ?B = "copied_backend\<lparr>buckets := [''STRATEGY_IMAGES''],
                         faults := [False, False, False, False, True]\<rparr>"
  let ?Q = "handleImageSelect_edit three_files empty_form"
  obtain c where u: "uploadStrategyImages_edit stamps0 ?Q (Some ?B) ''s0'' (Some ''u1'')
        = (Inl (Error ''Failed to upload image: b-site.jpg''), c)"
    and p: "map i_position_in_content (tbl_strategy_images (the c)) = [1, 0, 0, 1, 4]"
    and o: "map snd (objects (the c))
        = [''strategies/s0/1700000000000-k0.png'', ''strategies/s0/1700000000000-k1.jpg'']"
    by (simp add: upload_edit_defs upload_defs get_defs prim_defs ex_defs)
  obtain x d where gx: "getStrategy (Some ?B) ''s0'' = (Inr x, d)"
    and lx: "length (images_of x) = 4"
    by (simp add: get_defs prim_defs ex_defs images_of_def)
  from uploadStrategyImages_first_failure[of stamps0 ?Q ?B "''s0''" "Some ''u1''" _ c,
      THEN conjunct2, THEN mp, OF u]
  obtain db0 q where g: "getStrategy (Some ?B) ''s0'' = (q, Some db0)"
    and s: "same_data ?B db0"
    and k: "case q of
               Inl e \<Rightarrow> (Inl (Error ''Failed to upload image: b-site.jpg'') :: error + string list)
                          = Inl e \<and> c = Some db0
             | Inr currentStrategy \<Rightarrow>
                 images_of currentStrategy = images_read ?B ''s0''
                 \<and> (\<exists>db'. c = Some db'
                    \<and> upload_outcome
                        (recorded_edit stamps0 ''s0'' (Some ''u1'')
                           (length (images_of currentStrategy)))
                        (\<lambda>i f. (''STRATEGY_IMAGES'', upload_path ''s0'' (stamps0 i) f))
                        ''s0'' (Some ''u1'')
                        (\<lambda>i. int (length (images_of currentStrategy) + i))
                        (fs_uploadedImages ?Q) db0
                        (Inl (Error ''Failed to upload image: b-site.jpg'')) db')"
    by (elim exE conjE) (rule that)
  from g gx have q: "q = Inr x" by simp
  from k[unfolded q sum.case lx] obtain db' where c: "c = Some db'"
    and out: "upload_outcome (recorded_edit stamps0 ''s0'' (Some ''u1'') 4)
        (\<lambda>i f. (''STRATEGY_IMAGES'', upload_path ''s0'' (stamps0 i) f))
        ''s0'' (Some ''u1'') (\<lambda>i. int (4 + i))
        (fs_uploadedImages ?Q) db0 (Inl (Error ''Failed to upload image: b-site.jpg'')) db'"
    by blast
  show "\<exists>db0 db'.
      same_data ?B db0
    \<and> uploadStrategyImages_edit stamps0 ?Q (Some ?B) ''s0'' (Some ''u1'')
        = (Inl (Error ''Failed to upload image: b-site.jpg''), Some db')
    \<and> upload_outcome (recorded_edit stamps0 ''s0'' (Some ''u1'') 4)
        (\<lambda>i f. (''STRATEGY_IMAGES'', upload_path ''s0'' (stamps0 i) f))
        ''s0'' (Some ''u1'') (\<lambda>i. int (4 + i))
        (fs_uploadedImages ?Q) db0 (Inl (Error ''Failed to upload image: b-site.jpg'')) db'
    \<and> map i_position_in_content (tbl_strategy_images db') = [1, 0, 0, 1, 4]
    \<and> map snd (objects db')
        = [''strategies/s0/1700000000000-k0.png'', ''strategies/s0/1700000000000-k1.jpg'']"
    using s u out p o unfolding c by (intro exI[of _ db0] exI[of _ db']) simp
qed






lemma updateStrategyImage_Inr:
  assumes "updateStrategyImage (Some db) iid t = (Inr row, c)"
  shows "\<exists>db'. c = Some db' \<and> tbl_strategy_images db' = set_alt_text iid t (tbl_strategy_images db)"
  using assms
  by (auto simp: updateStrategyImage_def update_image_def set_alt_text_def
      split: prod.splits bool.splits list.splits dest!: request_tables)

lemma update_description_step:
  assumes "update_description strategy newVersionImages entry (Some db) = (Inr (), c)"
  shows "\<exists>db'. c = Some db'
     \<and> tbl_strategy_images db'
         = describe_image strategy newVersionImages entry (tbl_strategy_images db)"
proof (cases "find (\<lambda>img. i_id img = fst entry) (images_of strategy)")
  case None
  with assms show ?thesis
    by (auto simp: update_description_def describe_image_def split: prod.splits)
next
  case (Some orig)
  let ?t = "trim (snd entry)"
  let ?m = "find (\<lambda>img. i_storage_path img = i_storage_path orig
                         \<or> i_position_in_content img = i_position_in_content orig)
              newVersionImages"
  show ?thesis
  proof (cases "i_alt_text orig = Some ?t")
    case True
    with assms Some show ?thesis
      by (auto simp: update_description_def describe_image_def split: prod.splits)
  next
    case False
    show ?thesis
    proof (cases ?m)
      case None
      with assms Some False obtain row where
        "updateStrategyImage (Some db) (i_id orig) ?t = (Inr row, c)"
        by (auto simp: update_description_def split: prod.splits sum.splits)
      from updateStrategyImage_Inr[OF this] Some False None show ?thesis
        by (simp add: describe_image_def)
    next
      case m: (Some n)
      show ?thesis
      proof (cases "?t = []")
        case True
        with assms Some False m show ?thesis
          by (auto simp: update_description_def describe_image_def split: prod.splits)
      next
        case ne: False
        with assms Some False m obtain row where
          "updateStrategyImage (Some db) (i_id n) ?t = (Inr row, c)"
          by (auto simp: update_description_def split: prod.splits sum.splits)
        from updateStrategyImage_Inr[OF this] Some False m ne show ?thesis
          by (simp add: describe_image_def)
      qed
    qed
  qed
qed

lemma update_descriptions_fold:
  assumes "update_descriptions strategy newVersionImages entries (Some db) = (Inr (), c)"
  shows "\<exists>db'. c = Some db'
     \<and> tbl_strategy_images db'
         = fold (describe_image strategy newVersionImages) entries (tbl_strategy_images db)"
  using assms
proof (induction entries arbitrary: db)
  case Nil
  then show ?case by auto
next
  case (Cons entry rest)
  from Cons.prems obtain c1 where
    s: "update_description strategy newVersionImages entry (Some db) = (Inr (), c1)"
    and r: "update_descriptions strategy newVersionImages rest c1 = (Inr (), c)"
    by (cases "update_description strategy newVersionImages entry (Some db)")
       (auto split: sum.splits)
  from update_description_step[OF s] obtain d1 where d1: "c1 = Some d1"
    and t: "tbl_strategy_images d1
         = describe_image strategy newVersionImages entry (tbl_strategy_images db)"
    by blast
  from Cons.IH[OF r[unfolded d1]] t show ?case by simp
qed

text \<open>
  Claim C6, amended. When the description loop of the edit page's \<open>onSubmit\<close> returns,
  the image table is the table it started from with the contract for one edited
  description applied for each submitted entry, in order. The images of the new version
  that the contract searches are the images of the strategy, as \<open>getStrategy\<close> reads them
  again after the copy, whose version is the new version.
\<close>

theorem onSubmit_descriptions_effect:
  "onSubmit_descriptions strategy existingImageDescriptions (Some db) strategyId newVersionId
     = (Inr (), c)
   \<longrightarrow> (\<exists>db'. c = Some db'
        \<and> tbl_strategy_images db'
            = fold (describe_image strategy
                      (filter (\<lambda>img. newVersionId \<noteq> None \<and> i_version_id img = newVersionId)
                         (images_read db strategyId)))
                existingImageDescriptions (tbl_strategy_images db))"
proof
  assume a: "onSubmit_descriptions strategy existingImageDescriptions (Some db) strategyId
      newVersionId = (Inr (), c)"
  obtain g c0 where g: "getStrategy (Some db) strategyId = (g, c0)"
    by (cases "getStrategy (Some db) strategyId")
  from getStrategy_Some[OF g] obtain db0 where c0: "c0 = Some db0" and s: "same_data db db0"
    and im: "\<forall>q. g = Inr q \<longrightarrow> images_of q = images_read db strategyId"
    by blast
  from a g obtain u where u: "g = Inr u"
    by (cases g) (auto simp: onSubmit_descriptions_def)
  with im have i: "images_of u = images_read db strategyId" by simp
  from a g u c0 have "update_descriptions strategy
            (filter (\<lambda>img. newVersionId \<noteq> None \<and> i_version_id img = newVersionId)
               (images_read db strategyId))
            existingImageDescriptions (Some db0) = (Inr (), c)"
    by (simp add: onSubmit_descriptions_def i)
  from update_descriptions_fold[OF this] s
  show "\<exists>db'. c = Some db'
        \<and> tbl_strategy_images db'
            = fold (describe_image strategy
                      (filter (\<lambda>img. newVersionId \<noteq> None \<and> i_version_id img = newVersionId)
                         (images_read db strategyId)))
                existingImageDescriptions (tbl_strategy_images db)"
    by (simp add: same_data_def)
qed

lemmas page_defs = update_description_def images_of_def updateStrategyImage_def update_image_def
  set_alt_text_def trim_def is_space_def

text \<open>
  Claim C6, as stated, fails for a description edited to blanks: the copied image is
  found, and no row is updated.
\<close>

theorem update_description_blank_counterexample:
  "find (\<lambda>img. i_id img = ''i1'') (images_of (Some loaded_strategy)) = Some crossfire
   \<and> i_alt_text crossfire \<noteq> Some (trim ''  '')
   \<and> find (\<lambda>img. i_storage_path img = i_storage_path crossfire
                 \<or> i_position_in_content img = i_position_in_content crossfire)
        [crossfire_copy] = Some crossfire_copy
   \<and> i_alt_text crossfire_copy = Some ''Crossfire''
   \<and> crossfire_copy \<in> set (tbl_strategy_images copied_backend)
   \<and> update_description (Some loaded_strategy) [crossfire_copy] (''i1'', ''  '')
        (Some copied_backend) = (Inr (), Some copied_backend)"
  by (simp add: page_defs prim_defs ex_defs)

lemmas submit_defs = onSubmit_descriptions_def update_descriptions.simps describe_image_def
  images_read_def

text \<open>
  Two descriptions submitted after the two legacy images were copied to version 1: the
  description of "Crossfire" is edited and the copy under version 1 gets it; the other
  is edited to blanks, its copy is found and nothing is updated.
\<close>

theorem onSubmit_descriptions_effect_witness:
  "\<exists>db'. onSubmit_descriptions (Some loaded_strategy)
            [(''i1'', '' Crossfire from B ''), (''i2'', ''  '')]
            (Some copied_backend) ''s0'' (Some ''u1'') = (Inr (), Some db')
     \<and> map i_id (filter (\<lambda>img. i_version_id img = Some ''u1'') (images_read copied_backend ''s0''))
         = [''u2'', ''u3'']
     \<and> tbl_strategy_images db'
         = set_alt_text ''u3'' ''Crossfire from B'' (tbl_strategy_images copied_backend)
     \<and> map i_alt_text (tbl_strategy_images db')
         = [Some ''Crossfire'', None, None, Some ''Crossfire from B'']"
proof -
  obtain c where u: "onSubmit_descriptions (Some loaded_strategy)
            [(''i1'', '' Crossfire from B ''), (''i2'', ''  '')]
            (Some copied_backend) ''s0'' (Some ''u1'') = (Inr (), c)"
    by (simp add: submit_defs page_defs get_defs prim_defs ex_defs)
  from onSubmit_descriptions_effect[THEN mp, OF u]
  obtain db' where c: "c = Some db'"
    and r: "tbl_strategy_images db'
         = fold (describe_image (Some loaded_strategy)
                   (filter (\<lambda>img. Some ''u1'' \<noteq> None \<and> i_version_id img = Some ''u1'')
                      (images_read copied_backend ''s0'')))
             [(''i1'', '' Crossfire from B ''), (''i2'', ''  '')]
             (tbl_strategy_images copied_backend)"
    by blast
  have n: "map i_id (filter (\<lambda>img. i_version_id img = Some ''u1'')
                       (images_read copied_backend ''s0'')) = [''u2'', ''u3'']"
    by (simp add: submit_defs get_defs prim_defs ex_defs)
  have f: "fold (describe_image (Some loaded_strategy)
                   (filter (\<lambda>img. Some ''u1'' \<noteq> None \<and> i_version_id img = Some ''u1'')
                      (images_read copied_backend ''s0'')))
             [(''i1'', '' Crossfire from B ''), (''i2'', ''  '')]
             (tbl_strategy_images copied_backend)
        = set_alt_text ''u3'' ''Crossfire from B'' (tbl_strategy_images copied_backend)"
    by (simp add: submit_defs page_defs get_defs prim_defs ex_defs)
  have "map i_alt_text (set_alt_text ''u3'' ''Crossfire from B'' (tbl_strategy_images copied_backend))
         = [Some ''Crossfire'', None, None, Some ''Crossfire from B'']"
    by (simp add: set_alt_text_def ex_defs)
  with u c r f n show ?thesis by simp
qed

end
